theory Spec2Isabelle
  imports Complex_Main "HOL-Library.Monad_Syntax"
begin

section \<open>GIFTI data arrays (utils/gifti.cpp)\<close>

text \<open>
  The C code reports failures by \<^verbatim>\<open>exit(1)\<close>, by returning \<^verbatim>\<open>NULL\<close> or by an
  error code, each with a message on stderr. The model tags every such site with one
  constructor of \<open>error\<close>. \<open>UndefinedBehaviour\<close> marks a place where the C code would
  read or write outside an allocated buffer; \<open>Unmodelled\<close> marks an input that the
  model does not cover (an array of more than two dimensions, a raw read of a buffer whose
  elements are not 32 bits wide).
\<close>

datatype error =
    InvalidAccess
  | IndexOutOfRange
  | UnsupportedType
  | InvalidContainer
  | MalformedDataArray
  | MalformedSparseIndex
  | MissingColorTable
  | LabelConsistency
  | OutOfMemory
  | UndefinedBehaviour
  | Unmodelled

text \<open>The NIFTI element types the accessor's switch names; any other code is \<open>NIFTI_TYPE_OTHER\<close>.\<close>

datatype nifti_type =
    NIFTI_TYPE_UINT8
  | NIFTI_TYPE_INT16
  | NIFTI_TYPE_INT32
  | NIFTI_TYPE_FLOAT32
  | NIFTI_TYPE_FLOAT64
  | NIFTI_TYPE_COMPLEX64
  | NIFTI_TYPE_INT8
  | NIFTI_TYPE_UINT16
  | NIFTI_TYPE_UINT32
  | NIFTI_TYPE_OTHER int

datatype gifti_ind_ord =
    GIFTI_IND_ORD_UNDEF
  | GIFTI_IND_ORD_ROW_MAJOR
  | GIFTI_IND_ORD_COL_MAJOR

datatype nifti_intent =
    NIFTI_INTENT_NONE
  | NIFTI_INTENT_POINTSET
  | NIFTI_INTENT_TRIANGLE
  | NIFTI_INTENT_NODE_INDEX
  | NIFTI_INTENT_SHAPE
  | NIFTI_INTENT_LABEL
  | NIFTI_INTENT_VECTOR
  | NIFTI_INTENT_RGB_VECTOR
  | NIFTI_INTENT_RGBA_VECTOR
  | NIFTI_INTENT_GENMATRIX
  | NIFTI_INTENT_TIME_SERIES
  | NIFTI_INTENT_NORMAL
  | NIFTI_INTENT_STAT int

text \<open>
  A coordinate system attached to a data array: the two space tags and the 4x4 matrix,
  stored row by row.
\<close>

record giiCoordSystem =
  dataspace :: string
  xformspace :: string
  xform :: "real list list"

text \<open>
  \<open>giiDataArray\<close>. Only \<open>dims[0]\<close> and \<open>dims[1]\<close> are used by this file. The buffer
  \<open>data\<close> is \<open>None\<close> for a NULL pointer; otherwise it is the sequence of elements of the
  array's own element type, each held as the number it denotes (a C \<open>double\<close> is modelled
  as a real). The metadata is a map from names to values: \<open>gifti_get_meta_value\<close> is
  application, \<open>gifti_add_to_meta\<close> with replace = 1 is map update.
\<close>

record giiDataArray =
  intent :: nifti_intent
  dtype :: nifti_type
  ind_ord :: gifti_ind_ord
  num_dim :: int
  dims0 :: int
  dims1 :: int
  data :: "real list option"
  meta :: "string \<rightharpoonup> string"
  coordsys :: "giiCoordSystem list"

subsection \<open>Conversions between C number types\<close>

text \<open>Conversion of a double to an integer type discards the fraction (towards zero).\<close>

definition c_trunc :: "real \<Rightarrow> int" where
  "c_trunc x = (if 0 \<le> x then \<lfloor>x\<rfloor> else \<lceil>x\<rceil>)"

text \<open>
  The value is then reduced into the range of the target type (the C standard leaves an
  out-of-range conversion undefined; the model wraps, as two's-complement hardware does).
\<close>

definition to_unsigned :: "nat \<Rightarrow> real \<Rightarrow> real" where
  "to_unsigned w x = of_int (c_trunc x mod 2 ^ w)"

definition to_signed :: "nat \<Rightarrow> real \<Rightarrow> real" where
  "to_signed w x = of_int ((c_trunc x + 2 ^ (w - 1)) mod 2 ^ w - 2 ^ (w - 1))"

text \<open>Reading and writing one element of the buffer at a physical offset.\<close>

definition read_elem :: "real list \<Rightarrow> int \<Rightarrow> error + real" where
  "read_elem buf off =
     (if 0 \<le> off \<and> off < int (length buf) then Inr (buf ! nat off)
      else Inl UndefinedBehaviour)"

definition write_elem :: "real list \<Rightarrow> int \<Rightarrow> real \<Rightarrow> error + real list" where
  "write_elem buf off x =
     (if 0 \<le> off \<and> off < int (length buf) then Inr (buf[nat off := x])
      else Inl UndefinedBehaviour)"

subsection \<open>gifti_get_DA_value_2D\<close>

text \<open>
  The physical offset both accessors use once \<open>dim0_index\<close> and \<open>dim1_index\<close> are
  fixed: \<open>(dim0_index * dims_1) + dim1_index\<close> for row-major order and
  \<open>dim0_index + (dim1_index * dims_0)\<close> otherwise. The product is a product of two C
  \<open>int\<close> values, undefined when it leaves the range of \<open>int\<close>; the sums are
  pointer arithmetic on the buffer.
\<close>

definition int_fits :: "int \<Rightarrow> bool" where
  "int_fits i = (- (2 ^ 31) \<le> i \<and> i < 2 ^ 31)"

definition elem_offset :: "gifti_ind_ord \<Rightarrow> int \<Rightarrow> int \<Rightarrow> int \<Rightarrow> int \<Rightarrow> error + int" where
  "elem_offset ord dims_0 dims_1 dim0_index dim1_index =
     (if ord = GIFTI_IND_ORD_ROW_MAJOR then
        (if int_fits (dim0_index * dims_1) then Inr (dim0_index * dims_1 + dim1_index)
         else Inl UndefinedBehaviour)
      else
        (if int_fits (dim1_index * dims_0) then Inr (dim0_index + dim1_index * dims_0)
         else Inl UndefinedBehaviour))"

definition read_at :: "real list \<Rightarrow> gifti_ind_ord \<Rightarrow> int \<Rightarrow> int \<Rightarrow> int \<Rightarrow> int \<Rightarrow> error + real" where
  "read_at buf ord dims_0 dims_1 dim0_index dim1_index =
     (case elem_offset ord dims_0 dims_1 dim0_index dim1_index of
        Inl e \<Rightarrow> Inl e
      | Inr off \<Rightarrow> read_elem buf off)"

definition gifti_get_DA_value_2D :: "giiDataArray \<Rightarrow> int \<Rightarrow> int \<Rightarrow> error + real" where
  "gifti_get_DA_value_2D da row col =
     (case data da of
        None \<Rightarrow> Inl InvalidAccess
      | Some buf \<Rightarrow>
         if num_dim da = 1 \<and> col \<noteq> 0 then Inl InvalidAccess
         else if num_dim da \<noteq> 1 \<and> num_dim da \<noteq> 2 then Inl InvalidAccess
         else
           let dims_0 = dims0 da;
               dims_1 = (if num_dim da = 1 then 1 else dims1 da)
           in
           if ind_ord da \<noteq> GIFTI_IND_ORD_ROW_MAJOR \<and> ind_ord da \<noteq> GIFTI_IND_ORD_COL_MAJOR
           then Inl InvalidAccess
           else
             let dim0_index = row; dim1_index = col in
             if dim0_index < 0 \<or> dim0_index \<ge> dims_0 \<or> dim1_index < 0 \<or> dim1_index \<ge> dims_1
             then Inl IndexOutOfRange
             else
               (case dtype da of
                  NIFTI_TYPE_UINT8 \<Rightarrow> read_at buf (ind_ord da) dims_0 dims_1 dim0_index dim1_index
                | NIFTI_TYPE_INT16 \<Rightarrow> read_at buf (ind_ord da) dims_0 dims_1 dim0_index dim1_index
                | NIFTI_TYPE_INT32 \<Rightarrow> read_at buf (ind_ord da) dims_0 dims_1 dim0_index dim1_index
                | NIFTI_TYPE_FLOAT32 \<Rightarrow> read_at buf (ind_ord da) dims_0 dims_1 dim0_index dim1_index
                | NIFTI_TYPE_FLOAT64 \<Rightarrow> read_at buf (ind_ord da) dims_0 dims_1 dim0_index dim1_index
                | NIFTI_TYPE_COMPLEX64 \<Rightarrow> read_at buf (ind_ord da) dims_0 dims_1 dim0_index dim1_index
                | NIFTI_TYPE_INT8 \<Rightarrow> read_at buf (ind_ord da) dims_0 dims_1 dim0_index dim1_index
                | NIFTI_TYPE_UINT16 \<Rightarrow> read_at buf (ind_ord da) dims_0 dims_1 dim0_index dim1_index
                | NIFTI_TYPE_UINT32 \<Rightarrow> read_at buf (ind_ord da) dims_0 dims_1 dim0_index dim1_index
                | NIFTI_TYPE_OTHER c \<Rightarrow> Inl UnsupportedType))"

subsection \<open>gifti_set_DA_value_2D\<close>

text \<open>
  The C conversion \<open>(float)value\<close> rounds a double to the nearest single-precision number.
  It is the parameter \<open>to_float\<close> of every function that performs it; a value that is
  already a single-precision number is a fixed point of it.

  \<open>gifti_set_DA_value_2D\<close> returns the array and the diagnostic it printed, if any:
  on an index outside the array or an element type without a case it prints and returns
  without writing. For an order other than row-major it sets \<open>dim0_index = col\<close> and
  \<open>dim1_index = row\<close>.
\<close>

definition gifti_set_DA_value_2D ::
  "(real \<Rightarrow> real) \<Rightarrow> giiDataArray \<Rightarrow> int \<Rightarrow> int \<Rightarrow> real \<Rightarrow> error + (giiDataArray \<times> error option)" where
  "gifti_set_DA_value_2D to_float da row col v =
     (case data da of
        None \<Rightarrow> Inl InvalidAccess
      | Some buf \<Rightarrow>
         if num_dim da = 1 \<and> col \<noteq> 0 then Inl InvalidAccess
         else if num_dim da \<noteq> 1 \<and> num_dim da \<noteq> 2 then Inl InvalidAccess
         else
           let dims_0 = dims0 da;
               dims_1 = (if num_dim da = 1 then 1 else dims1 da);
               dim0_index = (if ind_ord da = GIFTI_IND_ORD_ROW_MAJOR \<or> num_dim da = 1 then row else col);
               dim1_index = (if ind_ord da = GIFTI_IND_ORD_ROW_MAJOR \<or> num_dim da = 1 then col else row)
           in
           if dim0_index < 0 \<or> dim0_index \<ge> dims_0 \<or> dim1_index < 0 \<or> dim1_index \<ge> dims_1
           then Inr (da, Some IndexOutOfRange)
           else
             let store = (\<lambda>x. case elem_offset (ind_ord da) dims_0 dims_1 dim0_index dim1_index of
                                 Inl e \<Rightarrow> Inl e
                               | Inr off \<Rightarrow>
                                  (case write_elem buf off x of
                                     Inl e \<Rightarrow> Inl e
                                   | Inr buf' \<Rightarrow> Inr (da\<lparr>data := Some buf'\<rparr>, None)))
             in
             (case dtype da of
                NIFTI_TYPE_UINT8 \<Rightarrow> store (to_unsigned 8 v)
              | NIFTI_TYPE_INT16 \<Rightarrow> store (to_signed 16 v)
              | NIFTI_TYPE_INT32 \<Rightarrow> store (to_signed 32 v)
              | NIFTI_TYPE_FLOAT32 \<Rightarrow> store (to_float v)
              | NIFTI_TYPE_INT8 \<Rightarrow> store (to_signed 8 v)
              | NIFTI_TYPE_UINT16 \<Rightarrow> store (to_unsigned 16 v)
              | NIFTI_TYPE_UINT32 \<Rightarrow> store (to_unsigned 32 v)
              | NIFTI_TYPE_FLOAT64 \<Rightarrow> Inr (da, Some UnsupportedType)
              | NIFTI_TYPE_COMPLEX64 \<Rightarrow> Inr (da, Some UnsupportedType)
              | NIFTI_TYPE_OTHER c \<Rightarrow> Inr (da, Some UnsupportedType)))"


subsection \<open>Element kinds\<close>






section \<open>Text and numbers\<close>

text \<open>
  \<open>sprintf(buf, "%d", i)\<close> and \<open>1 == sscanf(s, "%d", &i)\<close> on unbounded integers:
  decimal digits, most significant first, with a minus sign for a negative number;
  the scan skips leading white space, accepts one sign and stops at the first character
  that is not a digit. \<open>sscanf_d\<close> is \<open>None\<close> when the scan does not return 1.
\<close>

definition digit_char :: "nat \<Rightarrow> char" where
  "digit_char d = ''0123456789'' ! d"

fun dec_nat :: "nat \<Rightarrow> string" where
  "dec_nat n = (if n < 10 then [digit_char n] else dec_nat (n div 10) @ [digit_char (n mod 10)])"

definition sprintf_d :: "int \<Rightarrow> string" where
  "sprintf_d i = (if i < 0 then CHR ''-'' # dec_nat (nat (- i)) else dec_nat (nat i))"

definition is_digit :: "char \<Rightarrow> bool" where
  "is_digit c = (c \<in> set ''0123456789'')"

definition digit_val :: "char \<Rightarrow> nat" where
  "digit_val c = (of_char c :: nat) - 48"

definition is_space :: "char \<Rightarrow> bool" where
  "is_space c = (c \<in> set [CHR '' '', CHR 0x09, CHR 0x0A, CHR 0x0B, CHR 0x0C, CHR 0x0D])"

fun scan_digits :: "nat \<Rightarrow> string \<Rightarrow> nat" where
  "scan_digits acc [] = acc"
| "scan_digits acc (c # cs) =
     (if is_digit c then scan_digits (10 * acc + digit_val c) cs else acc)"

definition scan_unsigned :: "string \<Rightarrow> nat option" where
  "scan_unsigned s =
     (case s of [] \<Rightarrow> None | c # cs \<Rightarrow> if is_digit c then Some (scan_digits 0 s) else None)"

definition sscanf_d :: "string \<Rightarrow> int option" where
  "sscanf_d s =
     (case dropWhile is_space s of
        [] \<Rightarrow> None
      | c # cs \<Rightarrow>
          if c = CHR ''-'' then map_option (\<lambda>n. - int n) (scan_unsigned cs)
          else if c = CHR ''+'' then map_option int (scan_unsigned cs)
          else map_option int (scan_unsigned (c # cs)))"

text \<open>\<open>strstr(haystack, needle) != NULL\<close>: the needle occurs in the haystack.\<close>

fun strstr :: "string \<Rightarrow> string \<Rightarrow> bool" where
  "strstr [] needle = (needle = [])"
| "strstr (c # cs) needle = (take (length needle) (c # cs) = needle \<or> strstr cs needle)"

text \<open>Conversion of a double to \<open>int\<close>.\<close>

definition c_int :: "real \<Rightarrow> int" where
  "c_int x = (c_trunc x + 2 ^ 31) mod 2 ^ 32 - 2 ^ 31"

section \<open>The surface model (MRIS) and the GIFTI image\<close>

text \<open>
  The fields of the C structures that this file reads or writes. Fields whose C name is a
  single letter carry a prefix: \<open>vert_x\<close> is \<open>VERTEX.x\<close>, \<open>vt_num\<close>, \<open>vt_f\<close>, \<open>vt_n\<close>
  are \<open>VERTEX_TOPOLOGY.num\<close>, \<open>.f\<close>, \<open>.n\<close>, and \<open>face_v\<close> is \<open>FACE.v\<close>.
\<close>

record VERTEX =
  vert_x :: real
  vert_y :: real
  vert_z :: real
  curv :: real
  val :: real
  stat :: real
  vert_dx :: real
  vert_dy :: real
  vert_dz :: real
  annotation :: int
  ripflag :: bool
  origarea :: real

record VERTEX_TOPOLOGY =
  vt_num :: int
  vt_f :: "int list"
  vt_n :: "int list"

record FACE =
  face_v :: "int list"

record VOL_GEOM =
  valid :: int
  width :: int
  height :: int
  depth :: int
  xsize :: real
  ysize :: real
  zsize :: real
  x_r :: real
  x_a :: real
  x_s :: real
  y_r :: real
  y_a :: real
  y_s :: real
  z_r :: real
  z_a :: real
  z_s :: real
  c_r :: real
  c_a :: real
  c_s :: real

record CTE =
  cte_name :: string
  ri :: int
  gi :: int
  bi :: int
  ai :: int
  rf :: real
  gf :: real
  bf :: real
  af :: real

record COLOR_TABLE =
  entries :: "CTE option list"
  nentries :: int
  version :: int
  ct_fname :: string

datatype hemisphere_code = LEFT_HEMISPHERE | RIGHT_HEMISPHERE | NO_HEMISPHERE

type_synonym MATRIX = "real list list"

record MRIS =
  nvertices :: int
  nfaces :: int
  vertices :: "VERTEX list"
  vertices_topology :: "VERTEX_TOPOLOGY list"
  faces :: "FACE list"
  fname :: string
  hemisphere :: hemisphere_code
  useRealRAS :: int
  vg :: VOL_GEOM
  xctr :: real
  yctr :: real
  zctr :: real
  group_avg_surface_area :: real
  ncmds :: int
  cmdlines :: "string list"
  SRASToTalSRAS :: "MATRIX option"
  ct :: "COLOR_TABLE option"
  patch :: int

text \<open>
  \<open>giiLabelTable\<close>: \<open>lt_length\<close>, \<open>lt_key\<close>, \<open>lt_label\<close>, \<open>lt_rgba\<close> are the C fields
  \<open>length\<close>, \<open>key\<close>, \<open>label\<close>, \<open>rgba\<close>; \<open>rgba\<close> is optional (NULL).
\<close>

record giiLabelTable =
  lt_length :: int
  lt_key :: "int list"
  lt_label :: "string list"
  lt_rgba :: "real list option"

record gifti_image =
  darray :: "giiDataArray list"
  labeltable :: giiLabelTable

definition numDA :: "gifti_image \<Rightarrow> int" where
  "numDA img = int (length (darray img))"

text \<open>
  The multi-frame volume that receives overlay values. Modelled from the spec:
  \<open>setVoxel(volume, x, y, z, frame)\<close> of the multi-frame volume collaborator stores one
  value at one position of one frame.
\<close>

type_synonym MRI = "int \<times> int \<times> int \<times> int \<Rightarrow> real"

definition MRIsetVoxVal :: "MRI \<Rightarrow> int \<Rightarrow> int \<Rightarrow> int \<Rightarrow> int \<Rightarrow> real \<Rightarrow> MRI" where
  "MRIsetVoxVal mri c r s f x = mri((c, r, s, f) := x)"

text \<open>
  What the file uses but does not define: the C library's floating-point conversions, the
  constants of the surface header, and the routines of the colour-table, matrix and surface
  libraries. They are the fields of one record passed to every function that needs them.
  \<^item> \<open>to_float\<close>: the conversion \<open>(float)x\<close>;
  \<^item> \<open>sscanf_f\<close>: \<open>sscanf(s, "%f", &x)\<close>, \<open>None\<close> when it does not return 1;
  \<^item> \<open>sprintf_f p x\<close>: \<open>sprintf\<close> with \<open>%f\<close> (\<open>p = 6\<close>) or \<open>%.20f\<close> (\<open>p = 20\<close>);
  \<^item> \<open>MAX_CMDS\<close>: the capacity of \<open>mris->cmdlines\<close>; \<open>STRLEN\<close>: the size of a name buffer;
  \<^item> \<open>randomNumber k\<close>: the k-th value drawn from \<open>randomNumber(0, 1)\<close> after
    \<open>setRandomSeed(12)\<close>;
  \<^item> \<open>CTABfindAnnotation ct annot\<close>: the returned code and the index it stores;
  \<^item> \<open>mrisComputeSurfaceDimensions\<close>: the centre it stores in \<open>xctr\<close>, \<open>yctr\<close>, \<open>zctr\<close>;
  \<^item> \<open>MRISreadTransform mris fname\<close>: the value it leaves in \<open>mris->SRASToTalSRAS_\<close>;
  \<^item> \<open>mrisCompleteTopology\<close>, \<open>MRIScomputeNormals\<close>, \<open>UpdateMRIS\<close>: the surface these
    routines of the surface library leave behind;
  \<^item> \<open>FZERO\<close>: the macro that tests a float for (near) zero.
\<close>

record env =
  to_float :: "real \<Rightarrow> real"
  sscanf_f :: "string \<Rightarrow> real option"
  sprintf_f :: "nat \<Rightarrow> real \<Rightarrow> string"
  MAX_CMDS :: int
  STRLEN :: nat
  randomNumber :: "nat \<Rightarrow> real"
  gifti_valid_LabelTable :: "giiLabelTable \<Rightarrow> bool"
  CTABrgb2Annotation :: "int \<Rightarrow> int \<Rightarrow> int \<Rightarrow> int"
  CTABfindAnnotation :: "COLOR_TABLE \<Rightarrow> int \<Rightarrow> int \<times> int"
  MRISRGBToAnnot :: "int \<Rightarrow> int \<Rightarrow> int \<Rightarrow> int"
  mrisComputeSurfaceDimensions :: "VERTEX list \<Rightarrow> real \<times> real \<times> real"
  vg_i_to_r :: "VOL_GEOM \<Rightarrow> MATRIX"
  TkrVox2RASfromVolGeom :: "VOL_GEOM \<Rightarrow> MATRIX"
  MatrixInverse :: "MATRIX \<Rightarrow> MATRIX"
  MatrixMultiply :: "MATRIX \<Rightarrow> MATRIX \<Rightarrow> MATRIX"
  MRISreadTransform :: "MRIS \<Rightarrow> string \<Rightarrow> MATRIX option"
  mrisCompleteTopology :: "MRIS \<Rightarrow> MRIS"
  MRIScomputeNormals :: "MRIS \<Rightarrow> MRIS"
  UpdateMRIS :: "MRIS \<Rightarrow> string \<Rightarrow> MRIS"
  FZERO :: "real \<Rightarrow> bool"

definition VERTICES_PER_FACE :: nat where
  "VERTICES_PER_FACE = 3"

definition TAG_CMDLINE_LEN :: nat where
  "TAG_CMDLINE_LEN = 1024"

text \<open>
  Modelled from the spec: \<open>allocate(nVertices, nFaces) -> MeshModel\<close> of the mesh
  collaborator (\<open>MRISalloc\<close>): a surface with the given counts and every field zero.
\<close>

definition zero_vertex :: VERTEX where
  "zero_vertex = \<lparr>vert_x = 0, vert_y = 0, vert_z = 0, curv = 0, val = 0, stat = 0,
     vert_dx = 0, vert_dy = 0, vert_dz = 0, annotation = 0, ripflag = False, origarea = 0\<rparr>"

definition zero_vg :: VOL_GEOM where
  "zero_vg = \<lparr>valid = 0, width = 0, height = 0, depth = 0, xsize = 0, ysize = 0, zsize = 0,
     x_r = 0, x_a = 0, x_s = 0, y_r = 0, y_a = 0, y_s = 0, z_r = 0, z_a = 0, z_s = 0,
     c_r = 0, c_a = 0, c_s = 0\<rparr>"

definition MRISalloc :: "int \<Rightarrow> int \<Rightarrow> MRIS" where
  "MRISalloc nv nf =
     \<lparr>nvertices = nv, nfaces = nf,
      vertices = replicate (nat nv) zero_vertex,
      vertices_topology = replicate (nat nv) \<lparr>vt_num = 0, vt_f = [], vt_n = []\<rparr>,
      faces = replicate (nat nf) \<lparr>face_v = replicate VERTICES_PER_FACE 0\<rparr>,
      fname = [], hemisphere = NO_HEMISPHERE, useRealRAS = 0, vg = zero_vg,
      xctr = 0, yctr = 0, zctr = 0, group_avg_surface_area = 0,
      ncmds = 0, cmdlines = [], SRASToTalSRAS = None, ct = None, patch = 0\<rparr>"


section \<open>mrisReadGIFTIdanum\<close>

text \<open>
  \<^verbatim>\<open>for (i = 0; i < n; i++) body\<close> with a body that may abort the read: the indices
  are visited in order and the first failure ends the loop.
\<close>

fun for_loop :: "'i list \<Rightarrow> ('i \<Rightarrow> 's \<Rightarrow> error + 's) \<Rightarrow> 's \<Rightarrow> error + 's" where
  "for_loop [] body s = Inr s"
| "for_loop (i # rest) body s =
     (case body i s of Inl e \<Rightarrow> Inl e | Inr s' \<Rightarrow> for_loop rest body s')"

subsection \<open>LabelTable into a colour table (lines 374-479)\<close>

definition color_byte :: "real \<Rightarrow> int" where
  "color_byte c = (if \<lfloor>c * 256\<rfloor> > 255 then 255 else \<lfloor>c * 256\<rfloor>)"

definition random_rgba :: "env \<Rightarrow> nat \<Rightarrow> real list" where
  "random_rgba E n =
     concat (map (\<lambda>label_index.
        [to_float E (randomNumber E (3 * label_index)),
         to_float E (randomNumber E (3 * label_index + 1)),
         to_float E (randomNumber E (3 * label_index + 2)),
         1]) [0..<n])"

definition make_cte :: "env \<Rightarrow> string \<Rightarrow> real list \<Rightarrow> nat \<Rightarrow> CTE" where
  "make_cte E lab rgba label_index =
     \<lparr>cte_name = take (STRLEN E - 1) lab,
      ri = color_byte (rgba ! (4 * label_index)),
      gi = color_byte (rgba ! (4 * label_index + 1)),
      bi = color_byte (rgba ! (4 * label_index + 2)),
      ai = color_byte (rgba ! (4 * label_index + 3)),
      rf = rgba ! (4 * label_index),
      gf = rgba ! (4 * label_index + 1),
      bf = rgba ! (4 * label_index + 2),
      af = rgba ! (4 * label_index + 3)\<rparr>"

text \<open>
  The result is the label table (with generated colours when the file had none) and the
  colour table, if the label table is not empty. A label table whose arrays are shorter
  than its length would be read past their end.
\<close>

definition read_labeltable ::
  "env \<Rightarrow> string \<Rightarrow> giiLabelTable \<Rightarrow> error + (giiLabelTable \<times> COLOR_TABLE option)" where
  "read_labeltable E fn lt =
     (if lt_length lt > 0 then
        if \<not> gifti_valid_LabelTable E lt then Inl InvalidContainer
        else
          let n = nat (lt_length lt);
              rgba = (case lt_rgba lt of None \<Rightarrow> random_rgba E n | Some r \<Rightarrow> r)
          in
          if length (lt_label lt) < n then Inl UndefinedBehaviour
          else if length rgba < 4 * n then Inl UndefinedBehaviour
          else
            Inr (lt\<lparr>lt_rgba := Some rgba\<rparr>,
                 Some \<lparr>entries = map (\<lambda>label_index. Some (make_cte E (lt_label lt ! label_index) rgba label_index)) [0..<n] @ [None],
                       nentries = lt_length lt,
                       version = 2,
                       ct_fname = take (STRLEN E - 1) fn\<rparr>)
      else Inr (lt, None))"

text \<open>
  Modelled from the spec: valid-entry counting of the colour-table collaborator
  (\<open>CTABgetNumberOfValidEntries\<close>): the number of entries that are present.
\<close>

definition CTABgetNumberOfValidEntries :: "COLOR_TABLE \<Rightarrow> int" where
  "CTABgetNumberOfValidEntries t =
     int (length (filter (\<lambda>e. e \<noteq> None) (take (nat (nentries t)) (entries t))))"

subsection \<open>Rows and columns of a data array\<close>

text \<open>
  Modelled from the spec: the TypedArray invariant (buffer length = product of the declared
  dims) gives \<open>nvals\<close>; \<open>gifti_DA_rows_cols\<close> of the container library reports, for a
  1-D array, \<open>dims[0]\<close> rows of one column, and for a 2-D array the slowest-changing
  dimension as rows (\<open>dims[0]\<close> for row-major, \<open>dims[1]\<close> for column-major order) and
  \<open>nvals / rows\<close> columns.
\<close>

definition gifti_darray_nvals :: "giiDataArray \<Rightarrow> int" where
  "gifti_darray_nvals da =
     (if dims0 da \<le> 0 then 0
      else if num_dim da = 1 then dims0 da
      else if dims1 da \<le> 0 then 0
      else dims0 da * dims1 da)"

definition gifti_DA_rows_cols :: "giiDataArray \<Rightarrow> error + (int \<times> int)" where
  "gifti_DA_rows_cols da =
     (if num_dim da = 1 then Inr (dims0 da, 1)
      else if num_dim da = 2 then
        (if ind_ord da = GIFTI_IND_ORD_ROW_MAJOR then
           Inr (dims0 da, if dims0 da = 0 then 1 else gifti_darray_nvals da div dims0 da)
         else
           Inr (dims1 da, if dims1 da > 0 then gifti_darray_nvals da div dims1 da else 1))
      else Inl Unmodelled)"

text \<open>
  The call pattern of this file: for row-major order the rows are the vertices, otherwise
  the two results are taken the other way round. The result is (num_vertices, num_cols).
\<close>

definition DA_vertices_cols :: "giiDataArray \<Rightarrow> error + (int \<times> int)" where
  "DA_vertices_cols da =
     (case gifti_DA_rows_cols da of
        Inl e \<Rightarrow> Inl e
      | Inr (r, c) \<Rightarrow> if ind_ord da = GIFTI_IND_ORD_ROW_MAJOR then Inr (r, c) else Inr (c, r))"

subsection \<open>Coordinate and face arrays (lines 486-496)\<close>

definition find_coords_faces ::
  "giiDataArray list \<Rightarrow> giiDataArray option \<times> giiDataArray option" where
  "find_coords_faces das =
     fold (\<lambda>da (c, f).
             if intent da = NIFTI_INTENT_POINTSET then (Some da, f)
             else if intent da = NIFTI_INTENT_TRIANGLE then (c, Some da)
             else (c, f)) das (None, None)"

subsection \<open>Volume geometry (lines 575-673)\<close>

text \<open>
  One metadata field: if the key is present and the scan returns 1, the field receives the
  value and the counter \<open>vgvalid\<close> goes up by one.
\<close>

definition scan_meta_d :: "(string \<rightharpoonup> string) \<Rightarrow> string \<Rightarrow> int \<Rightarrow> int \<Rightarrow> int \<times> int" where
  "scan_meta_d m key old vgvalid =
     (case m key of
        None \<Rightarrow> (old, vgvalid)
      | Some stmp \<Rightarrow> (case sscanf_d stmp of None \<Rightarrow> (old, vgvalid) | Some k \<Rightarrow> (k, vgvalid + 1)))"

definition scan_meta_f :: "env \<Rightarrow> (string \<rightharpoonup> string) \<Rightarrow> string \<Rightarrow> real \<Rightarrow> int \<Rightarrow> real \<times> int" where
  "scan_meta_f E m key old vgvalid =
     (case m key of
        None \<Rightarrow> (old, vgvalid)
      | Some stmp \<Rightarrow> (case sscanf_f E stmp of None \<Rightarrow> (old, vgvalid) | Some x \<Rightarrow> (x, vgvalid + 1)))"

definition read_volgeom :: "env \<Rightarrow> (string \<rightharpoonup> string) \<Rightarrow> MRIS \<Rightarrow> MRIS" where
  "read_volgeom E m mris =
     (let g = vg mris;
          (v_width, n1) = scan_meta_d m ''VolGeomWidth'' (width g) 0;
          (v_height, n2) = scan_meta_d m ''VolGeomHeight'' (height g) n1;
          (v_depth, n3) = scan_meta_d m ''VolGeomDepth'' (depth g) n2;
          (v_xsize, n4) = scan_meta_f E m ''VolGeomXsize'' (xsize g) n3;
          (v_ysize, n5) = scan_meta_f E m ''VolGeomYsize'' (ysize g) n4;
          (v_zsize, n6) = scan_meta_f E m ''VolGeomZsize'' (zsize g) n5;
          (v_x_r, n7) = scan_meta_f E m ''VolGeomX_R'' (x_r g) n6;
          (v_x_a, n8) = scan_meta_f E m ''VolGeomX_A'' (x_a g) n7;
          (v_x_s, n9) = scan_meta_f E m ''VolGeomX_S'' (x_s g) n8;
          (v_y_r, n10) = scan_meta_f E m ''VolGeomY_R'' (y_r g) n9;
          (v_y_a, n11) = scan_meta_f E m ''VolGeomY_A'' (y_a g) n10;
          (v_y_s, n12) = scan_meta_f E m ''VolGeomY_S'' (y_s g) n11;
          (v_z_r, n13) = scan_meta_f E m ''VolGeomZ_R'' (z_r g) n12;
          (v_z_a, n14) = scan_meta_f E m ''VolGeomZ_A'' (z_a g) n13;
          (v_z_s, n15) = scan_meta_f E m ''VolGeomZ_S'' (z_s g) n14;
          (v_c_r, n16) = scan_meta_f E m ''VolGeomC_R'' (c_r g) n15;
          (v_c_a, n17) = scan_meta_f E m ''VolGeomC_A'' (c_a g) n16;
          (v_c_s, n18) = scan_meta_f E m ''VolGeomC_S'' (c_s g) n17;
          v_valid = (if n18 = 18 then 1 else valid g);
          (v_xctr, n19) = scan_meta_f E m ''SurfaceCenterX'' (xctr mris) n18;
          (v_yctr, n20) = scan_meta_f E m ''SurfaceCenterY'' (yctr mris) n19;
          (v_zctr, n21) = scan_meta_f E m ''SurfaceCenterZ'' (zctr mris) n20
      in mris\<lparr>vg := \<lparr>valid = v_valid, width = v_width, height = v_height, depth = v_depth,
                      xsize = v_xsize, ysize = v_ysize, zsize = v_zsize,
                      x_r = v_x_r, x_a = v_x_a, x_s = v_x_s,
                      y_r = v_y_r, y_a = v_y_a, y_s = v_y_s,
                      z_r = v_z_r, z_a = v_z_a, z_s = v_z_s,
                      c_r = v_c_r, c_a = v_c_a, c_s = v_c_s\<rparr>,
               xctr := v_xctr, yctr := v_yctr, zctr := v_zctr\<rparr>)"

subsection \<open>Group average surface area and command lines (lines 675-717)\<close>

definition read_group_avg_surface_area :: "env \<Rightarrow> (string \<rightharpoonup> string) \<Rightarrow> MRIS \<Rightarrow> MRIS" where
  "read_group_avg_surface_area E m mris =
     (case m ''TAG_GROUP_AVG_SURFACE_AREA'' of
        None \<Rightarrow> mris
      | Some s \<Rightarrow> (case sscanf_f E s of
                     None \<Rightarrow> mris
                   | Some x \<Rightarrow> mris\<lparr>group_avg_surface_area := x\<rparr>))"

text \<open>
  \<^verbatim>\<open>while (toskip) gifti_get_meta_value(&coords->meta, "TAG_CMDLINE");\<close>
  The body does not change \<open>toskip\<close>. The result \<open>None\<close> stands for a loop that does
  not return.
\<close>

partial_function (option) skip_cmdlines :: "int \<Rightarrow> unit option" where
  "skip_cmdlines toskip = (if toskip \<noteq> 0 then skip_cmdlines toskip else Some ())"

declare skip_cmdlines.simps [code]

text \<open>
  The loop over \<open>ncmd\<close>: \<open>k\<close> iterations are left; a missing tag ends the loop
  (\<open>break\<close>). The copy keeps at most \<open>TAG_CMDLINE_LEN\<close> characters.
\<close>

fun read_cmdlines_loop :: "(string \<rightharpoonup> string) \<Rightarrow> nat \<Rightarrow> int \<Rightarrow> string list \<Rightarrow> string list" where
  "read_cmdlines_loop m 0 ncmd cl = cl"
| "read_cmdlines_loop m (Suc k) ncmd cl =
     (case m (''TAG_CMDLINE#'' @ sprintf_d ncmd) of
        None \<Rightarrow> cl
      | Some cmdline \<Rightarrow> read_cmdlines_loop m k (ncmd + 1) (cl @ [take TAG_CMDLINE_LEN cmdline]))"

definition read_cmdlines :: "env \<Rightarrow> (string \<rightharpoonup> string) \<Rightarrow> MRIS \<Rightarrow> MRIS option" where
  "read_cmdlines E m mris =
     (let stored = (case m ''NUM_TAG_CMDLINE'' of
                      None \<Rightarrow> ncmds mris
                    | Some s \<Rightarrow> (case sscanf_d s of None \<Rightarrow> ncmds mris | Some k \<Rightarrow> k));
          numcmds = stored;
          kept = (if stored > MAX_CMDS E then MAX_CMDS E else stored);
          toskip = (if numcmds > MAX_CMDS E then numcmds - MAX_CMDS E else 0)
      in do {
           _ \<leftarrow> skip_cmdlines toskip;
           Some (mris\<lparr>ncmds := kept,
                      cmdlines := read_cmdlines_loop m (nat kept) 0 (cmdlines mris)\<rparr>)
         })"


subsection \<open>Vertices, faces and topology (lines 719-765)\<close>

text \<open>
  The surface comes from \<open>MRISalloc(num_vertices, num_faces)\<close>, so the vertex and face
  indices of these loops are inside its arrays. A vertex number read from the face array is
  used as an index without a check.
\<close>

definition copy_vertex :: "env \<Rightarrow> giiDataArray \<Rightarrow> nat \<Rightarrow> MRIS \<Rightarrow> error + MRIS" where
  "copy_vertex E coords vertex_index mris =
     (case gifti_get_DA_value_2D coords (int vertex_index) 0 of Inl e \<Rightarrow> Inl e | Inr xv \<Rightarrow>
     (case gifti_get_DA_value_2D coords (int vertex_index) 1 of Inl e \<Rightarrow> Inl e | Inr yv \<Rightarrow>
     (case gifti_get_DA_value_2D coords (int vertex_index) 2 of Inl e \<Rightarrow> Inl e | Inr zv \<Rightarrow>
        Inr (mris\<lparr>vertices_topology :=
                     (vertices_topology mris)[vertex_index :=
                        (vertices_topology mris ! vertex_index)\<lparr>vt_num := 0\<rparr>],
                  vertices :=
                     (vertices mris)[vertex_index :=
                        (vertices mris ! vertex_index)
                          \<lparr>vert_x := to_float E xv, vert_y := to_float E yv,
                           vert_z := to_float E zv, origarea := - 1\<rparr>]\<rparr>))))"

definition copy_face_vertex :: "giiDataArray \<Rightarrow> nat \<Rightarrow> nat \<Rightarrow> MRIS \<Rightarrow> error + MRIS" where
  "copy_face_vertex fcs face_index face_vertex_index mris =
     (case gifti_get_DA_value_2D fcs (int face_index) (int face_vertex_index) of
        Inl e \<Rightarrow> Inl e
      | Inr x \<Rightarrow>
          let vertex_index = c_int x in
          if vertex_index < 0 then Inl UndefinedBehaviour
          else if vertex_index \<ge> int (length (vertices_topology mris)) then Inl UndefinedBehaviour
          else
            let mris1 = mris\<lparr>faces :=
                   (faces mris)[face_index :=
                      (faces mris ! face_index)
                        \<lparr>face_v := (face_v (faces mris ! face_index))[face_vertex_index := vertex_index]\<rparr>]\<rparr>
            in Inr (mris1\<lparr>vertices_topology :=
                   (vertices_topology mris1)[nat vertex_index :=
                      (vertices_topology mris1 ! nat vertex_index)
                        \<lparr>vt_num := vt_num (vertices_topology mris1 ! nat vertex_index) + 1\<rparr>]\<rparr>))"

definition copy_face :: "giiDataArray \<Rightarrow> nat \<Rightarrow> MRIS \<Rightarrow> error + MRIS" where
  "copy_face fcs face_index mris =
     for_loop [0..<VERTICES_PER_FACE] (copy_face_vertex fcs face_index) mris"

text \<open>Every vertex gets face and slot lists of \<open>num\<close> zeros, and \<open>num\<close> goes back to 0.\<close>

definition alloc_face_lists :: "MRIS \<Rightarrow> MRIS" where
  "alloc_face_lists mris =
     mris\<lparr>vertices_topology :=
        map (\<lambda>vt. vt\<lparr>vt_f := replicate (nat (vt_num vt)) 0,
                      vt_n := replicate (nat (vt_num vt)) 0,
                      vt_num := 0\<rparr>) (vertices_topology mris)\<rparr>"

text \<open>
  \<^verbatim>\<open>vertices_topology[face->v[n]].f[vertices_topology[face->v[n]].num++] = face_index\<close>
\<close>

definition add_face_to_vertex :: "nat \<Rightarrow> nat \<Rightarrow> MRIS \<Rightarrow> MRIS" where
  "add_face_to_vertex face_index n mris =
     (let vno = nat (face_v (faces mris ! face_index) ! n);
          vt = vertices_topology mris ! vno
      in mris\<lparr>vertices_topology :=
           (vertices_topology mris)[vno :=
              vt\<lparr>vt_f := (vt_f vt)[nat (vt_num vt) := int face_index],
                 vt_num := vt_num vt + 1\<rparr>]\<rparr>)"

definition build_face_lists :: "MRIS \<Rightarrow> MRIS" where
  "build_face_lists mris =
     fold (\<lambda>face_index. fold (add_face_to_vertex face_index) [0..<VERTICES_PER_FACE])
       [0..<nat (nfaces mris)] mris"

text \<open>
  \<^verbatim>\<open>if (faces[vertices_topology[vertex_index].f[n]].v[m] == vertex_index)
      vertices_topology[vertex_index].n[n] = m;\<close>
\<close>

definition set_slot :: "nat \<Rightarrow> nat \<Rightarrow> nat \<Rightarrow> MRIS \<Rightarrow> MRIS" where
  "set_slot vertex_index n m mris =
     (let vt = vertices_topology mris ! vertex_index in
      if face_v (faces mris ! nat (vt_f vt ! n)) ! m = int vertex_index
      then mris\<lparr>vertices_topology :=
             (vertices_topology mris)[vertex_index := vt\<lparr>vt_n := (vt_n vt)[n := int m]\<rparr>]\<rparr>
      else mris)"

definition find_slots_vertex :: "nat \<Rightarrow> MRIS \<Rightarrow> MRIS" where
  "find_slots_vertex vertex_index mris =
     fold (\<lambda>n. fold (set_slot vertex_index n) [0..<VERTICES_PER_FACE])
       [0..<nat (vt_num (vertices_topology mris ! vertex_index))] mris"

definition find_slots :: "nat \<Rightarrow> MRIS \<Rightarrow> MRIS" where
  "find_slots num_vertices mris = fold find_slots_vertex [0..<num_vertices] mris"

subsection \<open>Coordinate systems (lines 767-786)\<close>

definition read_coordsys :: "env \<Rightarrow> giiCoordSystem list \<Rightarrow> MRIS \<Rightarrow> MRIS" where
  "read_coordsys E css mris =
     fold (\<lambda>cs mris.
             if dataspace cs = ''NIFTI_XFORM_SCANNER_ANAT'' then mris\<lparr>useRealRAS := 1\<rparr>
             else if dataspace cs = ''NIFTI_XFORM_UNKNOWN'' then
               (if xformspace cs = ''NIFTI_XFORM_TALAIRACH''
                then mris\<lparr>SRASToTalSRAS := Some (map (map (to_float E)) (xform cs))\<rparr>
                else mris)
             else mris) css mris"

subsection \<open>A surface from the coordinate and face arrays (lines 501-797)\<close>

text \<open>
  \<open>mrisCompleteTopology\<close> (line 765), \<open>MRIScomputeNormals\<close> and \<open>UpdateMRIS\<close>
  (lines 795-796) belong to the surface library; they are the parameters of the same names.
  \<open>None\<close> is a read that does not return.
\<close>

definition hemisphere_of :: "string option \<Rightarrow> hemisphere_code" where
  "hemisphere_of hemi =
     (if hemi = Some ''CortexRight'' then RIGHT_HEMISPHERE
      else if hemi = Some ''CortexLeft'' then LEFT_HEMISPHERE
      else NO_HEMISPHERE)"

text \<open>
  The allocated surface with the fields that come from the metadata of the coordinates
  array, before the command lines are read (lines 544-680).
\<close>

definition new_surface :: "env \<Rightarrow> string \<Rightarrow> giiDataArray \<Rightarrow> int \<Rightarrow> int \<Rightarrow> MRIS" where
  "new_surface E fn coords num_vertices num_faces =
     (let mris = MRISalloc num_vertices num_faces;
          mris = mris\<lparr>fname := fn,
                      hemisphere := hemisphere_of (meta coords ''AnatomicalStructurePrimary''),
                      useRealRAS := 0\<rparr>;
          mris = read_volgeom E (meta coords) mris
      in read_group_avg_surface_area E (meta coords) mris)"

definition set_surface_center :: "env \<Rightarrow> MRIS \<Rightarrow> MRIS" where
  "set_surface_center E mris =
     (let (cx, cy, cz) = mrisComputeSurfaceDimensions E (vertices mris)
      in mris\<lparr>xctr := cx, yctr := cy, zctr := cz\<rparr>)"

definition read_surface :: "env \<Rightarrow> string \<Rightarrow> giiDataArray \<Rightarrow> giiDataArray \<Rightarrow> (error + MRIS) option" where
  "read_surface E fn coords fcs =
     (case DA_vertices_cols coords of
        Inl e \<Rightarrow> Some (Inl e)
      | Inr (num_vertices, num_cols) \<Rightarrow>
        if num_vertices \<le> 0 then Some (Inl MalformedDataArray)
        else if num_cols \<noteq> 3 then Some (Inl MalformedDataArray)
        else
          (case DA_vertices_cols fcs of
             Inl e \<Rightarrow> Some (Inl e)
           | Inr (num_faces, num_cols) \<Rightarrow>
             if num_faces \<le> 0 then Some (Inl MalformedDataArray)
             else if num_cols \<noteq> 3 then Some (Inl MalformedDataArray)
             else
               do {
                 mris \<leftarrow> read_cmdlines E (meta coords)
                           (new_surface E fn coords num_vertices num_faces);
                 Some (case for_loop [0..<nat num_vertices] (copy_vertex E coords) mris of
                         Inl e \<Rightarrow> Inl e
                       | Inr mris \<Rightarrow>
                           (case for_loop [0..<nat num_faces] (copy_face fcs)
                                   (set_surface_center E mris) of
                              Inl e \<Rightarrow> Inl e
                            | Inr mris \<Rightarrow>
                                Inr (UpdateMRIS E
                                       (MRIScomputeNormals E
                                          (read_coordsys E (coordsys coords)
                                             (mrisCompleteTopology E
                                                (find_slots (nat num_vertices)
                                                   (build_face_lists (alloc_face_lists mris))))))
                                       fn)))
               }))"

subsection \<open>The other data arrays (lines 824-1152)\<close>

text \<open>
  The state of the loop over the data arrays: the surface, the optional volume and its
  frame counter, the two "already read" flags and the sparse node index.
\<close>

record parse_state =
  ps_mris :: MRIS
  ps_outmri :: "MRI option"
  ps_frame :: int
  found_curv_data :: int
  found_statval_data :: int
  node_index :: "giiDataArray option"
  num_index_nodes :: int

text \<open>\<open>mris->vertices[vno]\<close>; a vertex number outside the array is not checked by the code.\<close>

definition vertex_at :: "MRIS \<Rightarrow> int \<Rightarrow> error + VERTEX" where
  "vertex_at mris vno =
     (if 0 \<le> vno \<and> vno < int (length (vertices mris)) then Inr (vertices mris ! nat vno)
      else Inl UndefinedBehaviour)"

definition set_vertex :: "MRIS \<Rightarrow> int \<Rightarrow> VERTEX \<Rightarrow> MRIS" where
  "set_vertex mris vno v = mris\<lparr>vertices := (vertices mris)[nat vno := v]\<rparr>"

definition expected_num_cols :: "nifti_intent \<Rightarrow> int" where
  "expected_num_cols i =
     (if i = NIFTI_INTENT_VECTOR then 3
      else if i = NIFTI_INTENT_RGB_VECTOR then 3
      else if i = NIFTI_INTENT_RGBA_VECTOR then 4
      else if i = NIFTI_INTENT_GENMATRIX then 9
      else 1)"

text \<open>Shape data, sparse and regular indexing (lines 943-967).\<close>

definition read_curv_sparse ::
  "env \<Rightarrow> giiDataArray \<Rightarrow> giiDataArray \<Rightarrow> int \<Rightarrow> nat \<Rightarrow> MRIS \<times> MRI option \<Rightarrow> error + (MRIS \<times> MRI option)" where
  "read_curv_sparse E ni da frame nindex st =
     (case gifti_get_DA_value_2D ni (int nindex) 0 of
        Inl e \<Rightarrow> Inl e
      | Inr x \<Rightarrow>
         (let vno = c_int x in
          case vertex_at (fst st) vno of
            Inl e \<Rightarrow> Inl e
          | Inr v \<Rightarrow>
             if ripflag v then Inr st
             else
               (case gifti_get_DA_value_2D da (int nindex) 0 of
                  Inl e \<Rightarrow> Inl e
                | Inr y \<Rightarrow>
                    Inr (set_vertex (fst st) vno (v\<lparr>curv := to_float E y\<rparr>),
                         map_option (\<lambda>mri. MRIsetVoxVal mri vno 0 0 frame (to_float E y)) (snd st)))))"

definition read_curv_regular ::
  "env \<Rightarrow> giiDataArray \<Rightarrow> int \<Rightarrow> nat \<Rightarrow> MRIS \<times> MRI option \<Rightarrow> error + (MRIS \<times> MRI option)" where
  "read_curv_regular E da frame vno st =
     (case vertex_at (fst st) (int vno) of
        Inl e \<Rightarrow> Inl e
      | Inr v \<Rightarrow>
         if ripflag v then Inr st
         else
           (case gifti_get_DA_value_2D da (int vno) 0 of
              Inl e \<Rightarrow> Inl e
            | Inr y \<Rightarrow>
                Inr (set_vertex (fst st) (int vno) (v\<lparr>curv := to_float E y\<rparr>),
                     map_option (\<lambda>mri. MRIsetVoxVal mri (int vno) 0 0 frame (to_float E y)) (snd st))))"

text \<open>Statistics and all other intents (lines 1120-1146).\<close>

definition read_stat_sparse ::
  "env \<Rightarrow> giiDataArray \<Rightarrow> giiDataArray \<Rightarrow> int \<Rightarrow> nat \<Rightarrow> MRIS \<times> MRI option \<Rightarrow> error + (MRIS \<times> MRI option)" where
  "read_stat_sparse E ni da frame nindex st =
     (case gifti_get_DA_value_2D ni (int nindex) 0 of
        Inl e \<Rightarrow> Inl e
      | Inr x \<Rightarrow>
         (let vno = c_int x in
          case vertex_at (fst st) vno of
            Inl e \<Rightarrow> Inl e
          | Inr v \<Rightarrow>
             if ripflag v then Inr st
             else
               (case gifti_get_DA_value_2D da (int nindex) 0 of
                  Inl e \<Rightarrow> Inl e
                | Inr y \<Rightarrow>
                    Inr (set_vertex (fst st) vno (v\<lparr>val := to_float E y, stat := to_float E y\<rparr>),
                         map_option (\<lambda>mri. MRIsetVoxVal mri vno 0 0 frame (to_float E y)) (snd st)))))"

definition read_stat_regular ::
  "env \<Rightarrow> giiDataArray \<Rightarrow> int \<Rightarrow> nat \<Rightarrow> MRIS \<times> MRI option \<Rightarrow> error + (MRIS \<times> MRI option)" where
  "read_stat_regular E da frame vno st =
     (case vertex_at (fst st) (int vno) of
        Inl e \<Rightarrow> Inl e
      | Inr v \<Rightarrow>
         if ripflag v then Inr st
         else
           (case gifti_get_DA_value_2D da (int vno) 0 of
              Inl e \<Rightarrow> Inl e
            | Inr y \<Rightarrow>
                Inr (set_vertex (fst st) (int vno) (v\<lparr>val := to_float E y, stat := to_float E y\<rparr>),
                     map_option (\<lambda>mri. MRIsetVoxVal mri (int vno) 0 frame 0 (to_float E y)) (snd st))))"

text \<open>Vector data (lines 1041-1052).\<close>

definition read_vector_vertex :: "env \<Rightarrow> giiDataArray \<Rightarrow> nat \<Rightarrow> MRIS \<Rightarrow> error + MRIS" where
  "read_vector_vertex E da vno mris =
     (case vertex_at mris (int vno) of
        Inl e \<Rightarrow> Inl e
      | Inr v \<Rightarrow>
         if ripflag v then Inr mris
         else
           (case gifti_get_DA_value_2D da (int vno) 0 of Inl e \<Rightarrow> Inl e | Inr a \<Rightarrow>
           (case gifti_get_DA_value_2D da (int vno) 1 of Inl e \<Rightarrow> Inl e | Inr b \<Rightarrow>
           (case gifti_get_DA_value_2D da (int vno) 2 of Inl e \<Rightarrow> Inl e | Inr c \<Rightarrow>
              Inr (set_vertex mris (int vno)
                     (v\<lparr>vert_dx := to_float E a, vert_dy := to_float E b, vert_dz := to_float E c\<rparr>))))))"

text \<open>
  RGB and RGBA data (lines 1053-1096). \<open>rgb_byte\<close> is the conversion of one component:
  \<^verbatim>\<open>if (red > 1) r = (int)red; else r = (int)floor(red * 256); if (r > 255) r = 255;\<close>
  \<open>read_rgb_components\<close> is the triple handed to \<open>MRISRGBToAnnot\<close>.
\<close>

definition rgb_byte :: "real \<Rightarrow> int" where
  "rgb_byte c =
     (let r = (if c > 1 then c_int c else c_int (of_int \<lfloor>c * 256\<rfloor>))
      in if r > 255 then 255 else r)"

definition read_rgb_components :: "env \<Rightarrow> giiDataArray \<Rightarrow> nat \<Rightarrow> error + (int \<times> int \<times> int)" where
  "read_rgb_components E da vno =
     (case gifti_get_DA_value_2D da (int vno) 0 of Inl e \<Rightarrow> Inl e | Inr red \<Rightarrow>
     (case gifti_get_DA_value_2D da (int vno) 0 of Inl e \<Rightarrow> Inl e | Inr green \<Rightarrow>
     (case gifti_get_DA_value_2D da (int vno) 0 of Inl e \<Rightarrow> Inl e | Inr blue \<Rightarrow>
        Inr (rgb_byte (to_float E red), rgb_byte (to_float E green), rgb_byte (to_float E blue)))))"

definition read_rgb_vertex :: "env \<Rightarrow> giiDataArray \<Rightarrow> nat \<Rightarrow> MRIS \<Rightarrow> error + MRIS" where
  "read_rgb_vertex E da vno mris =
     (case vertex_at mris (int vno) of
        Inl e \<Rightarrow> Inl e
      | Inr v \<Rightarrow>
         if ripflag v then Inr mris
         else
           (case read_rgb_components E da vno of
              Inl e \<Rightarrow> Inl e
            | Inr (r, g, b) \<Rightarrow>
                Inr (set_vertex mris (int vno) (v\<lparr>annotation := MRISRGBToAnnot E r g b\<rparr>))))"

text \<open>
  Label data (lines 973-1040). The code reads the buffer as \<open>unsigned int *\<close> at
  \<open>da_index\<close>, without the accessor; the model covers 32-bit integer arrays.
\<close>

definition read_label_data :: "giiDataArray \<Rightarrow> int \<Rightarrow> error + int" where
  "read_label_data da da_index =
     (case data da of
        None \<Rightarrow> Inl UndefinedBehaviour
      | Some buf \<Rightarrow>
          if dtype da = NIFTI_TYPE_INT32 \<or> dtype da = NIFTI_TYPE_UINT32 then
            (case read_elem buf da_index of Inl e \<Rightarrow> Inl e | Inr x \<Rightarrow> Inr (c_int x))
          else Inl Unmodelled)"

text \<open>The first \<open>table_index < nentries\<close> whose key is \<open>table_key\<close>, or \<open>nentries\<close>.\<close>

definition find_table_index :: "int list \<Rightarrow> nat \<Rightarrow> int \<Rightarrow> error + nat" where
  "find_table_index keys n table_key =
     (if length (takeWhile (\<lambda>k. k \<noteq> table_key) keys) < n \<and>
         length (takeWhile (\<lambda>k. k \<noteq> table_key) keys) < length keys
      then Inr (length (takeWhile (\<lambda>k. k \<noteq> table_key) keys))
      else if n \<le> length keys then Inr n
      else Inl UndefinedBehaviour)"

definition label_vertex ::
  "env \<Rightarrow> giiLabelTable \<Rightarrow> COLOR_TABLE \<Rightarrow> giiDataArray \<Rightarrow> int \<Rightarrow> int \<Rightarrow> VERTEX \<Rightarrow> MRIS \<Rightarrow> error + MRIS" where
  "label_vertex E lt ctab da da_index vno v mris =
     (case read_label_data da da_index of
        Inl e \<Rightarrow> Inl e
      | Inr table_key \<Rightarrow>
         (case find_table_index (lt_key lt) (nat (nentries ctab)) table_key of
            Inl e \<Rightarrow> Inl e
          | Inr table_index \<Rightarrow>
             (case (if int table_index < nentries ctab then
                      (if table_index < length (entries ctab) then
                         (case entries ctab ! table_index of
                            None \<Rightarrow> Inl UndefinedBehaviour
                          | Some e \<Rightarrow> Inr (CTABrgb2Annotation E (ri e) (gi e) (bi e)))
                       else Inl UndefinedBehaviour)
                    else Inr 0) of
                Inl e \<Rightarrow> Inl e
              | Inr annot \<Rightarrow>
                 (case ct mris of
                    None \<Rightarrow> Inl UndefinedBehaviour
                  | Some mct \<Rightarrow>
                     (let mris1 = set_vertex mris vno (v\<lparr>annotation := annot\<rparr>);
                          res = CTABfindAnnotation E mct annot
                      in if fst res \<noteq> 0 then Inl LabelConsistency
                         else if snd res < 0 then Inl LabelConsistency
                         else if snd res > lt_length lt then Inl LabelConsistency
                         else Inr mris1)))))"

text \<open>
  The \<open>while (vno < mris->nvertices)\<close> loop. On a vertex with the rip flag the code
  executes \<open>continue\<close> before \<open>vno\<close> or \<open>nindex\<close> has been advanced. \<open>None\<close> is a loop
  that does not return.
\<close>

partial_function (option) read_label_loop ::
  "env \<Rightarrow> giiLabelTable \<Rightarrow> COLOR_TABLE \<Rightarrow> giiDataArray \<Rightarrow> giiDataArray option \<Rightarrow> int
     \<Rightarrow> int \<Rightarrow> int \<Rightarrow> MRIS \<Rightarrow> (error + MRIS) option" where
  "read_label_loop E lt ctab da ni n_index_nodes nindex vno mris =
     (if vno < nvertices mris then
        (case (case ni of
                 None \<Rightarrow> Inr (vno, vno)
               | Some nda \<Rightarrow>
                  (case gifti_get_DA_value_2D nda nindex 0 of
                     Inl e \<Rightarrow> Inl e
                   | Inr x \<Rightarrow> Inr (c_int x, nindex))) of
           Inl e \<Rightarrow> Some (Inl e)
         | Inr (vno1, da_index) \<Rightarrow>
            (case vertex_at mris vno1 of
               Inl e \<Rightarrow> Some (Inl e)
             | Inr v \<Rightarrow>
                if ripflag v
                then read_label_loop E lt ctab da ni n_index_nodes nindex vno1 mris
                else
                  (case label_vertex E lt ctab da da_index vno1 v mris of
                     Inl e \<Rightarrow> Some (Inl e)
                   | Inr mris1 \<Rightarrow>
                      (case ni of
                         Some nda \<Rightarrow>
                           if nindex + 1 \<ge> n_index_nodes then Some (Inr mris1)
                           else read_label_loop E lt ctab da ni n_index_nodes (nindex + 1) vno1 mris1
                       | None \<Rightarrow>
                           read_label_loop E lt ctab da ni n_index_nodes nindex (vno1 + 1) mris1))))
      else Some (Inr mris))"

declare read_label_loop.simps [code]


text \<open>
  One data array of the loop (the body of \<open>for (numDA = startDAnum; ...)\<close>).
  \<open>ctab\<close> is the local colour table \<open>ct\<close>.
\<close>

definition read_shape :: "env \<Rightarrow> giiDataArray \<Rightarrow> parse_state \<Rightarrow> error + parse_state" where
  "read_shape E da st =
     (if found_curv_data st \<noteq> 0 then Inr st
      else
        (case (case node_index st of
                 Some ni \<Rightarrow>
                   for_loop [0..<nat (num_index_nodes st)]
                     (read_curv_sparse E ni da (ps_frame st)) (ps_mris st, ps_outmri st)
               | None \<Rightarrow>
                   for_loop [0..<nat (nvertices (ps_mris st))]
                     (read_curv_regular E da (ps_frame st)) (ps_mris st, ps_outmri st)) of
           Inl e \<Rightarrow> Inl e
         | Inr (mris1, outmri1) \<Rightarrow>
             Inr (st\<lparr>ps_mris := mris1, ps_outmri := outmri1,
                     ps_frame := (if outmri1 \<noteq> None then ps_frame st + 1 else ps_frame st),
                     found_curv_data := found_curv_data st + 1\<rparr>)))"

definition read_statval :: "env \<Rightarrow> giiDataArray \<Rightarrow> parse_state \<Rightarrow> error + parse_state" where
  "read_statval E da st =
     (if found_statval_data st \<noteq> 0 then Inr st
      else
        (case (case node_index st of
                 Some ni \<Rightarrow>
                   for_loop [0..<nat (num_index_nodes st)]
                     (read_stat_sparse E ni da (ps_frame st)) (ps_mris st, ps_outmri st)
               | None \<Rightarrow>
                   for_loop [0..<nat (nvertices (ps_mris st))]
                     (read_stat_regular E da (ps_frame st)) (ps_mris st, ps_outmri st)) of
           Inl e \<Rightarrow> Inl e
         | Inr (mris1, outmri1) \<Rightarrow>
             Inr (st\<lparr>ps_mris := mris1, ps_outmri := outmri1,
                     ps_frame := (if outmri1 \<noteq> None then ps_frame st + 1 else ps_frame st),
                     found_statval_data := found_statval_data st + 1\<rparr>)))"

definition read_node_index :: "nat \<Rightarrow> giiDataArray \<Rightarrow> parse_state \<Rightarrow> error + parse_state" where
  "read_node_index numDA_index da st =
     (if numDA_index \<noteq> 0 then Inl MalformedSparseIndex
      else
        (case DA_vertices_cols da of
           Inl e \<Rightarrow> Inl e
         | Inr (n_index_nodes, num_cols) \<Rightarrow>
             if n_index_nodes \<le> 0 then Inl MalformedSparseIndex
             else if n_index_nodes > nvertices (ps_mris st) then Inl MalformedSparseIndex
             else if num_cols > 1 then Inl MalformedSparseIndex
             else Inr (st\<lparr>node_index := Some da, num_index_nodes := n_index_nodes\<rparr>)))"

definition parse_darray ::
  "env \<Rightarrow> giiLabelTable \<Rightarrow> COLOR_TABLE option \<Rightarrow> nat \<Rightarrow> giiDataArray \<Rightarrow> parse_state
     \<Rightarrow> (error + parse_state) option" where
  "parse_darray E lt ctab numDA_index da st =
     (if intent da = NIFTI_INTENT_POINTSET \<or> intent da = NIFTI_INTENT_TRIANGLE then Some (Inr st)
      else if intent da = NIFTI_INTENT_NODE_INDEX then Some (read_node_index numDA_index da st)
      else
        (case DA_vertices_cols da of
           Inl e \<Rightarrow> Some (Inl e)
         | Inr (num_vertices, num_cols) \<Rightarrow>
             if num_vertices \<le> 0 then Some (Inl MalformedDataArray)
             else if num_vertices \<noteq> nvertices (ps_mris st) then Some (Inl MalformedDataArray)
             else if num_cols > expected_num_cols (intent da) then Some (Inl MalformedDataArray)
             else if intent da = NIFTI_INTENT_SHAPE then Some (read_shape E da st)
             else if intent da = NIFTI_INTENT_LABEL then
               (case ct (ps_mris st) of
                  None \<Rightarrow> Some (Inl MissingColorTable)
                | Some mct \<Rightarrow>
                   (case ctab of
                      None \<Rightarrow> Some (Inl MissingColorTable)
                    | Some t \<Rightarrow>
                       (case read_label_loop E lt t da (node_index st) (num_index_nodes st) 0 0 (ps_mris st) of
                          None \<Rightarrow> None
                        | Some (Inl e) \<Rightarrow> Some (Inl e)
                        | Some (Inr mris1) \<Rightarrow> Some (Inr (st\<lparr>ps_mris := mris1\<rparr>)))))
             else if intent da = NIFTI_INTENT_VECTOR then
               (case for_loop [0..<nat (nvertices (ps_mris st))] (read_vector_vertex E da) (ps_mris st) of
                  Inl e \<Rightarrow> Some (Inl e)
                | Inr mris1 \<Rightarrow> Some (Inr (st\<lparr>ps_mris := mris1\<rparr>)))
             else if intent da = NIFTI_INTENT_RGB_VECTOR \<or> intent da = NIFTI_INTENT_RGBA_VECTOR then
               (case for_loop [0..<nat (nvertices (ps_mris st))] (read_rgb_vertex E da) (ps_mris st) of
                  Inl e \<Rightarrow> Some (Inl e)
                | Inr mris1 \<Rightarrow> Some (Inr (st\<lparr>ps_mris := mris1\<rparr>)))
             else if intent da = NIFTI_INTENT_GENMATRIX then Some (Inr st)
             else Some (read_statval E da st)))"

fun parse_darrays ::
  "env \<Rightarrow> gifti_image \<Rightarrow> COLOR_TABLE option \<Rightarrow> nat list \<Rightarrow> parse_state \<Rightarrow> (error + parse_state) option" where
  "parse_darrays E img ctab [] st = Some (Inr st)"
| "parse_darrays E img ctab (numDA_index # rest) st =
     (if numDA_index \<ge> length (darray img) then Some (Inl UndefinedBehaviour)
      else
        (case parse_darray E (labeltable img) ctab numDA_index (darray img ! numDA_index) st of
           None \<Rightarrow> None
         | Some (Inl e) \<Rightarrow> Some (Inl e)
         | Some (Inr st1) \<Rightarrow> parse_darrays E img ctab rest st1))"

subsection \<open>The whole read\<close>

text \<open>
  \<open>img\<close> is the image that \<open>gifti_read_image\<close> returned and \<open>gifti_valid_gifti_image\<close>
  accepted (both belong to the container library). \<open>mris_in\<close> is the caller's surface, if
  any. The result is \<open>None\<close> when the function does not return, \<open>Some (Inl e)\<close> when it
  returns NULL or exits, and otherwise the surface, the volume and the frame counter.
\<close>

definition mrisReadGIFTIdanum ::
  "env \<Rightarrow> string \<Rightarrow> gifti_image \<Rightarrow> MRIS option \<Rightarrow> int \<Rightarrow> MRI option \<Rightarrow> int
     \<Rightarrow> (error + (MRIS \<times> MRI option \<times> int)) option" where
  "mrisReadGIFTIdanum E fn img0 mris_in daNum outmri frame =
     (case read_labeltable E fn (labeltable img0) of
        Inl e \<Rightarrow> Some (Inl e)
      | Inr (lt, ctab) \<Rightarrow>
         (let img = img0\<lparr>labeltable := lt\<rparr> in
          case (case find_coords_faces (darray img) of
                  (Some coords, Some fcs) \<Rightarrow>
                     (case read_surface E fn coords fcs of
                        None \<Rightarrow> None
                      | Some (Inl e) \<Rightarrow> Some (Inl e)
                      | Some (Inr m) \<Rightarrow> Some (Inr (Some m)))
                | (Some coords, None) \<Rightarrow> Some (Inr mris_in)
                | (None, f) \<Rightarrow> Some (Inr mris_in)) of
            None \<Rightarrow> None
          | Some (Inl e) \<Rightarrow> Some (Inl e)
          | Some (Inr None) \<Rightarrow> Some (Inl InvalidAccess)
          | Some (Inr (Some mris0)) \<Rightarrow>
             (case (case ctab of
                      None \<Rightarrow> Inr mris0
                    | Some t \<Rightarrow>
                        if CTABgetNumberOfValidEntries t \<noteq> lt_length lt then Inl LabelConsistency
                        else Inr (mris0\<lparr>ct := Some t\<rparr>)) of
                Inl e \<Rightarrow> Some (Inl e)
              | Inr mris1 \<Rightarrow>
                 (if daNum \<noteq> - 1 \<and> daNum < 0 then Some (Inl UndefinedBehaviour)
                  else
                    (case parse_darrays E img ctab
                            (if daNum \<noteq> - 1 then [nat daNum] else [0..<length (darray img)])
                            \<lparr>ps_mris = mris1, ps_outmri = outmri, ps_frame = frame,
                             found_curv_data = 0, found_statval_data = 0,
                             node_index = None, num_index_nodes = 0\<rparr> of
                       None \<Rightarrow> None
                     | Some (Inl e) \<Rightarrow> Some (Inl e)
                     | Some (Inr st) \<Rightarrow> Some (Inr (ps_mris st, ps_outmri st, ps_frame st)))))))"


section \<open>MRISwriteGIFTISurface\<close>

text \<open>
  \<open>gifti_alloc_and_add_darray\<close> returns a new array, appended to the image, with no
  metadata and no coordinate system; \<open>calloc\<close> returns a zeroed buffer of \<open>nvals\<close>
  elements. Both are taken to succeed.
\<close>

definition new_darray :: "nifti_intent \<Rightarrow> nifti_type \<Rightarrow> int \<Rightarrow> int \<Rightarrow> int \<Rightarrow> giiDataArray" where
  "new_darray i t nd d0 d1 =
     \<lparr>intent = i, dtype = t, ind_ord = GIFTI_IND_ORD_ROW_MAJOR, num_dim = nd,
      dims0 = d0, dims1 = d1, data = None, meta = Map.empty, coordsys = []\<rparr>"

definition alloc_data :: "giiDataArray \<Rightarrow> giiDataArray" where
  "alloc_data da = da\<lparr>data := Some (replicate (nat (gifti_darray_nvals da)) 0)\<rparr>"

definition add_meta :: "giiDataArray \<Rightarrow> string \<Rightarrow> string \<Rightarrow> giiDataArray" where
  "add_meta da name v = da\<lparr>meta := (meta da)(name \<mapsto> v)\<rparr>"

definition MatrixIdentity4 :: MATRIX where
  "MatrixIdentity4 = [[1, 0, 0, 0], [0, 1, 0, 0], [0, 0, 1, 0], [0, 0, 0, 1]]"

text \<open>
  The coordinate system of the coordinates array (lines 1916-2008): the surface, which
  \<open>MRISreadTransform\<close> may change, and the coordinate systems attached.
\<close>

definition surface_coordsys :: "env \<Rightarrow> MRIS \<Rightarrow> string \<Rightarrow> MRIS \<times> giiCoordSystem list" where
  "surface_coordsys E mris out_fname =
     (if useRealRAS mris \<noteq> 0 then
        (if valid (vg mris) \<noteq> 0 then
           (mris, [\<lparr>dataspace = ''NIFTI_XFORM_SCANNER_ANAT'', xformspace = ''NIFTI_XFORM_UNKNOWN'',
                    xform = MatrixMultiply E (TkrVox2RASfromVolGeom E (vg mris))
                              (MatrixInverse E (vg_i_to_r E (vg mris)))\<rparr>])
         else
           (mris, [\<lparr>dataspace = ''NIFTI_XFORM_SCANNER_ANAT'', xformspace = ''NIFTI_XFORM_SCANNER_ANAT'',
                    xform = MatrixIdentity4\<rparr>]))
      else
        (if valid (vg mris) \<noteq> 0 then
           (mris, [\<lparr>dataspace = ''NIFTI_XFORM_UNKNOWN'', xformspace = ''NIFTI_XFORM_SCANNER_ANAT'',
                    xform = MatrixMultiply E (vg_i_to_r E (vg mris))
                              (MatrixInverse E (TkrVox2RASfromVolGeom E (vg mris)))\<rparr>])
         else
           (let mris1 = mris\<lparr>SRASToTalSRAS := MRISreadTransform E mris out_fname\<rparr> in
            case SRASToTalSRAS mris1 of
              None \<Rightarrow> (mris1, [])
            | Some M \<Rightarrow>
                if length M = 4 \<and> list_all (\<lambda>r. length r = 4) M
                then (mris1, [\<lparr>dataspace = ''NIFTI_XFORM_UNKNOWN'',
                               xformspace = ''NIFTI_XFORM_TALAIRACH'', xform = M\<rparr>])
                else (mris1, []))))"

text \<open>The loop that copies the vertex positions (lines 2026-2035).\<close>

definition write_vertex :: "env \<Rightarrow> MRIS \<Rightarrow> nat \<Rightarrow> giiDataArray \<Rightarrow> error + giiDataArray" where
  "write_vertex E mris vertex_index coords =
     (case vertex_at mris (int vertex_index) of
        Inl e \<Rightarrow> Inl e
      | Inr v \<Rightarrow>
         if ripflag v then Inr coords
         else
           (case gifti_set_DA_value_2D (to_float E) coords (int vertex_index) 0 (vert_x v) of
              Inl e \<Rightarrow> Inl e
            | Inr (c1, d1) \<Rightarrow>
           (case gifti_set_DA_value_2D (to_float E) c1 (int vertex_index) 1 (vert_y v) of
              Inl e \<Rightarrow> Inl e
            | Inr (c2, d2) \<Rightarrow>
           (case gifti_set_DA_value_2D (to_float E) c2 (int vertex_index) 2 (vert_z v) of
              Inl e \<Rightarrow> Inl e
            | Inr (c3, d3) \<Rightarrow> Inr c3))))"

text \<open>
  A face is left out when one of its three vertices has the rip flag (lines 2051-2062 and
  2097-2112); the vertex numbers of the face are used as indices without a check.
\<close>

definition face_is_ripped :: "MRIS \<Rightarrow> nat \<Rightarrow> error + bool" where
  "face_is_ripped mris face_index =
     (if face_index \<ge> length (faces mris) then Inl UndefinedBehaviour
      else if length (face_v (faces mris ! face_index)) < VERTICES_PER_FACE then Inl UndefinedBehaviour
      else
        (case vertex_at mris (face_v (faces mris ! face_index) ! 0) of
           Inl e \<Rightarrow> Inl e
         | Inr v0 \<Rightarrow>
            if ripflag v0 then Inr True
            else
              (case vertex_at mris (face_v (faces mris ! face_index) ! 1) of
                 Inl e \<Rightarrow> Inl e
               | Inr v1 \<Rightarrow>
                  if ripflag v1 then Inr True
                  else
                    (case vertex_at mris (face_v (faces mris ! face_index) ! 2) of
                       Inl e \<Rightarrow> Inl e
                     | Inr v2 \<Rightarrow> Inr (ripflag v2)))))"

definition count_face :: "MRIS \<Rightarrow> nat \<Rightarrow> int \<Rightarrow> error + int" where
  "count_face mris face_index numFaces =
     (case face_is_ripped mris face_index of
        Inl e \<Rightarrow> Inl e
      | Inr r \<Rightarrow> if r then Inr numFaces else Inr (numFaces + 1))"

definition write_face :: "env \<Rightarrow> MRIS \<Rightarrow> nat \<Rightarrow> giiDataArray \<times> int \<Rightarrow> error + (giiDataArray \<times> int)" where
  "write_face E mris face_index st =
     (case face_is_ripped mris face_index of
        Inl e \<Rightarrow> Inl e
      | Inr r \<Rightarrow>
         if r then Inr st
         else
           (case gifti_set_DA_value_2D (to_float E) (fst st) (snd st) 0
                   (of_int (face_v (faces mris ! face_index) ! 0)) of
              Inl e \<Rightarrow> Inl e
            | Inr (f1, d1) \<Rightarrow>
           (case gifti_set_DA_value_2D (to_float E) f1 (snd st) 1
                   (of_int (face_v (faces mris ! face_index) ! 1)) of
              Inl e \<Rightarrow> Inl e
            | Inr (f2, d2) \<Rightarrow>
           (case gifti_set_DA_value_2D (to_float E) f2 (snd st) 2
                   (of_int (face_v (faces mris ! face_index) ! 2)) of
              Inl e \<Rightarrow> Inl e
            | Inr (f3, d3) \<Rightarrow> Inr (f3, snd st + 1)))))"

text \<open>Metadata from the file name (lines 2116-2188); a later match replaces an earlier one.\<close>

definition name_primary :: "string \<Rightarrow> string option" where
  "name_primary name =
     (let p = None;
          p = (if strstr name ''lh.'' then Some ''CortexLeft'' else p);
          p = (if strstr name ''rh.'' then Some ''CortexRight'' else p)
      in p)"

definition name_secondary :: "string \<Rightarrow> string option" where
  "name_secondary name =
     (let q = None;
          q = (if strstr name ''.orig'' then Some ''GrayWhite'' else q);
          q = (if strstr name ''.smoothwm'' then Some ''GrayWhite'' else q);
          q = (if strstr name ''.white'' then Some ''GrayWhite'' else q);
          q = (if strstr name ''.graymid'' then Some ''MidThickness'' else q);
          q = (if strstr name ''.gray'' then Some ''Pial'' else q);
          q = (if strstr name ''.pial'' then Some ''Pial'' else q)
      in q)"

definition name_geotype :: "string \<Rightarrow> string option" where
  "name_geotype name =
     (let g = None;
          g = (if strstr name ''.orig'' then Some ''Reconstruction'' else g);
          g = (if strstr name ''.smoothwm'' then Some ''Reconstruction'' else g);
          g = (if strstr name ''.white'' then Some ''Anatomical'' else g);
          g = (if strstr name ''.gray'' then Some ''Anatomical'' else g);
          g = (if strstr name ''.graymid'' then Some ''Anatomical'' else g);
          g = (if strstr name ''.pial'' then Some ''Anatomical'' else g);
          g = (if strstr name ''.inflated'' then Some ''Inflated'' else g);
          g = (if strstr name ''.sphere'' then Some ''Sphere'' else g);
          g = (if strstr name ''.qsphere'' then Some ''Sphere'' else g);
          g = (if strstr name ''pial-outer'' then Some ''Hull'' else g)
      in g)"

definition add_meta_opt :: "giiDataArray \<Rightarrow> string \<Rightarrow> string option \<Rightarrow> giiDataArray" where
  "add_meta_opt da name v = (case v of None \<Rightarrow> da | Some x \<Rightarrow> add_meta da name x)"

definition write_name_meta :: "MRIS \<Rightarrow> giiDataArray \<times> giiDataArray \<Rightarrow> giiDataArray \<times> giiDataArray" where
  "write_name_meta mris cf =
     (if fname mris \<noteq> [] then
        (let coords = add_meta_opt (fst cf) ''AnatomicalStructurePrimary'' (name_primary (fname mris));
             coords = add_meta_opt coords ''AnatomicalStructureSecondary'' (name_secondary (fname mris));
             coords = add_meta_opt coords ''GeometricType'' (name_geotype (fname mris));
             fcs = add_meta (snd cf) ''TopologicalType'' (if patch mris \<noteq> 0 then ''Cut'' else ''Closed'');
             coords = add_meta coords ''Name'' (fname mris);
             fcs = add_meta fcs ''Name'' (fname mris)
         in (coords, fcs))
      else cf)"

text \<open>Volume geometry and surface centre (lines 2190-2242).\<close>

definition write_volgeom_meta :: "env \<Rightarrow> MRIS \<Rightarrow> giiDataArray \<Rightarrow> giiDataArray" where
  "write_volgeom_meta E mris coords0 =
     (if valid (vg mris) \<noteq> 0 then
        (let g = vg mris;
             coords = add_meta coords0 ''VolGeomWidth'' (sprintf_d (width g));
             coords = add_meta coords ''VolGeomHeight'' (sprintf_d (height g));
             coords = add_meta coords ''VolGeomDepth'' (sprintf_d (depth g));
             coords = add_meta coords ''VolGeomXsize'' (sprintf_f E 6 (xsize g));
             coords = add_meta coords ''VolGeomYsize'' (sprintf_f E 6 (ysize g));
             coords = add_meta coords ''VolGeomZsize'' (sprintf_f E 6 (zsize g));
             coords = add_meta coords ''VolGeomX_R'' (sprintf_f E 6 (x_r g));
             coords = add_meta coords ''VolGeomX_A'' (sprintf_f E 6 (x_a g));
             coords = add_meta coords ''VolGeomX_S'' (sprintf_f E 6 (x_s g));
             coords = add_meta coords ''VolGeomY_R'' (sprintf_f E 6 (y_r g));
             coords = add_meta coords ''VolGeomY_A'' (sprintf_f E 6 (y_a g));
             coords = add_meta coords ''VolGeomY_S'' (sprintf_f E 6 (y_s g));
             coords = add_meta coords ''VolGeomZ_R'' (sprintf_f E 6 (z_r g));
             coords = add_meta coords ''VolGeomZ_A'' (sprintf_f E 6 (z_a g));
             coords = add_meta coords ''VolGeomZ_S'' (sprintf_f E 6 (z_s g));
             coords = add_meta coords ''VolGeomC_R'' (sprintf_f E 6 (c_r g));
             coords = add_meta coords ''VolGeomC_A'' (sprintf_f E 6 (c_a g));
             coords = add_meta coords ''VolGeomC_S'' (sprintf_f E 6 (c_s g));
             coords = add_meta coords ''SurfaceCenterX'' (sprintf_f E 6 (xctr mris));
             coords = add_meta coords ''SurfaceCenterY'' (sprintf_f E 6 (yctr mris));
             coords = add_meta coords ''SurfaceCenterZ'' (sprintf_f E 6 (zctr mris))
         in coords)
      else coords0)"

text \<open>Group average surface area and command lines (lines 2244-2269).\<close>

definition write_cmdline :: "MRIS \<Rightarrow> nat \<Rightarrow> giiDataArray \<Rightarrow> error + giiDataArray" where
  "write_cmdline mris ncmd coords =
     (if ncmd \<ge> length (cmdlines mris) then Inl UndefinedBehaviour
      else Inr (add_meta coords (''TAG_CMDLINE#'' @ sprintf_d (int ncmd))
                  (take (TAG_CMDLINE_LEN - 1) (cmdlines mris ! ncmd))))"

definition write_cmdlines :: "MRIS \<Rightarrow> giiDataArray \<Rightarrow> error + giiDataArray" where
  "write_cmdlines mris coords =
     (if ncmds mris > 0 then
        for_loop [0..<nat (ncmds mris)] (write_cmdline mris)
          (add_meta coords ''NUM_TAG_CMDLINE'' (sprintf_d (ncmds mris)))
      else Inr coords)"

definition MRISwriteGIFTISurface ::
  "env \<Rightarrow> MRIS \<Rightarrow> gifti_image \<Rightarrow> string \<Rightarrow> error + (gifti_image \<times> MRIS)" where
  "MRISwriteGIFTISurface E mris0 img out_fname =
     (let coords = new_darray NIFTI_INTENT_POINTSET NIFTI_TYPE_FLOAT32 2 (nvertices mris0) 3;
          (mris, css) = surface_coordsys E mris0 out_fname;
          coords = alloc_data (coords\<lparr>coordsys := css\<rparr>)
      in
      case for_loop [0..<nat (nvertices mris)] (write_vertex E mris) coords of
        Inl e \<Rightarrow> Inl e
      | Inr coords \<Rightarrow>
         (case for_loop [0..<nat (nfaces mris)] (count_face mris) 0 of
            Inl e \<Rightarrow> Inl e
          | Inr numFaces \<Rightarrow>
             (let fcs = alloc_data (new_darray NIFTI_INTENT_TRIANGLE NIFTI_TYPE_INT32 2 numFaces 3) in
              case for_loop [0..<nat (nfaces mris)] (write_face E mris) (fcs, 0) of
                Inl e \<Rightarrow> Inl e
              | Inr (fcs, faceNum) \<Rightarrow>
                 (let (coords, fcs) = write_name_meta mris (coords, fcs);
                      coords = write_volgeom_meta E mris coords;
                      coords = (if \<not> FZERO E (group_avg_surface_area mris)
                                then add_meta coords ''TAG_GROUP_AVG_SURFACE_AREA''
                                       (sprintf_f E 20 (group_avg_surface_area mris))
                                else coords)
                  in case write_cmdlines mris coords of
                       Inl e \<Rightarrow> Inl e
                     | Inr coords \<Rightarrow> Inr (img\<lparr>darray := darray img @ [coords, fcs]\<rparr>, mris)))))"

section \<open>MRISwriteGIFTILabel\<close>

text \<open>
  The label table built from the colour table (lines 1744-1807): one step of the loop over
  \<open>idx\<close>, appending the key, the name and the four colour values of entry \<open>idx\<close>, and
  the diagnostic printed for an empty name.
\<close>

definition label_name :: "string \<Rightarrow> nat \<Rightarrow> string" where
  "label_name name idx = (if length name \<noteq> 0 then name else ''unknown_'' @ sprintf_d (int idx))"

definition label_rgba :: "CTE \<Rightarrow> string \<Rightarrow> real list" where
  "label_rgba e lab =
     (if length (cte_name e) = 0 \<or> lab = ''unknown'' \<or> lab = ''Unknown''
      then [0, 0, 0, 0]
      else [rf e, gf e, bf e, 1])"

definition add_label :: "COLOR_TABLE \<Rightarrow> nat \<Rightarrow> giiLabelTable \<times> string list \<Rightarrow> error + (giiLabelTable \<times> string list)" where
  "add_label t idx st =
     (if idx \<ge> length (entries t) then Inl UndefinedBehaviour
      else
        (case entries t ! idx of
           None \<Rightarrow> Inl UndefinedBehaviour
         | Some e \<Rightarrow>
            (let lab = label_name (cte_name e) idx;
                 lt = fst st
             in Inr (lt\<lparr>lt_key := lt_key lt @ [int idx],
                        lt_label := lt_label lt @ [lab],
                        lt_rgba := Some ((case lt_rgba lt of None \<Rightarrow> [] | Some r \<Rightarrow> r) @ label_rgba e lab)\<rparr>,
                     if length (cte_name e) \<noteq> 0 then snd st
                     else snd st @ [''name=NULL, assigned as '' @ lab]))))"

definition build_labeltable :: "COLOR_TABLE \<Rightarrow> error + (giiLabelTable \<times> string list)" where
  "build_labeltable t =
     (if nentries t = 0 then Inl MissingColorTable
      else
        for_loop [0..<nat (nentries t)] (add_label t)
          (\<lparr>lt_length = nentries t, lt_key = [], lt_label = [], lt_rgba = Some []\<rparr>, []))"

text \<open>The label of one vertex (lines 1864-1875): the index of its annotation in the table.\<close>

definition write_label :: "env \<Rightarrow> MRIS \<Rightarrow> COLOR_TABLE \<Rightarrow> nat \<Rightarrow> real list \<Rightarrow> error + real list" where
  "write_label E mris t label_index label_data =
     (case vertex_at mris (int label_index) of
        Inl e \<Rightarrow> Inl e
      | Inr v \<Rightarrow>
         if ripflag v then Inr label_data
         else if fst (CTABfindAnnotation E t (annotation v)) \<noteq> 0 then Inl LabelConsistency
         else write_elem label_data (int label_index)
                (to_unsigned 32 (of_int (snd (CTABfindAnnotation E t (annotation v))))))"

definition MRISwriteGIFTILabel :: "env \<Rightarrow> MRIS \<Rightarrow> gifti_image \<Rightarrow> error + (gifti_image \<times> string list)" where
  "MRISwriteGIFTILabel E mris img =
     (case ct mris of
        None \<Rightarrow> Inl UndefinedBehaviour
      | Some t \<Rightarrow>
         (case build_labeltable t of
            Inl e \<Rightarrow> Inl e
          | Inr (lt, diag) \<Rightarrow>
             (let labels = new_darray NIFTI_INTENT_LABEL NIFTI_TYPE_INT32 1 (nvertices mris) 0;
                  labels = add_meta labels ''Name'' ''node label'';
                  labels = (if lt_length lt = 2 then add_meta labels ''Name'' (lt_label lt ! 1) else labels);
                  labels = alloc_data labels
              in case for_loop [0..<nat (nvertices mris)] (write_label E mris t)
                        (case data labels of None \<Rightarrow> [] | Some buf \<Rightarrow> buf) of
                   Inl e \<Rightarrow> Inl e
                 | Inr label_data \<Rightarrow>
                     Inr (img\<lparr>labeltable := lt,
                              darray := darray img @ [labels\<lparr>data := Some label_data\<rparr>]\<rparr>, diag))))"


subsection \<open>Example arrays\<close>




text \<open>
  An environment for the examples: single-precision rounding as the identity (the example
  values are single-precision numbers), room for two command lines, and the colour packing
  \<open>r + 256 g + 65536 b\<close>.
\<close>

definition example_env :: env where
  "example_env =
     \<lparr>to_float = (\<lambda>x. x), sscanf_f = (\<lambda>s. map_option of_int (sscanf_d s)),
      sprintf_f = (\<lambda>p x. sprintf_d \<lfloor>x\<rfloor>), MAX_CMDS = 2, STRLEN = 100,
      randomNumber = (\<lambda>k. 1 / 2), gifti_valid_LabelTable = (\<lambda>lt. True),
      CTABrgb2Annotation = (\<lambda>r g b. r + 256 * g + 65536 * b),
      CTABfindAnnotation = (\<lambda>t a. (0, 0)),
      MRISRGBToAnnot = (\<lambda>r g b. r + 256 * g + 65536 * b),
      mrisComputeSurfaceDimensions = (\<lambda>vs. (0, 0, 0)),
      vg_i_to_r = (\<lambda>g. MatrixIdentity4), TkrVox2RASfromVolGeom = (\<lambda>g. MatrixIdentity4),
      MatrixInverse = (\<lambda>M. M), MatrixMultiply = (\<lambda>A B. A),
      MRISreadTransform = (\<lambda>m f. None),
      mrisCompleteTopology = (\<lambda>m. m), MRIScomputeNormals = (\<lambda>m. m), UpdateMRIS = (\<lambda>m f. m),
      FZERO = (\<lambda>x. x = 0)\<rparr>"

definition no_labels :: giiLabelTable where
  "no_labels = \<lparr>lt_length = 0, lt_key = [], lt_label = [], lt_rgba = None\<rparr>"

text \<open>The image that \<open>MRISwriteGIFTI\<close> allocates: no data arrays, no labels.\<close>

definition new_image :: gifti_image where
  "new_image = \<lparr>darray = [], labeltable = no_labels\<rparr>"

text \<open>
  A file with one vertex at the origin and one face, whose coordinates array carries the
  given metadata.
\<close>

definition one_triangle_image :: "(string \<rightharpoonup> string) \<Rightarrow> gifti_image" where
  "one_triangle_image m =
     \<lparr>darray =
        [(alloc_data (new_darray NIFTI_INTENT_POINTSET NIFTI_TYPE_FLOAT32 2 1 3))\<lparr>meta := m\<rparr>,
         alloc_data (new_darray NIFTI_INTENT_TRIANGLE NIFTI_TYPE_INT32 2 1 3)],
      labeltable = no_labels\<rparr>"

text \<open>A one-dimensional row-major array with the given intent, element type and elements.\<close>

definition vector_array :: "nifti_intent \<Rightarrow> nifti_type \<Rightarrow> real list \<Rightarrow> giiDataArray" where
  "vector_array i t xs =
     (new_darray i t 1 (int (length xs)) 0)\<lparr>data := Some xs\<rparr>"

text \<open>
  A label file for a surface of one vertex: one label with key 0, and a LABEL array that
  gives the vertex that label.
\<close>

definition label_image :: gifti_image where
  "label_image =
     \<lparr>darray = [vector_array NIFTI_INTENT_LABEL NIFTI_TYPE_INT32 [0]],
      labeltable = \<lparr>lt_length = 1, lt_key = [0], lt_label = [''a''], lt_rgba = Some [1, 0, 0, 1]\<rparr>\<rparr>"

text \<open>A surface of one vertex, which has the rip flag, and no face.\<close>

definition ripped_surface :: MRIS where
  "ripped_surface = (MRISalloc 1 0)\<lparr>vertices := [zero_vertex\<lparr>ripflag := True\<rparr>]\<rparr>"

text \<open>
  A sparse shape file for a surface of three vertices: the node index lists vertices 0 and
  2, and the SHAPE array has one value for each listed vertex.
\<close>

definition sparse_shape_image :: gifti_image where
  "sparse_shape_image =
     \<lparr>darray = [vector_array NIFTI_INTENT_NODE_INDEX NIFTI_TYPE_INT32 [0, 2],
                 vector_array NIFTI_INTENT_SHAPE NIFTI_TYPE_FLOAT32 [3 / 2, 5 / 2]],
      labeltable = no_labels\<rparr>"

text \<open>An RGB file for a surface of one vertex: the colour (255, 0, 0).\<close>

definition rgb_image :: gifti_image where
  "rgb_image =
     \<lparr>darray = [(new_darray NIFTI_INTENT_RGB_VECTOR NIFTI_TYPE_FLOAT32 2 1 3)
                   \<lparr>data := Some [255, 0, 0]\<rparr>],
      labeltable = no_labels\<rparr>"






text \<open>The diagnostic that label emission prints for an entry without a name.\<close>

definition label_diag :: "nat \<Rightarrow> string" where
  "label_diag idx = ''name=NULL, assigned as unknown_'' @ sprintf_d (int idx)"

text \<open>
  The state of the loop that builds the label table after \<open>k\<close> entries: \<open>k\<close> keys,
  names and colour quadruples, each as the loop body computes it from entry \<open>i\<close>.
\<close>

definition label_inv :: "COLOR_TABLE \<Rightarrow> nat \<Rightarrow> giiLabelTable \<times> string list \<Rightarrow> bool" where
  "label_inv t k st =
     (lt_length (fst st) = nentries t \<and>
      length (lt_key (fst st)) = k \<and> length (lt_label (fst st)) = k \<and>
      (\<exists>r. lt_rgba (fst st) = Some r \<and> length r = 4 * k \<and>
        (\<forall>i<k. \<exists>e. entries t ! i = Some e \<and>
           lt_key (fst st) ! i = int i \<and>
           lt_label (fst st) ! i = label_name (cte_name e) i \<and>
           take 4 (drop (4 * i) r) = label_rgba e (label_name (cte_name e) i) \<and>
           (cte_name e = [] \<longrightarrow> label_diag i \<in> set (snd st)))))"

text \<open>
  A colour table with the entries "unknown", an entry without a name, and "A"; a surface
  of one vertex that carries it; and the label table that emission builds from it.
\<close>

definition example_ct :: COLOR_TABLE where
  "example_ct =
     \<lparr>entries =
        [Some \<lparr>cte_name = ''unknown'', ri = 25, gi = 5, bi = 25, ai = 255,
                rf = 25 / 256, gf = 5 / 256, bf = 25 / 256, af = 1\<rparr>,
         Some \<lparr>cte_name = [], ri = 0, gi = 128, bi = 0, ai = 255,
                rf = 0, gf = 1 / 2, bf = 0, af = 1\<rparr>,
         Some \<lparr>cte_name = ''A'', ri = 128, gi = 0, bi = 0, ai = 255,
                rf = 1 / 2, gf = 0, bf = 0, af = 1\<rparr>],
      nentries = 3, version = 2, ct_fname = []\<rparr>"

definition labelled_surface :: MRIS where
  "labelled_surface = (MRISalloc 1 0)\<lparr>ct := Some example_ct\<rparr>"

definition example_labeltable :: giiLabelTable where
  "example_labeltable =
     \<lparr>lt_length = 3, lt_key = [0, 1, 2],
      lt_label = [''unknown'', ''unknown_1'', ''A''],
      lt_rgba = Some [0, 0, 0, 0, 0, 0, 0, 0, 1 / 2, 0, 0, 1]\<rparr>"


section \<open>Writing a surface and reading it back\<close>

text \<open>
  The surfaces of the round trip. The counts are positive and fit the arrays, and three
  times a count is still an \<open>int\<close> (the accessor multiplies a row number by the three
  columns on \<open>int\<close>); no vertex is ripped, and the coordinates are \<open>float\<close> values
  (the field type of the source), so the conversion to \<open>float\<close> leaves them as they
  are; every face has \<open>VERTICES_PER_FACE\<close> different vertex numbers inside the vertex
  array; the command lines fit their array of \<open>MAX_CMDS\<close> entries.
\<close>

definition mesh_geometry :: "env \<Rightarrow> MRIS \<Rightarrow> bool" where
  "mesh_geometry E M =
     (0 < nvertices M \<and> 3 * nvertices M < 2 ^ 31 \<and> 0 < nfaces M \<and> 3 * nfaces M < 2 ^ 31 \<and>
      length (vertices M) = nat (nvertices M) \<and>
      length (faces M) = nat (nfaces M) \<and>
      list_all (\<lambda>v. \<not> ripflag v \<and> to_float E (vert_x v) = vert_x v \<and>
                     to_float E (vert_y v) = vert_y v \<and> to_float E (vert_z v) = vert_z v)
        (vertices M) \<and>
      list_all (\<lambda>f. length (face_v f) = VERTICES_PER_FACE \<and> distinct (face_v f) \<and>
                     list_all (\<lambda>i. 0 \<le> i \<and> i < nvertices M) (face_v f))
        (faces M) \<and>
      0 \<le> ncmds M \<and> ncmds M \<le> MAX_CMDS E \<and> nat (ncmds M) \<le> length (cmdlines M))"

text \<open>
  The (face, slot) pairs in the order in which the loops over the faces visit them, the
  test \<^verbatim>\<open>faces[fi].v[j] == v\<close>, and the pairs that refer to vertex \<open>v\<close>.
\<close>

definition all_slots :: "nat \<Rightarrow> (nat \<times> nat) list" where
  "all_slots nf = concat (map (\<lambda>fi. map (Pair fi) [0..<VERTICES_PER_FACE]) [0..<nf])"

definition hits :: "FACE list \<Rightarrow> nat \<Rightarrow> nat \<times> nat \<Rightarrow> bool" where
  "hits fs v p = (face_v (fs ! fst p) ! snd p = int v)"

definition incident_slots :: "FACE list \<Rightarrow> nat \<Rightarrow> (nat \<times> nat) list" where
  "incident_slots fs v = filter (hits fs v) (all_slots (length fs))"

text \<open>
  The topology record of a vertex as a set: the first \<open>num\<close> entries of the face
  list \<open>f\<close>, each with the slot recorded for it in \<open>n\<close>. In a surface with a
  consistent topology every vertex has as many entries as there are face slots that refer to
  it, and its record holds exactly these (face, slot) pairs.
\<close>

definition incidence :: "VERTEX_TOPOLOGY \<Rightarrow> (int \<times> int) set" where
  "incidence vt = set (zip (take (nat (vt_num vt)) (vt_f vt)) (take (nat (vt_num vt)) (vt_n vt)))"

definition topology_invariant :: "MRIS \<Rightarrow> bool" where
  "topology_invariant M =
     (length (vertices_topology M) = nat (nvertices M) \<and>
      list_all (\<lambda>v. vt_num (vertices_topology M ! v) = int (length (incident_slots (faces M) v)) \<and>
                     incidence (vertices_topology M ! v)
                       = set (map (\<lambda>p. (int (fst p), int (snd p))) (incident_slots (faces M) v)))
        [0..<nat (nvertices M)])"

text \<open>
  The position of a vertex.
\<close>

definition position :: "VERTEX \<Rightarrow> real \<times> real \<times> real" where
  "position v = (vert_x v, vert_y v, vert_z v)"

subsection \<open>Invariants of the loops of MRISwriteGIFTISurface\<close>

text \<open>
  An array of \<open>n\<close> rows of three values in row-major order, with its buffer.
\<close>

definition rows3 :: "giiDataArray \<Rightarrow> int \<Rightarrow> real list \<Rightarrow> bool" where
  "rows3 da n buf =
     (data da = Some buf \<and> num_dim da = 2 \<and> ind_ord da = GIFTI_IND_ORD_ROW_MAJOR \<and>
      dims0 da = n \<and> dims1 da = 3 \<and> int (length buf) = 3 * n \<and> 3 * n < 2 ^ 31)"

text \<open>
  After \<open>k\<close> rounds of the loop over the vertices the buffer of the coordinates
  array holds the positions of the first \<open>k\<close> vertices; after \<open>k\<close> rounds of
  the loop over the faces the buffer of the face array holds the first \<open>k\<close> faces
  and the face counter is \<open>k\<close>.
\<close>

definition coords_inv :: "env \<Rightarrow> MRIS \<Rightarrow> giiDataArray \<Rightarrow> nat \<Rightarrow> giiDataArray \<Rightarrow> bool" where
  "coords_inv E M c0 k c =
     (\<exists>buf. c = c0\<lparr>data := Some buf\<rparr> \<and> int (length buf) = 3 * nvertices M \<and>
        (\<forall>i<k. buf ! (3 * i) = vert_x (vertices M ! i) \<and>
                buf ! (3 * i + 1) = vert_y (vertices M ! i) \<and>
                buf ! (3 * i + 2) = vert_z (vertices M ! i)))"

definition faces_inv :: "MRIS \<Rightarrow> giiDataArray \<Rightarrow> nat \<Rightarrow> giiDataArray \<times> int \<Rightarrow> bool" where
  "faces_inv M f0 k st =
     (snd st = int k \<and>
      (\<exists>buf. fst st = f0\<lparr>data := Some buf\<rparr> \<and> int (length buf) = 3 * nfaces M \<and>
        (\<forall>i<k. \<forall>j<3. buf ! (3 * i + j) = of_int (face_v (faces M ! i) ! j))))"

text \<open>
  Two arrays that differ at most in their metadata.
\<close>

definition same_but_meta :: "giiDataArray \<Rightarrow> giiDataArray \<Rightarrow> bool" where
  "same_but_meta a b = (b = a\<lparr>meta := meta b\<rparr>)"

text \<open>
  The two arrays that \<open>MRISwriteGIFTISurface\<close> adds to the image for the surface
  \<open>M\<close>: the positions, the faces and the number of command lines.
\<close>

definition emitted :: "MRIS \<Rightarrow> giiDataArray \<Rightarrow> giiDataArray \<Rightarrow> bool" where
  "emitted M c f =
     (intent c = NIFTI_INTENT_POINTSET \<and> dtype c = NIFTI_TYPE_FLOAT32 \<and>
      intent f = NIFTI_INTENT_TRIANGLE \<and> dtype f = NIFTI_TYPE_INT32 \<and>
      (\<exists>cb. rows3 c (nvertices M) cb \<and>
         (\<forall>i<nat (nvertices M). cb ! (3 * i) = vert_x (vertices M ! i) \<and>
                cb ! (3 * i + 1) = vert_y (vertices M ! i) \<and>
                cb ! (3 * i + 2) = vert_z (vertices M ! i))) \<and>
      (\<exists>fb. rows3 f (nfaces M) fb \<and>
         (\<forall>i<nat (nfaces M). \<forall>j<3. fb ! (3 * i + j) = of_int (face_v (faces M ! i) ! j))) \<and>
      meta c ''NUM_TAG_CMDLINE'' = (if 0 < ncmds M then Some (sprintf_d (ncmds M)) else None))"

subsection \<open>Invariants of the loops of the surface read\<close>

text \<open>
  The counts, vertices, faces and topology records of a surface.
\<close>

definition geom :: "MRIS \<Rightarrow> int \<times> int \<times> VERTEX list \<times> FACE list \<times> VERTEX_TOPOLOGY list" where
  "geom s = (nvertices s, nfaces s, vertices s, faces s, vertices_topology s)"

text \<open>
  After \<open>k\<close> rounds of the loop over the rows of the coordinates array (lines
  719-733): the first \<open>k\<close> vertices have their positions, the faces are as
  allocated and every \<open>num\<close> is 0.
\<close>

definition verts_inv :: "MRIS \<Rightarrow> nat \<Rightarrow> MRIS \<Rightarrow> bool" where
  "verts_inv M k s =
     (nvertices s = nvertices M \<and> nfaces s = nfaces M \<and>
      length (vertices s) = nat (nvertices M) \<and>
      length (vertices_topology s) = nat (nvertices M) \<and>
      faces s = replicate (nat (nfaces M)) \<lparr>face_v = replicate VERTICES_PER_FACE 0\<rparr> \<and>
      (\<forall>i<nat (nvertices M). vt_num (vertices_topology s ! i) = 0) \<and>
      (\<forall>i<k. position (vertices s ! i) = position (vertices M ! i)))"

text \<open>
  The loop over the face array (lines 735-747), after the (face, slot) pairs \<open>ps\<close>:
  these slots hold their vertex numbers and \<open>num\<close> of a vertex counts the pairs that
  refer to it; \<open>faces_read\<close> is the state after the whole loop.
\<close>

definition read_faces_inv :: "MRIS \<Rightarrow> MRIS \<Rightarrow> (nat \<times> nat) list \<Rightarrow> MRIS \<Rightarrow> bool" where
  "read_faces_inv M s0 ps s =
     (nvertices s = nvertices M \<and> nfaces s = nfaces M \<and> vertices s = vertices s0 \<and>
      length (faces s) = nat (nfaces M) \<and>
      length (vertices_topology s) = nat (nvertices M) \<and>
      (\<forall>fi<nat (nfaces M). length (face_v (faces s ! fi)) = 3 \<and>
         (\<forall>j<3. face_v (faces s ! fi) ! j
                  = (if (fi, j) \<in> set ps then face_v (faces M ! fi) ! j else 0))) \<and>
      (\<forall>v<nat (nvertices M).
          vt_num (vertices_topology s ! v) = int (length (filter (hits (faces M) v) ps))))"

definition faces_read :: "MRIS \<Rightarrow> MRIS \<Rightarrow> MRIS \<Rightarrow> bool" where
  "faces_read M s0 s =
     (nvertices s = nvertices M \<and> nfaces s = nfaces M \<and> vertices s = vertices s0 \<and>
      faces s = faces M \<and>
      length (vertices_topology s) = nat (nvertices M) \<and>
      (\<forall>v<nat (nvertices M).
          vt_num (vertices_topology s ! v) = int (length (incident_slots (faces M) v))))"

text \<open>
  The loop that fills the face lists (lines 749-758), after the pairs \<open>ps\<close>: the
  face list of a vertex starts with the faces of the pairs that refer to it, in the order of
  the loop, the rest is still zero; \<open>lists_built\<close> is the state after the whole loop.
\<close>

definition build_inv :: "MRIS \<Rightarrow> MRIS \<Rightarrow> (nat \<times> nat) list \<Rightarrow> MRIS \<Rightarrow> bool" where
  "build_inv M s0 ps s =
     (nvertices s = nvertices M \<and> nfaces s = nfaces M \<and> vertices s = vertices s0 \<and>
      faces s = faces M \<and>
      length (vertices_topology s) = nat (nvertices M) \<and>
      (\<forall>v<nat (nvertices M).
          vt_num (vertices_topology s ! v) = int (length (filter (hits (faces M) v) ps)) \<and>
          vt_f (vertices_topology s ! v)
            = map (\<lambda>p. int (fst p)) (filter (hits (faces M) v) ps)
              @ replicate (length (incident_slots (faces M) v)
                             - length (filter (hits (faces M) v) ps)) 0 \<and>
          vt_n (vertices_topology s ! v) = replicate (length (incident_slots (faces M) v)) 0))"

definition lists_built :: "MRIS \<Rightarrow> MRIS \<Rightarrow> MRIS \<Rightarrow> bool" where
  "lists_built M s0 s =
     (nvertices s = nvertices M \<and> nfaces s = nfaces M \<and> vertices s = vertices s0 \<and>
      faces s = faces M \<and>
      length (vertices_topology s) = nat (nvertices M) \<and>
      (\<forall>v<nat (nvertices M).
          vt_num (vertices_topology s ! v) = int (length (incident_slots (faces M) v)) \<and>
          vt_f (vertices_topology s ! v) = map (\<lambda>p. int (fst p)) (incident_slots (faces M) v) \<and>
          length (vt_n (vertices_topology s ! v)) = length (incident_slots (faces M) v)))"

text \<open>
  The loop that finds the slots (lines 760-765): a surface whose vertex \<open>v\<close> has
  the slot list \<open>ns\<close>, and the state after the first \<open>k\<close> vertices.
\<close>

definition with_slots :: "MRIS \<Rightarrow> nat \<Rightarrow> int list \<Rightarrow> MRIS" where
  "with_slots s v ns =
     s\<lparr>vertices_topology := (vertices_topology s)[v := (vertices_topology s ! v)\<lparr>vt_n := ns\<rparr>]\<rparr>"

definition slots_inv :: "MRIS \<Rightarrow> MRIS \<Rightarrow> nat \<Rightarrow> MRIS \<Rightarrow> bool" where
  "slots_inv M s0 k s =
     (nvertices s = nvertices M \<and> nfaces s = nfaces M \<and> vertices s = vertices s0 \<and>
      faces s = faces M \<and>
      length (vertices_topology s) = nat (nvertices M) \<and>
      (\<forall>v<nat (nvertices M).
          vt_num (vertices_topology s ! v) = int (length (incident_slots (faces M) v)) \<and>
          vt_f (vertices_topology s ! v) = map (\<lambda>p. int (fst p)) (incident_slots (faces M) v) \<and>
          length (vt_n (vertices_topology s ! v)) = length (incident_slots (faces M) v) \<and>
          (v < k \<longrightarrow>
             vt_n (vertices_topology s ! v) = map (\<lambda>p. int (snd p)) (incident_slots (faces M) v))))"

subsection \<open>The surface library and surface files\<close>


definition shape ::
  "MRIS \<Rightarrow> int \<times> int \<times> (real \<times> real \<times> real) list \<times> FACE list \<times> VERTEX_TOPOLOGY list" where
  "shape s = (nvertices s, nfaces s, map position (vertices s), faces s, vertices_topology s)"

definition library_keeps_shape :: "env \<Rightarrow> bool" where
  "library_keeps_shape E =
     (\<forall>s fn. shape (mrisCompleteTopology E s) = shape s \<and>
             shape (MRIScomputeNormals E s) = shape s \<and>
             shape (UpdateMRIS E s fn) = shape s)"



subsection \<open>An example surface\<close>

text \<open>
  Four vertices and two triangles that share the edge between vertex 0 and vertex 2, with
  one command line.
\<close>

definition square_mesh :: MRIS where
  "square_mesh =
     (MRISalloc 4 2)
       \<lparr>vertices := [zero_vertex, zero_vertex\<lparr>vert_x := 1\<rparr>,
                     zero_vertex\<lparr>vert_x := 1, vert_y := 1 / 2\<rparr>,
                     zero_vertex\<lparr>vert_y := 1 / 2, vert_z := - 3\<rparr>],
        faces := [\<lparr>face_v = [0, 1, 2]\<rparr>, \<lparr>face_v = [0, 2, 3]\<rparr>],
        vertices_topology :=
          [\<lparr>vt_num = 2, vt_f = [0, 1], vt_n = [0, 0]\<rparr>,
           \<lparr>vt_num = 1, vt_f = [0], vt_n = [1]\<rparr>,
           \<lparr>vt_num = 2, vt_f = [0, 1], vt_n = [2, 1]\<rparr>,
           \<lparr>vt_num = 1, vt_f = [1], vt_n = [2]\<rparr>],
        fname := ''lh.white'', ncmds := 1, cmdlines := [''mris_convert lh.white lh.white.gii'']\<rparr>"


section \<open>Properties of the element accessor\<close>

text \<open>
  A successful read of a 2-D array is a read at \<open>row * dims1 + col\<close> for row-major order
  and at \<open>row + col * dims0\<close> for column-major order, with \<open>row\<close> and \<open>col\<close> inside
  the array.
\<close>

lemma get_reads_row_col:
  assumes "gifti_get_DA_value_2D da row col = Inr x" and "num_dim da = 2"
  shows "\<exists>buf. data da = Some buf \<and> 0 \<le> row \<and> row < dims0 da \<and> 0 \<le> col \<and> col < dims1 da \<and>
     ind_ord da \<noteq> GIFTI_IND_ORD_UNDEF \<and>
     read_elem buf (if ind_ord da = GIFTI_IND_ORD_ROW_MAJOR then row * dims1 da + col
                    else row + col * dims0 da) = Inr x"
  using assms
  by (auto simp: gifti_get_DA_value_2D_def Let_def elem_offset_def read_at_def int_fits_def
      split: option.splits if_splits nifti_type.splits gifti_ind_ord.splits)















section \<open>Decimal text\<close>

lemma digit_cases: "d < 10 \<Longrightarrow> d \<in> {0, 1, 2, 3, 4, 5, 6, 7, 8, 9::nat}"
  by auto

lemma is_digit_digit_char: "d < 10 \<Longrightarrow> is_digit (digit_char d)"
  using digit_cases[of d] by (auto simp: is_digit_def digit_char_def)

lemma digit_val_digit_char: "d < 10 \<Longrightarrow> digit_val (digit_char d) = d"
  using digit_cases[of d] by (auto simp: digit_val_def digit_char_def)

lemma is_digit_not_space: "is_digit c \<Longrightarrow> \<not> is_space c \<and> c \<noteq> CHR ''-'' \<and> c \<noteq> CHR ''+''"
  by (auto simp: is_digit_def is_space_def)

lemma scan_digits_append:
  "\<forall>c \<in> set xs. is_digit c \<Longrightarrow> scan_digits acc (xs @ ys) = scan_digits (scan_digits acc xs) ys"
  by (induction xs arbitrary: acc) auto

lemma dec_nat_digits: "\<forall>c \<in> set (dec_nat n). is_digit c"
proof (induction n rule: dec_nat.induct)
  case (1 n)
  show ?case
  proof (cases "n < 10")
    case True
    then show ?thesis by (simp add: is_digit_digit_char)
  next
    case False
    then have "dec_nat n = dec_nat (n div 10) @ [digit_char (n mod 10)]" by simp
    with 1 False show ?thesis by (auto simp: is_digit_digit_char simp del: dec_nat.simps)
  qed
qed

lemma scan_dec_nat: "scan_digits 0 (dec_nat n) = n"
proof (induction n rule: dec_nat.induct)
  case (1 n)
  show ?case
  proof (cases "n < 10")
    case True
    then show ?thesis by (simp add: is_digit_digit_char digit_val_digit_char)
  next
    case False
    then have eq: "dec_nat n = dec_nat (n div 10) @ [digit_char (n mod 10)]" by simp
    have "scan_digits 0 (dec_nat n) =
            scan_digits (scan_digits 0 (dec_nat (n div 10))) [digit_char (n mod 10)]"
      unfolding eq by (rule scan_digits_append, rule dec_nat_digits)
    also have "\<dots> = scan_digits (n div 10) [digit_char (n mod 10)]"
      using 1 False by simp
    also have "\<dots> = n"
      by (simp add: is_digit_digit_char digit_val_digit_char)
    finally show ?thesis .
  qed
qed

lemma dec_nat_nonempty: "dec_nat n \<noteq> []"
  by (subst dec_nat.simps) simp

lemma dec_nat_hd_digit: "\<exists>c cs. dec_nat n = c # cs \<and> is_digit c"
  using dec_nat_nonempty[of n] dec_nat_digits[of n] by (cases "dec_nat n") auto

lemma scan_unsigned_dec_nat: "scan_unsigned (dec_nat n) = Some n"
  using dec_nat_hd_digit[of n] scan_dec_nat[of n]
  by (auto simp: scan_unsigned_def simp del: dec_nat.simps scan_digits.simps)

text \<open>A number printed with \<open>%d\<close> is scanned back with \<open>%d\<close>.\<close>

lemma sscanf_sprintf_d: "sscanf_d (sprintf_d i) = Some i"
proof (cases "i < 0")
  case True
  have "\<not> is_space CHR ''-''" by (simp add: is_space_def)
  then show ?thesis using True scan_unsigned_dec_nat[of "nat (- i)"]
    by (simp add: sscanf_d_def sprintf_d_def del: dec_nat.simps)
next
  case False
  obtain c cs where h: "dec_nat (nat i) = c # cs" "is_digit c"
    using dec_nat_hd_digit by blast
  then show ?thesis using False scan_unsigned_dec_nat[of "nat i"] is_digit_not_space[of c]
    by (simp add: sscanf_d_def sprintf_d_def del: dec_nat.simps)
qed

section \<open>Loops that do not return\<close>

lemma skip_cmdlines_Some:
  assumes "skip_cmdlines toskip = Some u"
  shows "toskip = 0"
  by (rule skip_cmdlines.raw_induct[where P = "\<lambda>t u. t = 0", OF _ assms])
     (auto split: if_splits)

lemma skip_cmdlines_None: "toskip \<noteq> 0 \<Longrightarrow> skip_cmdlines toskip = None"
  using skip_cmdlines_Some by (cases "skip_cmdlines toskip") auto

lemma skip_cmdlines_0: "skip_cmdlines 0 = Some ()"
  by (simp add: skip_cmdlines.simps)

lemma read_cmdlines_over_cap:
  "m ''NUM_TAG_CMDLINE'' = Some (sprintf_d k) \<Longrightarrow> k > MAX_CMDS E \<Longrightarrow> read_cmdlines E m mris = None"
  by (simp add: read_cmdlines_def sscanf_sprintf_d skip_cmdlines_None Let_def)

lemma one_triangle_coords_faces:
  "find_coords_faces (darray (one_triangle_image m)) =
     (Some ((alloc_data (new_darray NIFTI_INTENT_POINTSET NIFTI_TYPE_FLOAT32 2 1 3))\<lparr>meta := m\<rparr>),
      Some (alloc_data (new_darray NIFTI_INTENT_TRIANGLE NIFTI_TYPE_INT32 2 1 3)))"
  by (simp add: find_coords_faces_def one_triangle_image_def alloc_data_def new_darray_def)

lemma read_surface_over_cap:
  "read_surface E fn ((alloc_data (new_darray NIFTI_INTENT_POINTSET NIFTI_TYPE_FLOAT32 2 1 3))
        \<lparr>meta := [''NUM_TAG_CMDLINE'' \<mapsto> sprintf_d (MAX_CMDS E + 1)]\<rparr>)
      (alloc_data (new_darray NIFTI_INTENT_TRIANGLE NIFTI_TYPE_INT32 2 1 3)) = None"
  by (simp add: read_surface_def DA_vertices_cols_def gifti_DA_rows_cols_def gifti_darray_nvals_def
      alloc_data_def new_darray_def Let_def read_cmdlines_over_cap[where k = "MAX_CMDS E + 1"])

text \<open>
  Claim C5. A file whose coordinates array stores a command-line count one above the cap:
  the read does not keep the last \<open>MAX_CMDS\<close> entries, it does not return at all, because
  the loop that should skip the surplus entries never changes its counter.
\<close>

theorem read_over_cap_does_not_return:
  "mrisReadGIFTIdanum E fn
     (one_triangle_image [''NUM_TAG_CMDLINE'' \<mapsto> sprintf_d (MAX_CMDS E + 1)])
     mris_in (- 1) outmri frame = None"
  using read_surface_over_cap[of E fn]
  by (simp add: mrisReadGIFTIdanum_def read_labeltable_def one_triangle_coords_faces
      one_triangle_image_def[where m = "[''NUM_TAG_CMDLINE'' \<mapsto> sprintf_d (MAX_CMDS E + 1)]",
        THEN arg_cong[where f = labeltable]]
      no_labels_def Let_def)

lemma read_label_loop_stuck_Some:
  assumes "read_label_loop E lt ctab da ni n nindex vno mris = Some y"
  shows "\<not> (ni = None \<and> vno < nvertices mris \<and> (\<exists>v. vertex_at mris vno = Inr v \<and> ripflag v))"
proof (rule read_label_loop.raw_induct[where P = "\<lambda>E lt ctab da ni n nindex vno mris y.
        \<not> (ni = None \<and> vno < nvertices mris \<and> (\<exists>v. vertex_at mris vno = Inr v \<and> ripflag v))", OF _ assms],
       goal_cases)
  case (1 loop E lt ctab da ni n nindex vno mris y)
  show ?case
  proof
    assume stuck: "ni = None \<and> vno < nvertices mris \<and> (\<exists>v. vertex_at mris vno = Inr v \<and> ripflag v)"
    then obtain v where v: "vertex_at mris vno = Inr v" "ripflag v" by blast
    from 1(2) stuck v have "loop E lt ctab da ni n nindex vno mris = Some y" by simp
    from 1(1)[OF this] stuck show False by blast
  qed
qed

text \<open>
  With regular indexing, once the loop stands at a vertex that has the rip flag, it never
  returns.
\<close>

lemma read_label_loop_stuck:
  "vno < nvertices mris \<Longrightarrow> vertex_at mris vno = Inr v \<Longrightarrow> ripflag v \<Longrightarrow>
   read_label_loop E lt ctab da None n nindex vno mris = None"
  using read_label_loop_stuck_Some[of E lt ctab da None n nindex vno mris]
  by (cases "read_label_loop E lt ctab da None n nindex vno mris") auto

lemma label_image_ct:
  "read_labeltable example_env fn (labeltable label_image) =
     Inr (labeltable label_image,
          Some \<lparr>entries = [Some (make_cte example_env ''a'' [1, 0, 0, 1] 0), None],
                nentries = 1, version = 2, ct_fname = take 99 fn\<rparr>)"
  by (simp add: read_labeltable_def label_image_def example_env_def Let_def)

text \<open>
  Claim C10. A label file read onto a surface whose only vertex has the rip flag: the read
  does not return. The \<open>while\<close> loop over the vertices reaches \<open>continue\<close> with
  \<open>vno\<close> unchanged and tests the same vertex again.
\<close>

theorem read_label_ripped_does_not_return:
  "mrisReadGIFTIdanum example_env fn label_image (Some ripped_surface) (- 1) outmri frame = None"
proof -
  have v: "vertex_at (ripped_surface\<lparr>ct := c\<rparr>) 0 = Inr (zero_vertex\<lparr>ripflag := True\<rparr>)" for c
    by (simp add: vertex_at_def ripped_surface_def MRISalloc_def)
  have n: "0 < nvertices (ripped_surface\<lparr>ct := c\<rparr>)" for c
    by (simp add: ripped_surface_def MRISalloc_def)
  have loop: "read_label_loop example_env lt t da None k 0 0 (ripped_surface\<lparr>ct := c\<rparr>) = None"
    for lt t da k c
    by (rule read_label_loop_stuck[OF n v]) simp
  have arr: "parse_darray example_env lt (Some t) 0
      (vector_array NIFTI_INTENT_LABEL NIFTI_TYPE_INT32 [0])
      \<lparr>ps_mris = ripped_surface\<lparr>ct := Some t\<rparr>, ps_outmri = outmri, ps_frame = frame,
        found_curv_data = 0, found_statval_data = 0, node_index = None, num_index_nodes = 0\<rparr> = None"
    for lt t
    by (simp add: parse_darray_def vector_array_def new_darray_def DA_vertices_cols_def
        gifti_DA_rows_cols_def expected_num_cols_def loop n
        ripped_surface_def[THEN arg_cong[where f = nvertices]] MRISalloc_def)
  show ?thesis
    unfolding mrisReadGIFTIdanum_def label_image_ct
    by (simp add: Let_def find_coords_faces_def
        label_image_def[THEN arg_cong[where f = darray]]
        label_image_def[THEN arg_cong[where f = labeltable]]
        vector_array_def[THEN arg_cong[where f = intent]] new_darray_def
        CTABgetNumberOfValidEntries_def arr)
qed

section \<open>Sparse shape data and colour data\<close>

text \<open>
  Claim C4. A surface of three vertices and a sparse file that lists vertices 0 and 2 and
  holds one shape value for each of them: the read fails with a malformed-array error and
  assigns no curvature, because the row count of the SHAPE array (2) is compared with the
  number of vertices (3), not with the length of the node index.
\<close>

theorem sparse_shape_rejected:
  "mrisReadGIFTIdanum E fn sparse_shape_image (Some (MRISalloc 3 0)) (- 1) outmri frame
     = Some (Inl MalformedDataArray)"
  by (simp add: mrisReadGIFTIdanum_def read_labeltable_def sparse_shape_image_def no_labels_def
      Let_def find_coords_faces_def vector_array_def new_darray_def parse_darray_def
      read_node_index_def DA_vertices_cols_def gifti_DA_rows_cols_def expected_num_cols_def
      MRISalloc_def)

lemma rgb_image_components:
  "read_rgb_components example_env
     ((new_darray NIFTI_INTENT_RGB_VECTOR NIFTI_TYPE_FLOAT32 2 1 3)\<lparr>data := Some [255, 0, 0]\<rparr>) 0
   = Inr (255, 255, 255)"
  by (simp add: read_rgb_components_def gifti_get_DA_value_2D_def new_darray_def Let_def
      elem_offset_def read_at_def int_fits_def read_elem_def rgb_byte_def c_int_def c_trunc_def example_env_def)

text \<open>
  Claim C6. An RGB array whose only row is (255, 0, 0): the three components handed to
  \<open>MRISRGBToAnnot\<close> are (255, 255, 255), all taken from column 0, and the vertex gets
  the annotation of white, \<open>16777215\<close>, not that of red.
\<close>

theorem rgb_reads_first_column_three_times:
  "read_rgb_components example_env
     ((new_darray NIFTI_INTENT_RGB_VECTOR NIFTI_TYPE_FLOAT32 2 1 3)\<lparr>data := Some [255, 0, 0]\<rparr>) 0
   = Inr (255, 255, 255)
   \<and> mrisReadGIFTIdanum example_env fn rgb_image (Some (MRISalloc 1 0)) (- 1) None 0
   = Some (Inr ((MRISalloc 1 0)\<lparr>vertices := [zero_vertex\<lparr>annotation := 16777215\<rparr>]\<rparr>, None, 0))"
proof -
  have v: "read_rgb_vertex example_env
        ((new_darray NIFTI_INTENT_RGB_VECTOR NIFTI_TYPE_FLOAT32 2 1 3)\<lparr>data := Some [255, 0, 0]\<rparr>)
        0 (MRISalloc 1 0)
        = Inr ((MRISalloc 1 0)\<lparr>vertices := [zero_vertex\<lparr>annotation := 16777215\<rparr>]\<rparr>)"
    unfolding read_rgb_vertex_def rgb_image_components
    by (simp add: vertex_at_def MRISalloc_def zero_vertex_def set_vertex_def example_env_def)
  have n: "nvertices (MRISalloc 1 0) = 1" by (simp add: MRISalloc_def)
  have "mrisReadGIFTIdanum example_env fn rgb_image (Some (MRISalloc 1 0)) (- 1) None 0
      = Some (Inr ((MRISalloc 1 0)\<lparr>vertices := [zero_vertex\<lparr>annotation := 16777215\<rparr>]\<rparr>, None, 0))"
    by (simp add: mrisReadGIFTIdanum_def read_labeltable_def rgb_image_def no_labels_def
      Let_def find_coords_faces_def parse_darray_def
      new_darray_def[THEN arg_cong[where f = intent]]
      new_darray_def[THEN arg_cong[where f = ind_ord]]
      new_darray_def[THEN arg_cong[where f = num_dim]]
      new_darray_def[THEN arg_cong[where f = dims0]]
      new_darray_def[THEN arg_cong[where f = dims1]]
      DA_vertices_cols_def gifti_DA_rows_cols_def gifti_darray_nvals_def expected_num_cols_def
      n v)
  with rgb_image_components show ?thesis by simp
qed

section \<open>Volume geometry\<close>







lemma for_loop_append:
  "for_loop (xs @ ys) body s =
     (case for_loop xs body s of Inl e \<Rightarrow> Inl e | Inr s' \<Rightarrow> for_loop ys body s')"
  by (induction xs arbitrary: s) (auto split: sum.splits)


lemma fold_preserves:
  assumes "\<And>i s. f (g i s) = f s"
  shows "f (fold g xs s) = f s"
  using assms by (induction xs arbitrary: s) auto



































section \<open>The label table of MRISwriteGIFTILabel\<close>

lemma for_loop_upt_Suc:
  "for_loop [0..<Suc n] body s =
     (case for_loop [0..<n] body s of Inl e \<Rightarrow> Inl e | Inr s' \<Rightarrow> body n s')"
  by (simp add: for_loop_append split: sum.splits)

lemma for_loop_upt_invariant:
  assumes run: "for_loop [0..<n] body s = Inr s'"
    and init: "Inv 0 s"
    and step: "\<And>i a b. i < n \<Longrightarrow> Inv i a \<Longrightarrow> body i a = Inr b \<Longrightarrow> Inv (Suc i) b"
  shows "Inv n s'"
  using run step
proof (induction n arbitrary: s')
  case 0
  then show ?case using init by simp
next
  case (Suc n)
  from Suc.prems(1) obtain mid where
    mid: "for_loop [0..<n] body s = Inr mid" and last: "body n mid = Inr s'"
    unfolding for_loop_upt_Suc by (auto split: sum.splits)
  have "Inv n mid"
  proof (rule Suc.IH[OF mid])
    fix i a b
    assume "i < n" "Inv i a" "body i a = Inr b"
    then show "Inv (Suc i) b" using Suc.prems(2)[of i a b] by simp
  qed
  then show ?case using Suc.prems(2)[of n mid s'] last by simp
qed

lemma length_label_rgba: "length (label_rgba e lab) = 4"
  by (simp add: label_rgba_def)

lemma add_label_inv:
  assumes inv: "label_inv t k st" and step: "add_label t k st = Inr st'"
  shows "label_inv t (Suc k) st'"
proof -
  from step obtain e where e: "entries t ! k = Some e" and k: "k < length (entries t)"
    by (auto simp: add_label_def split: if_splits option.splits)
  from inv obtain r where r: "lt_rgba (fst st) = Some r" "length r = 4 * k"
    and old: "\<forall>i<k. \<exists>e. entries t ! i = Some e \<and>
           lt_key (fst st) ! i = int i \<and>
           lt_label (fst st) ! i = label_name (cte_name e) i \<and>
           take 4 (drop (4 * i) r) = label_rgba e (label_name (cte_name e) i) \<and>
           (cte_name e = [] \<longrightarrow> label_diag i \<in> set (snd st))"
    and len: "lt_length (fst st) = nentries t" "length (lt_key (fst st)) = k" "length (lt_label (fst st)) = k"
    by (auto simp: label_inv_def)
  let ?lab = "label_name (cte_name e) k"
  have st': "st' = ((fst st)\<lparr>lt_key := lt_key (fst st) @ [int k],
                        lt_label := lt_label (fst st) @ [?lab],
                        lt_rgba := Some (r @ label_rgba e ?lab)\<rparr>,
                   if length (cte_name e) \<noteq> 0 then snd st
                   else snd st @ [''name=NULL, assigned as '' @ ?lab])"
    using step e k r by (simp add: add_label_def Let_def)
  have new: "\<exists>e'. entries t ! i = Some e' \<and>
           lt_key (fst st') ! i = int i \<and>
           lt_label (fst st') ! i = label_name (cte_name e') i \<and>
           take 4 (drop (4 * i) (r @ label_rgba e ?lab)) = label_rgba e' (label_name (cte_name e') i) \<and>
           (cte_name e' = [] \<longrightarrow> label_diag i \<in> set (snd st'))" if i: "i < Suc k" for i
  proof (cases "i < k")
    case True
    with old obtain e' where e': "entries t ! i = Some e'"
           "lt_key (fst st) ! i = int i"
           "lt_label (fst st) ! i = label_name (cte_name e') i"
           "take 4 (drop (4 * i) r) = label_rgba e' (label_name (cte_name e') i)"
           "cte_name e' = [] \<longrightarrow> label_diag i \<in> set (snd st)"
      by blast
    have "4 * i + 4 \<le> length r" using True r by simp
    then have "take 4 (drop (4 * i) (r @ label_rgba e ?lab)) = take 4 (drop (4 * i) r)"
      by simp
    with e' True len show ?thesis
      unfolding st' by (auto simp: nth_append)
  next
    case False
    with i have ik: "i = k" by simp
    have "label_diag k \<in> set (snd st')" if "cte_name e = []"
      using that unfolding st' by (simp add: label_diag_def label_name_def)
    then show ?thesis
      unfolding ik st' using e len r by (simp add: nth_append length_label_rgba)
  qed
  show ?thesis
    unfolding label_inv_def
    using len r new unfolding st' by (simp add: length_label_rgba)
qed

lemma build_labeltable_inv:
  assumes "build_labeltable t = Inr st"
  shows "label_inv t (nat (nentries t)) st"
proof -
  from assms have run: "for_loop [0..<nat (nentries t)] (add_label t)
          (\<lparr>lt_length = nentries t, lt_key = [], lt_label = [], lt_rgba = Some []\<rparr>, []) = Inr st"
    by (simp add: build_labeltable_def split: if_splits)
  show ?thesis
  proof (rule for_loop_upt_invariant[OF run, where Inv = "label_inv t"])
    show "label_inv t 0 (\<lparr>lt_length = nentries t, lt_key = [], lt_label = [], lt_rgba = Some []\<rparr>, [])"
      by (simp add: label_inv_def)
  next
    fix i a b
    assume "label_inv t i a" "add_label t i a = Inr b"
    then show "label_inv t (Suc i) b" by (rule add_label_inv)
  qed
qed

lemma MRISwriteGIFTILabel_table:
  assumes "MRISwriteGIFTILabel E mris img = Inr (img', diag)" and "ct mris = Some t"
  shows "build_labeltable t = Inr (labeltable img', diag)"
  using assms
  by (auto simp: MRISwriteGIFTILabel_def Let_def split: sum.splits prod.splits)

text \<open>
  Claim C9. In the label table that \<open>MRISwriteGIFTILabel\<close> builds, entry \<open>idx\<close> has the
  key \<open>idx\<close>; its name is the name of the colour-table entry, or \<open>unknown_<idx>\<close> with
  a diagnostic when that name is empty; its colour is (0, 0, 0, 0) when the name is empty,
  "unknown" or "Unknown", and otherwise the float colour of the entry with alpha 1.
\<close>

theorem label_table_entries:
  assumes w: "MRISwriteGIFTILabel E mris img = Inr (img', diag)"
    and t: "ct mris = Some t"
    and i: "idx < nat (nentries t)"
  shows "\<exists>e rgba. entries t ! idx = Some e \<and> lt_rgba (labeltable img') = Some rgba \<and>
     lt_length (labeltable img') = nentries t \<and>
     lt_key (labeltable img') ! idx = int idx \<and>
     lt_label (labeltable img') ! idx =
       (if cte_name e = [] then ''unknown_'' @ sprintf_d (int idx) else cte_name e) \<and>
     (cte_name e = [] \<longrightarrow>
        ''name=NULL, assigned as unknown_'' @ sprintf_d (int idx) \<in> set diag) \<and>
     take 4 (drop (4 * idx) rgba) =
       (if cte_name e = [] \<or> cte_name e = ''unknown'' \<or> cte_name e = ''Unknown''
        then [0, 0, 0, 0] else [rf e, gf e, bf e, 1])"
proof -
  from build_labeltable_inv[OF MRISwriteGIFTILabel_table[OF w t]] i
  obtain r e where "lt_rgba (labeltable img') = Some r"
    "lt_length (labeltable img') = nentries t"
    "entries t ! idx = Some e"
    "lt_key (labeltable img') ! idx = int idx"
    "lt_label (labeltable img') ! idx = label_name (cte_name e) idx"
    "take 4 (drop (4 * idx) r) = label_rgba e (label_name (cte_name e) idx)"
    "cte_name e = [] \<longrightarrow> label_diag idx \<in> set diag"
    unfolding label_inv_def by fastforce
  then show ?thesis
    by (auto simp: label_name_def label_rgba_def label_diag_def)
qed

lemma example_label_write:
  "map_sum id (\<lambda>p. (labeltable (fst p), snd p))
     (MRISwriteGIFTILabel example_env labelled_surface new_image)
   = Inr (example_labeltable, [''name=NULL, assigned as unknown_1''])"
  by code_simp

theorem label_table_entries_witness:
  "map_sum id (\<lambda>p. (labeltable (fst p), snd p))
     (MRISwriteGIFTILabel example_env labelled_surface new_image)
     = Inr (example_labeltable, [''name=NULL, assigned as unknown_1''])
   \<and> ct labelled_surface = Some example_ct
   \<and> (1::nat) < nat (nentries example_ct)
   \<and> lt_key example_labeltable ! 1 = 1
   \<and> lt_label example_labeltable ! 1 = ''unknown_1''
   \<and> take 4 (drop 4 [0, 0, 0, 0, 0, 0, 0, 0, 1 / 2, 0, 0, 1 :: real]) = [0, 0, 0, 0]"
proof -
  from example_label_write obtain img' where
    w: "MRISwriteGIFTILabel example_env labelled_surface new_image
          = Inr (img', [''name=NULL, assigned as unknown_1''])"
    and l: "labeltable img' = example_labeltable"
    by (cases "MRISwriteGIFTILabel example_env labelled_surface new_image")
       (auto simp: map_sum_def split: sum.splits)
  have t: "ct labelled_surface = Some example_ct"
    by (simp add: labelled_surface_def)
  have i: "(1::nat) < nat (nentries example_ct)"
    by (simp add: example_ct_def)
  from label_table_entries[OF w t i]
  have "lt_key example_labeltable ! 1 = 1 \<and> lt_label example_labeltable ! 1 = ''unknown_1''"
    unfolding l by (auto simp: example_ct_def example_labeltable_def sprintf_d_def digit_char_def)
  with example_label_write t i show ?thesis by simp
qed

section \<open>Writing a surface and reading it back: MRISwriteGIFTISurface\<close>

subsection \<open>Element access in an array of three columns\<close>

lemma get_rows3:
  assumes "rows3 da n buf" "r < nat n" "j < 3"
    and "dtype da = NIFTI_TYPE_FLOAT32 \<or> dtype da = NIFTI_TYPE_INT32"
  shows "gifti_get_DA_value_2D da (int r) (int j) = Inr (buf ! (3 * r + j))"
proof -
  have "nat (int r * 3 + int j) = 3 * r + j" by (simp add: nat_add_distrib nat_mult_distrib)
  then show ?thesis
    using assms
    by (auto simp: rows3_def gifti_get_DA_value_2D_def Let_def elem_offset_def read_at_def int_fits_def read_elem_def)
qed

lemma set_rows3_float:
  assumes "rows3 da n buf" "r < nat n" "j < 3" "dtype da = NIFTI_TYPE_FLOAT32"
  shows "gifti_set_DA_value_2D tf da (int r) (int j) x
           = Inr (da\<lparr>data := Some (buf[3 * r + j := tf x])\<rparr>, None)"
proof -
  have "nat (int r * 3 + int j) = 3 * r + j" by (simp add: nat_add_distrib nat_mult_distrib)
  then show ?thesis
    using assms
    by (auto simp: rows3_def gifti_set_DA_value_2D_def Let_def elem_offset_def read_at_def int_fits_def write_elem_def)
qed

lemma to_signed_32_of_int: "0 \<le> i \<Longrightarrow> i < 2 ^ 31 \<Longrightarrow> to_signed 32 (of_int i) = of_int i"
  by (simp add: to_signed_def c_trunc_def)

lemma c_int_of_int: "0 \<le> i \<Longrightarrow> i < 2 ^ 31 \<Longrightarrow> c_int (of_int i) = i"
  by (simp add: c_int_def c_trunc_def)

lemma set_rows3_int:
  assumes "rows3 da n buf" "r < nat n" "j < 3" "dtype da = NIFTI_TYPE_INT32"
    "0 \<le> i" "i < 2 ^ 31"
  shows "gifti_set_DA_value_2D tf da (int r) (int j) (of_int i)
           = Inr (da\<lparr>data := Some (buf[3 * r + j := of_int i])\<rparr>, None)"
proof -
  have "nat (int r * 3 + int j) = 3 * r + j" by (simp add: nat_add_distrib nat_mult_distrib)
  then show ?thesis
    using assms
    by (auto simp: rows3_def gifti_set_DA_value_2D_def Let_def elem_offset_def read_at_def int_fits_def write_elem_def
        to_signed_32_of_int)
qed

lemma rows3_update:
  "rows3 da n buf \<Longrightarrow> rows3 (da\<lparr>data := Some (buf[k := x])\<rparr>) n (buf[k := x])"
  by (simp add: rows3_def)

subsection \<open>Loops that run to their end\<close>

lemma for_loop_upt_total:
  assumes init: "Inv 0 s"
    and step: "\<And>i a. i < n \<Longrightarrow> Inv i a \<Longrightarrow> \<exists>b. body i a = Inr b \<and> Inv (Suc i) b"
  shows "\<exists>s'. for_loop [0..<n] body s = Inr s' \<and> Inv n s'"
  using step
proof (induction n)
  case 0
  then show ?case using init by simp
next
  case (Suc n)
  have "\<exists>mid. for_loop [0..<n] body s = Inr mid \<and> Inv n mid"
  proof (rule Suc.IH)
    fix i a
    assume "i < n" "Inv i a"
    then show "\<exists>b. body i a = Inr b \<and> Inv (Suc i) b" using Suc.prems[of i a] by simp
  qed
  then obtain mid where mid: "for_loop [0..<n] body s = Inr mid" "Inv n mid" by blast
  from Suc.prems[of n mid] mid(2) obtain b where "body n mid = Inr b" "Inv (Suc n) b" by auto
  with mid show ?case unfolding for_loop_upt_Suc by simp
qed

subsection \<open>The loops over the vertices and the faces\<close>

lemma mesh_bounds:
  assumes "mesh_geometry E M"
  shows "3 * nvertices M < 2 ^ 31" "3 * nfaces M < 2 ^ 31"
  using assms by (simp_all add: mesh_geometry_def)

lemma mesh_vertex:
  assumes "mesh_geometry E M" "k < nat (nvertices M)"
  shows "vertex_at M (int k) = Inr (vertices M ! k)" "\<not> ripflag (vertices M ! k)"
    "to_float E (vert_x (vertices M ! k)) = vert_x (vertices M ! k)"
    "to_float E (vert_y (vertices M ! k)) = vert_y (vertices M ! k)"
    "to_float E (vert_z (vertices M ! k)) = vert_z (vertices M ! k)"
  using assms by (auto simp: mesh_geometry_def vertex_at_def list_all_length)

lemma mesh_face:
  assumes "mesh_geometry E M" "k < nat (nfaces M)" "j < 3"
  shows "length (face_v (faces M ! k)) = 3" "distinct (face_v (faces M ! k))"
    "0 \<le> face_v (faces M ! k) ! j" "face_v (faces M ! k) ! j < nvertices M"
    "face_v (faces M ! k) ! j < 2 ^ 31"
    "nat (face_v (faces M ! k) ! j) < length (vertices M)"
proof -
  from assms have f: "length (face_v (faces M ! k)) = 3" "distinct (face_v (faces M ! k))"
    and b: "0 \<le> face_v (faces M ! k) ! j \<and> face_v (faces M ! k) ! j < nvertices M"
    and n: "nvertices M < 2 ^ 31" "length (vertices M) = nat (nvertices M)"
    by (auto simp: mesh_geometry_def list_all_length VERTICES_PER_FACE_def)
  show "length (face_v (faces M ! k)) = 3" "distinct (face_v (faces M ! k))"
    "0 \<le> face_v (faces M ! k) ! j" "face_v (faces M ! k) ! j < nvertices M"
    using f b by auto
  show "face_v (faces M ! k) ! j < 2 ^ 31" using b n by linarith
  show "nat (face_v (faces M ! k) ! j) < length (vertices M)" using b n by linarith
qed

lemma write_vertex_step:
  assumes ok: "mesh_geometry E M" and k: "k < nat (nvertices M)"
    and c0: "num_dim c0 = 2" "ind_ord c0 = GIFTI_IND_ORD_ROW_MAJOR" "dims0 c0 = nvertices M"
      "dims1 c0 = 3" "dtype c0 = NIFTI_TYPE_FLOAT32"
    and inv: "coords_inv E M c0 k c"
  shows "\<exists>c'. write_vertex E M k c = Inr c' \<and> coords_inv E M c0 (Suc k) c'"
proof -
  from inv obtain buf where c: "c = c0\<lparr>data := Some buf\<rparr>"
    and len: "int (length buf) = 3 * nvertices M"
    and old: "\<forall>i<k. buf ! (3 * i) = vert_x (vertices M ! i) \<and>
                buf ! (3 * i + 1) = vert_y (vertices M ! i) \<and>
                buf ! (3 * i + 2) = vert_z (vertices M ! i)"
    by (auto simp: coords_inv_def)
  let ?v = "vertices M ! k"
  let ?b1 = "buf[3 * k + 0 := to_float E (vert_x ?v)]"
  let ?b2 = "?b1[3 * k + 1 := to_float E (vert_y ?v)]"
  let ?b3 = "?b2[3 * k + 2 := to_float E (vert_z ?v)]"
  have r0: "rows3 c (nvertices M) buf"
    using c c0 len mesh_bounds[OF ok] by (simp add: rows3_def)
  have s1: "gifti_set_DA_value_2D (to_float E) c (int k) 0 (vert_x ?v)
              = Inr (c0\<lparr>data := Some ?b1\<rparr>, None)"
    using set_rows3_float[OF r0 k, of 0 "to_float E" "vert_x ?v"] c c0 by simp
  have r1: "rows3 (c0\<lparr>data := Some ?b1\<rparr>) (nvertices M) ?b1"
    using c0 len mesh_bounds[OF ok] by (simp add: rows3_def)
  have s2: "gifti_set_DA_value_2D (to_float E) (c0\<lparr>data := Some ?b1\<rparr>) (int k) 1 (vert_y ?v)
              = Inr (c0\<lparr>data := Some ?b2\<rparr>, None)"
    using set_rows3_float[OF r1 k, of 1 "to_float E" "vert_y ?v"] c0 by simp
  have r2: "rows3 (c0\<lparr>data := Some ?b2\<rparr>) (nvertices M) ?b2"
    using c0 len mesh_bounds[OF ok] by (simp add: rows3_def)
  have s3: "gifti_set_DA_value_2D (to_float E) (c0\<lparr>data := Some ?b2\<rparr>) (int k) 2 (vert_z ?v)
              = Inr (c0\<lparr>data := Some ?b3\<rparr>, None)"
    using set_rows3_float[OF r2 k, of 2 "to_float E" "vert_z ?v"] c0 by simp
  have w: "write_vertex E M k c = Inr (c0\<lparr>data := Some ?b3\<rparr>)"
    using mesh_vertex(1,2)[OF ok k] s1 s2 s3 by (simp add: write_vertex_def)
  have k3: "3 * k + 2 < length buf" using k len by linarith
  have new: "?b3 ! (3 * i) = vert_x (vertices M ! i) \<and>
             ?b3 ! (3 * i + 1) = vert_y (vertices M ! i) \<and>
             ?b3 ! (3 * i + 2) = vert_z (vertices M ! i)" if "i < Suc k" for i
  proof (cases "i = k")
    case True
    then show ?thesis using k3 mesh_vertex(3,4,5)[OF ok k] by (simp add: nth_list_update)
  next
    case False
    with that have "i < k" by simp
    then show ?thesis using old by (simp add: nth_list_update)
  qed
  show ?thesis
    unfolding w coords_inv_def using len new by auto
qed

lemma write_vertices:
  assumes ok: "mesh_geometry E M"
    and c0: "num_dim c0 = 2" "ind_ord c0 = GIFTI_IND_ORD_ROW_MAJOR" "dims0 c0 = nvertices M"
      "dims1 c0 = 3" "dtype c0 = NIFTI_TYPE_FLOAT32"
    and d0: "data c0 = Some buf0" "int (length buf0) = 3 * nvertices M"
  shows "\<exists>c'. for_loop [0..<nat (nvertices M)] (write_vertex E M) c0 = Inr c' \<and>
           coords_inv E M c0 (nat (nvertices M)) c'"
proof (rule for_loop_upt_total[where Inv = "coords_inv E M c0"])
  show "coords_inv E M c0 0 c0"
    using d0 by (auto simp: coords_inv_def intro!: exI[of _ buf0])
next
  fix i a
  assume "i < nat (nvertices M)" "coords_inv E M c0 i a"
  then show "\<exists>b. write_vertex E M i a = Inr b \<and> coords_inv E M c0 (Suc i) b"
    using write_vertex_step[OF ok _ c0] by blast
qed

lemma face_not_ripped:
  assumes ok: "mesh_geometry E M" and k: "k < nat (nfaces M)"
  shows "face_is_ripped M k = Inr False"
proof -
  have len: "length (faces M) = nat (nfaces M)" "length (vertices M) = nat (nvertices M)"
    using ok by (auto simp: mesh_geometry_def)
  have v: "vertex_at M (face_v (faces M ! k) ! j) = Inr (vertices M ! nat (face_v (faces M ! k) ! j))
           \<and> \<not> ripflag (vertices M ! nat (face_v (faces M ! k) ! j))" if "j < 3" for j
  proof -
    have "nat (face_v (faces M ! k) ! j) < nat (nvertices M)"
      using mesh_face(6)[OF ok k that] len by simp
    from mesh_vertex(1,2)[OF ok this] mesh_face(3)[OF ok k that] show ?thesis by simp
  qed
  show ?thesis
    using k len mesh_face(1)[OF ok k, of 0] v[of 0] v[of 1] v[of 2]
    by (simp add: face_is_ripped_def VERTICES_PER_FACE_def)
qed

lemma count_faces:
  assumes ok: "mesh_geometry E M"
  shows "for_loop [0..<nat (nfaces M)] (count_face M) 0 = Inr (nfaces M)"
proof -
  have "\<exists>n. for_loop [0..<nat (nfaces M)] (count_face M) 0 = Inr n \<and> n = int (nat (nfaces M))"
    by (rule for_loop_upt_total[where Inv = "\<lambda>k n. n = int k"])
       (auto simp: count_face_def face_not_ripped[OF ok])
  moreover have "0 < nfaces M" using ok by (simp add: mesh_geometry_def)
  ultimately show ?thesis by simp
qed

lemma write_face_step:
  assumes ok: "mesh_geometry E M" and k: "k < nat (nfaces M)"
    and f0: "num_dim f0 = 2" "ind_ord f0 = GIFTI_IND_ORD_ROW_MAJOR" "dims0 f0 = nfaces M"
      "dims1 f0 = 3" "dtype f0 = NIFTI_TYPE_INT32"
    and inv: "faces_inv M f0 k st"
  shows "\<exists>st'. write_face E M k st = Inr st' \<and> faces_inv M f0 (Suc k) st'"
proof -
  from inv obtain buf where c: "fst st = f0\<lparr>data := Some buf\<rparr>" and n: "snd st = int k"
    and len: "int (length buf) = 3 * nfaces M"
    and old: "\<forall>i<k. \<forall>j<3. buf ! (3 * i + j) = of_int (face_v (faces M ! i) ! j)"
    by (auto simp: faces_inv_def)
  let ?f = "face_v (faces M ! k)"
  let ?b1 = "buf[3 * k + 0 := of_int (?f ! 0)]"
  let ?b2 = "?b1[3 * k + 1 := of_int (?f ! 1)]"
  let ?b3 = "?b2[3 * k + 2 := of_int (?f ! 2)]"
  have r0: "rows3 (fst st) (nfaces M) buf"
    using c f0 len mesh_bounds[OF ok] by (simp add: rows3_def)
  have s1: "gifti_set_DA_value_2D (to_float E) (fst st) (snd st) 0 (of_int (?f ! 0))
              = Inr (f0\<lparr>data := Some ?b1\<rparr>, None)"
    using set_rows3_int[OF r0 k, of 0 "?f ! 0" "to_float E"] c f0 n
      mesh_face(3,5)[OF ok k, of 0] by simp
  have r1: "rows3 (f0\<lparr>data := Some ?b1\<rparr>) (nfaces M) ?b1"
    using f0 len mesh_bounds[OF ok] by (simp add: rows3_def)
  have s2: "gifti_set_DA_value_2D (to_float E) (f0\<lparr>data := Some ?b1\<rparr>) (snd st) 1 (of_int (?f ! 1))
              = Inr (f0\<lparr>data := Some ?b2\<rparr>, None)"
    using set_rows3_int[OF r1 k, of 1 "?f ! 1" "to_float E"] f0 n
      mesh_face(3,5)[OF ok k, of 1] by simp
  have r2: "rows3 (f0\<lparr>data := Some ?b2\<rparr>) (nfaces M) ?b2"
    using f0 len mesh_bounds[OF ok] by (simp add: rows3_def)
  have s3: "gifti_set_DA_value_2D (to_float E) (f0\<lparr>data := Some ?b2\<rparr>) (snd st) 2 (of_int (?f ! 2))
              = Inr (f0\<lparr>data := Some ?b3\<rparr>, None)"
    using set_rows3_int[OF r2 k, of 2 "?f ! 2" "to_float E"] f0 n
      mesh_face(3,5)[OF ok k, of 2] by simp
  have w: "write_face E M k st = Inr (f0\<lparr>data := Some ?b3\<rparr>, int k + 1)"
    using face_not_ripped[OF ok k] s1 s2 s3 n by (simp add: write_face_def)
  have k3: "3 * k + 2 < length buf" using k len by linarith
  have new: "?b3 ! (3 * i + j) = of_int (face_v (faces M ! i) ! j)" if "i < Suc k" "j < 3" for i j
  proof (cases "i = k")
    case True
    have "j = 0 \<or> j = 1 \<or> j = 2" using that(2) by auto
    then show ?thesis using k3 True by (auto simp: nth_list_update)
  next
    case False
    with that have "i < k" by simp
    then show ?thesis using old that(2) by (simp add: nth_list_update)
  qed
  show ?thesis
    unfolding w faces_inv_def using len new by auto
qed

lemma write_faces:
  assumes ok: "mesh_geometry E M"
    and f0: "num_dim f0 = 2" "ind_ord f0 = GIFTI_IND_ORD_ROW_MAJOR" "dims0 f0 = nfaces M"
      "dims1 f0 = 3" "dtype f0 = NIFTI_TYPE_INT32"
    and d0: "data f0 = Some buf0" "int (length buf0) = 3 * nfaces M"
  shows "\<exists>st'. for_loop [0..<nat (nfaces M)] (write_face E M) (f0, 0) = Inr st' \<and>
           faces_inv M f0 (nat (nfaces M)) st'"
proof (rule for_loop_upt_total[where Inv = "faces_inv M f0"])
  show "faces_inv M f0 0 (f0, 0)"
    using d0 by (auto simp: faces_inv_def intro!: exI[of _ buf0])
next
  fix i a
  assume "i < nat (nfaces M)" "faces_inv M f0 i a"
  then show "\<exists>b. write_face E M i a = Inr b \<and> faces_inv M f0 (Suc i) b"
    using write_face_step[OF ok _ f0] by blast
qed

subsection \<open>Coordinate system and metadata\<close>

lemma surface_coordsys_fst: "\<exists>x. fst (surface_coordsys E M out) = M\<lparr>SRASToTalSRAS := x\<rparr>"
proof (cases "useRealRAS M \<noteq> 0 \<or> valid (vg M) \<noteq> 0")
  case True
  then have "fst (surface_coordsys E M out) = M\<lparr>SRASToTalSRAS := SRASToTalSRAS M\<rparr>"
    by (auto simp: surface_coordsys_def)
  then show ?thesis by blast
next
  case False
  then have "fst (surface_coordsys E M out) = M\<lparr>SRASToTalSRAS := MRISreadTransform E M out\<rparr>"
    by (auto simp: surface_coordsys_def Let_def split: option.splits)
  then show ?thesis by blast
qed

lemma mesh_geometry_SRAS: "mesh_geometry E (M\<lparr>SRASToTalSRAS := x\<rparr>) = mesh_geometry E M"
  by (simp add: mesh_geometry_def)

lemma same_but_meta_refl: "same_but_meta a a"
  by (simp add: same_but_meta_def)

lemma same_but_meta_trans: "same_but_meta a b \<Longrightarrow> same_but_meta b c \<Longrightarrow> same_but_meta a c"
  unfolding same_but_meta_def
proof -
  assume ab: "b = a\<lparr>meta := meta b\<rparr>" and bc: "c = b\<lparr>meta := meta c\<rparr>"
  have "c = (a\<lparr>meta := meta b\<rparr>)\<lparr>meta := meta c\<rparr>" using ab bc by simp
  then show "c = a\<lparr>meta := meta c\<rparr>" by simp
qed

lemma same_but_meta_fields:
  assumes "same_but_meta a b"
  shows "intent b = intent a" "dtype b = dtype a" "ind_ord b = ind_ord a" "num_dim b = num_dim a"
    "dims0 b = dims0 a" "dims1 b = dims1 a" "data b = data a" "coordsys b = coordsys a"
proof -
  from assms have e: "b = a\<lparr>meta := meta b\<rparr>" by (simp add: same_but_meta_def)
  show "intent b = intent a" by (subst e) simp
  show "dtype b = dtype a" by (subst e) simp
  show "ind_ord b = ind_ord a" by (subst e) simp
  show "num_dim b = num_dim a" by (subst e) simp
  show "dims0 b = dims0 a" by (subst e) simp
  show "dims1 b = dims1 a" by (subst e) simp
  show "data b = data a" by (subst e) simp
  show "coordsys b = coordsys a" by (subst e) simp
qed

lemma add_meta_same: "same_but_meta a (add_meta a k v)"
  by (simp add: same_but_meta_def add_meta_def)

lemma add_meta_opt_same: "same_but_meta a (add_meta_opt a k v)"
  by (simp add: add_meta_opt_def add_meta_same same_but_meta_refl split: option.splits)

lemma add_meta_lookup: "meta (add_meta a k v) k' = (if k' = k then Some v else meta a k')"
  by (simp add: add_meta_def)

lemma add_meta_opt_lookup_other: "k' \<noteq> k \<Longrightarrow> meta (add_meta_opt a k v) k' = meta a k'"
  by (simp add: add_meta_opt_def add_meta_def split: option.splits)

lemma write_name_meta_fst:
  "same_but_meta (fst cf) (fst (write_name_meta M cf)) \<and>
   meta (fst (write_name_meta M cf)) ''NUM_TAG_CMDLINE'' = meta (fst cf) ''NUM_TAG_CMDLINE''"
  by (auto simp: write_name_meta_def Let_def same_but_meta_refl add_meta_lookup
      add_meta_opt_lookup_other
      intro!: same_but_meta_trans[OF _ add_meta_same] same_but_meta_trans[OF _ add_meta_opt_same]
              add_meta_opt_same)

lemma write_name_meta_snd: "same_but_meta (snd cf) (snd (write_name_meta M cf))"
  by (auto simp: write_name_meta_def Let_def same_but_meta_refl
      intro!: same_but_meta_trans[OF add_meta_same add_meta_same])

lemma write_volgeom_meta_same:
  "same_but_meta c (write_volgeom_meta E M c) \<and>
   meta (write_volgeom_meta E M c) ''NUM_TAG_CMDLINE'' = meta c ''NUM_TAG_CMDLINE''"
  by (simp add: write_volgeom_meta_def Let_def add_meta_def same_but_meta_def)

lemma write_cmdline_step:
  assumes "k < length (cmdlines M)"
  shows "\<exists>c'. write_cmdline M k c = Inr c' \<and> same_but_meta c c' \<and>
           meta c' ''NUM_TAG_CMDLINE'' = meta c ''NUM_TAG_CMDLINE''"
  using assms by (simp add: write_cmdline_def add_meta_same add_meta_lookup)

lemma write_cmdlines_ok:
  assumes n: "0 \<le> ncmds M" "nat (ncmds M) \<le> length (cmdlines M)"
    and c: "meta c ''NUM_TAG_CMDLINE'' = None"
  shows "\<exists>c'. write_cmdlines M c = Inr c' \<and> same_but_meta c c' \<and>
           meta c' ''NUM_TAG_CMDLINE'' = (if 0 < ncmds M then Some (sprintf_d (ncmds M)) else None)"
proof (cases "0 < ncmds M")
  case False
  then show ?thesis using c by (simp add: write_cmdlines_def same_but_meta_refl)
next
  case True
  let ?c1 = "add_meta c ''NUM_TAG_CMDLINE'' (sprintf_d (ncmds M))"
  have "\<exists>c'. for_loop [0..<nat (ncmds M)] (write_cmdline M) ?c1 = Inr c' \<and>
          (same_but_meta c c' \<and> meta c' ''NUM_TAG_CMDLINE'' = Some (sprintf_d (ncmds M)))"
  proof (rule for_loop_upt_total[where
        Inv = "\<lambda>k c'. same_but_meta c c' \<and> meta c' ''NUM_TAG_CMDLINE'' = Some (sprintf_d (ncmds M))"])
    show "same_but_meta c ?c1 \<and> meta ?c1 ''NUM_TAG_CMDLINE'' = Some (sprintf_d (ncmds M))"
      by (simp add: add_meta_same add_meta_lookup)
  next
    fix i a
    assume i: "i < nat (ncmds M)"
      and a: "same_but_meta c a \<and> meta a ''NUM_TAG_CMDLINE'' = Some (sprintf_d (ncmds M))"
    from i n have "i < length (cmdlines M)" by simp
    from write_cmdline_step[OF this, of a] a
    show "\<exists>b. write_cmdline M i a = Inr b \<and>
            (same_but_meta c b \<and> meta b ''NUM_TAG_CMDLINE'' = Some (sprintf_d (ncmds M)))"
      using same_but_meta_trans by fastforce
  qed
  with True show ?thesis by (simp add: write_cmdlines_def)
qed

subsection \<open>The two arrays of the surface\<close>

lemma alloc_new_darray:
  assumes "0 < n"
  shows "alloc_data ((new_darray i t 2 n 3)\<lparr>coordsys := css\<rparr>) =
           \<lparr>intent = i, dtype = t, ind_ord = GIFTI_IND_ORD_ROW_MAJOR, num_dim = 2,
            dims0 = n, dims1 = 3, data = Some (replicate (nat (n * 3)) 0), meta = Map.empty,
            coordsys = css\<rparr>"
    and "alloc_data (new_darray i t 2 n 3) =
           \<lparr>intent = i, dtype = t, ind_ord = GIFTI_IND_ORD_ROW_MAJOR, num_dim = 2,
            dims0 = n, dims1 = 3, data = Some (replicate (nat (n * 3)) 0), meta = Map.empty,
            coordsys = []\<rparr>"
  using assms by (simp_all add: alloc_data_def new_darray_def gifti_darray_nvals_def)

lemma emit_surface:
  assumes ok: "mesh_geometry E M"
  shows "\<exists>img M1 c f. MRISwriteGIFTISurface E M new_image out = Inr (img, M1) \<and>
     darray img = [c, f] \<and> labeltable img = no_labels \<and> emitted M c f"
proof -
  obtain x where M1: "fst (surface_coordsys E M out) = M\<lparr>SRASToTalSRAS := x\<rparr>"
    using surface_coordsys_fst by blast
  let ?M1 = "M\<lparr>SRASToTalSRAS := x\<rparr>"
  let ?css = "snd (surface_coordsys E M out)"
  have ok1: "mesh_geometry E ?M1" using ok by (simp add: mesh_geometry_SRAS)
  have N: "0 < nvertices M" and F: "0 < nfaces M"
    and cm: "0 \<le> ncmds M" "nat (ncmds M) \<le> length (cmdlines M)"
    using ok by (auto simp: mesh_geometry_def)
  let ?c0 = "alloc_data ((new_darray NIFTI_INTENT_POINTSET NIFTI_TYPE_FLOAT32 2 (nvertices M) 3)\<lparr>coordsys := ?css\<rparr>)"
  let ?f0 = "alloc_data (new_darray NIFTI_INTENT_TRIANGLE NIFTI_TYPE_INT32 2 (nfaces M) 3)"
  have c0: "num_dim ?c0 = 2" "ind_ord ?c0 = GIFTI_IND_ORD_ROW_MAJOR" "dims0 ?c0 = nvertices ?M1"
      "dims1 ?c0 = 3" "dtype ?c0 = NIFTI_TYPE_FLOAT32" "intent ?c0 = NIFTI_INTENT_POINTSET"
      "meta ?c0 = Map.empty"
      "data ?c0 = Some (replicate (nat (nvertices M * 3)) 0)"
    unfolding alloc_new_darray(1)[OF N] by simp_all
  have f0: "num_dim ?f0 = 2" "ind_ord ?f0 = GIFTI_IND_ORD_ROW_MAJOR" "dims0 ?f0 = nfaces ?M1"
      "dims1 ?f0 = 3" "dtype ?f0 = NIFTI_TYPE_INT32" "intent ?f0 = NIFTI_INTENT_TRIANGLE"
      "data ?f0 = Some (replicate (nat (nfaces M * 3)) 0)"
    unfolding alloc_new_darray(2)[OF F] by simp_all
  have lc: "int (length (replicate (nat (nvertices M * 3)) (0::real))) = 3 * nvertices ?M1"
    using N by simp
  have lf: "int (length (replicate (nat (nfaces M * 3)) (0::real))) = 3 * nfaces ?M1"
    using F by simp
  from write_vertices[OF ok1 c0(1-5) c0(8) lc] obtain c1 where
    c1: "for_loop [0..<nat (nvertices M)] (write_vertex E ?M1) ?c0 = Inr c1"
    and c1i: "coords_inv E ?M1 ?c0 (nat (nvertices M)) c1" by auto
  have cnt: "for_loop [0..<nat (nfaces M)] (count_face ?M1) 0 = Inr (nfaces M)"
    using count_faces[OF ok1] by simp
  from write_faces[OF ok1 f0(1-5) f0(7) lf] obtain st1 where
    f1: "for_loop [0..<nat (nfaces M)] (write_face E ?M1) (?f0, 0) = Inr st1"
    and f1i: "faces_inv ?M1 ?f0 (nat (nfaces M)) st1" by auto
  let ?cf = "write_name_meta ?M1 (c1, fst st1)"
  let ?c2 = "write_volgeom_meta E ?M1 (fst ?cf)"
  let ?c3 = "if \<not> FZERO E (group_avg_surface_area ?M1)
             then add_meta ?c2 ''TAG_GROUP_AVG_SURFACE_AREA'' (sprintf_f E 20 (group_avg_surface_area ?M1))
             else ?c2"
  from c1i obtain cb where cb: "c1 = ?c0\<lparr>data := Some cb\<rparr>" "int (length cb) = 3 * nvertices M"
    and cbv: "\<forall>i<nat (nvertices M). cb ! (3 * i) = vert_x (vertices M ! i) \<and>
                cb ! (3 * i + 1) = vert_y (vertices M ! i) \<and>
                cb ! (3 * i + 2) = vert_z (vertices M ! i)"
    by (auto simp: coords_inv_def)
  from f1i obtain fb where fb: "fst st1 = ?f0\<lparr>data := Some fb\<rparr>" "int (length fb) = 3 * nfaces M"
    and fbv: "\<forall>i<nat (nfaces M). \<forall>j<3. fb ! (3 * i + j) = of_int (face_v (faces M ! i) ! j)"
    by (auto simp: faces_inv_def)
  have c1m: "meta c1 ''NUM_TAG_CMDLINE'' = None" using cb(1) c0(7) by simp
  have s12: "same_but_meta c1 ?c2"
    using write_name_meta_fst[of "(c1, fst st1)" ?M1] write_volgeom_meta_same[of "fst ?cf" E ?M1]
      same_but_meta_trans by fastforce
  have m2: "meta ?c2 ''NUM_TAG_CMDLINE'' = None"
    using write_name_meta_fst[of "(c1, fst st1)" ?M1] write_volgeom_meta_same[of "fst ?cf" E ?M1] c1m
    by simp
  have s13: "same_but_meta c1 ?c3"
    using s12 same_but_meta_trans[OF s12 add_meta_same] by simp
  have m3: "meta ?c3 ''NUM_TAG_CMDLINE'' = None"
    using m2 by (simp add: add_meta_lookup)
  from write_cmdlines_ok[of ?M1 ?c3] cm m3 obtain c4 where
    c4: "write_cmdlines ?M1 ?c3 = Inr c4" and s34: "same_but_meta ?c3 c4"
    and m4: "meta c4 ''NUM_TAG_CMDLINE'' = (if 0 < ncmds M then Some (sprintf_d (ncmds M)) else None)"
    by auto
  have s14: "same_but_meta c1 c4" using same_but_meta_trans[OF s13 s34] .
  have sf: "same_but_meta (fst st1) (snd ?cf)"
    using write_name_meta_snd[of "(c1, fst st1)" ?M1] by simp
  have w: "MRISwriteGIFTISurface E M new_image out
             = Inr (new_image\<lparr>darray := darray new_image @ [c4, snd ?cf]\<rparr>, ?M1)"
  proof (cases "FZERO E (group_avg_surface_area M)")
    case True
    with c1 cnt f1 c4 show ?thesis
      by (simp add: MRISwriteGIFTISurface_def Let_def split_beta M1 prod.case_eq_if)
  next
    case False
    with c1 cnt f1 c4 show ?thesis
      by (simp add: MRISwriteGIFTISurface_def Let_def split_beta M1 prod.case_eq_if)
  qed
  have rc: "rows3 c4 (nvertices M) cb"
    using same_but_meta_fields[OF s14] cb c0 mesh_bounds[OF ok] by (simp add: rows3_def)
  have rf: "rows3 (snd ?cf) (nfaces M) fb"
    using same_but_meta_fields[OF sf] fb f0 mesh_bounds[OF ok] by (simp add: rows3_def)
  have e: "emitted M c4 (snd ?cf)"
    unfolding emitted_def
    using same_but_meta_fields[OF s14] same_but_meta_fields[OF sf] cb fb c0 f0 rc rf cbv fbv m4
    by auto
  show ?thesis
    unfolding w using e by (simp add: new_image_def)
qed

section \<open>Writing a surface and reading it back: mrisReadGIFTIdanum\<close>

subsection \<open>The new surface and its vertices\<close>

lemma rows3_vertices_cols:
  assumes "rows3 da n buf" "0 < n"
  shows "DA_vertices_cols da = Inr (n, 3)"
  using assms
  by (simp add: rows3_def DA_vertices_cols_def gifti_DA_rows_cols_def gifti_darray_nvals_def)

lemma find_coords_faces_emitted:
  assumes "emitted M c f"
  shows "find_coords_faces [c, f] = (Some c, Some f)"
  using assms by (simp add: emitted_def find_coords_faces_def)

lemma read_labeltable_no_labels: "read_labeltable E fn no_labels = Inr (no_labels, None)"
  by (simp add: read_labeltable_def no_labels_def)

lemma read_volgeom_geom:
  "geom (read_volgeom E m s) = geom s \<and> ncmds (read_volgeom E m s) = ncmds s \<and>
   cmdlines (read_volgeom E m s) = cmdlines s"
  by (simp add: read_volgeom_def Let_def split_beta geom_def)

lemma read_group_avg_geom:
  "geom (read_group_avg_surface_area E m s) = geom s \<and>
   ncmds (read_group_avg_surface_area E m s) = ncmds s \<and>
   cmdlines (read_group_avg_surface_area E m s) = cmdlines s"
  by (simp add: read_group_avg_surface_area_def geom_def split: option.splits)

lemma new_surface_geom:
  "geom (new_surface E fn c nv nf) = geom (MRISalloc nv nf) \<and>
   ncmds (new_surface E fn c nv nf) = 0 \<and> cmdlines (new_surface E fn c nv nf) = []"
proof -
  let ?a = "(MRISalloc nv nf)\<lparr>fname := fn,
       hemisphere := hemisphere_of (meta c ''AnatomicalStructurePrimary''), useRealRAS := 0\<rparr>"
  have a: "geom ?a = geom (MRISalloc nv nf)" "ncmds ?a = 0" "cmdlines ?a = []"
    by (simp_all add: geom_def MRISalloc_def)
  have "new_surface E fn c nv nf = read_group_avg_surface_area E (meta c) (read_volgeom E (meta c) ?a)"
    by (simp add: new_surface_def Let_def)
  then show ?thesis using a read_group_avg_geom[of E "meta c" "read_volgeom E (meta c) ?a"]
      read_volgeom_geom[of E "meta c" ?a] by simp
qed

lemma read_cmdlines_emitted:
  assumes n: "0 \<le> n" "n \<le> MAX_CMDS E"
    and m: "m ''NUM_TAG_CMDLINE'' = (if 0 < n then Some (sprintf_d n) else None)"
    and s: "ncmds s = 0"
  shows "\<exists>s'. read_cmdlines E m s = Some s' \<and> geom s' = geom s"
proof -
  have stored: "(case m ''NUM_TAG_CMDLINE'' of None \<Rightarrow> ncmds s
                 | Some t \<Rightarrow> (case sscanf_d t of None \<Rightarrow> ncmds s | Some k \<Rightarrow> k)) = n"
    using n m s by (simp add: sscanf_sprintf_d)
  show ?thesis
    unfolding read_cmdlines_def stored Let_def
    using n by (simp add: skip_cmdlines_0 geom_def)
qed

lemma copy_vertex_step:
  assumes ok: "mesh_geometry E M" and e: "emitted M c f" and k: "k < nat (nvertices M)"
    and inv: "verts_inv M k s"
  shows "\<exists>s'. copy_vertex E c k s = Inr s' \<and> verts_inv M (Suc k) s'"
proof -
  from e obtain cb where r: "rows3 c (nvertices M) cb"
    and cb: "cb ! (3 * k) = vert_x (vertices M ! k)" "cb ! (3 * k + 1) = vert_y (vertices M ! k)"
      "cb ! (3 * k + 2) = vert_z (vertices M ! k)"
    and dt: "dtype c = NIFTI_TYPE_FLOAT32"
    using k by (auto simp: emitted_def)
  have g: "gifti_get_DA_value_2D c (int k) 0 = Inr (vert_x (vertices M ! k))"
    "gifti_get_DA_value_2D c (int k) 1 = Inr (vert_y (vertices M ! k))"
    "gifti_get_DA_value_2D c (int k) 2 = Inr (vert_z (vertices M ! k))"
    using get_rows3[OF r k, of 0] get_rows3[OF r k, of 1] get_rows3[OF r k, of 2] dt cb
    by simp_all
  note fx = mesh_vertex(3-5)[OF ok k]
  let ?s' = "s\<lparr>vertices_topology :=
                     (vertices_topology s)[k := (vertices_topology s ! k)\<lparr>vt_num := 0\<rparr>],
                vertices :=
                     (vertices s)[k := (vertices s ! k)
                          \<lparr>vert_x := vert_x (vertices M ! k), vert_y := vert_y (vertices M ! k),
                           vert_z := vert_z (vertices M ! k), origarea := - 1\<rparr>]\<rparr>"
  have c: "copy_vertex E c k s = Inr ?s'"
    by (simp add: copy_vertex_def g fx)
  have "verts_inv M (Suc k) ?s'"
    using inv k
    by (auto simp: verts_inv_def nth_list_update position_def less_Suc_eq)
  with c show ?thesis by blast
qed

lemma copy_vertices:
  assumes ok: "mesh_geometry E M" and e: "emitted M c f" and inv: "verts_inv M 0 s"
  shows "\<exists>s'. for_loop [0..<nat (nvertices M)] (copy_vertex E c) s = Inr s' \<and>
           verts_inv M (nat (nvertices M)) s'"
  by (rule for_loop_upt_total[where Inv = "verts_inv M", OF inv])
     (rule copy_vertex_step[OF ok e])

lemma alloc_verts_inv:
  assumes "geom s = geom (MRISalloc (nvertices M) (nfaces M))"
  shows "verts_inv M 0 s"
  using assms by (simp add: geom_def MRISalloc_def verts_inv_def)

lemma set_surface_center_verts: "verts_inv M k (set_surface_center E s) = verts_inv M k s"
  by (simp add: set_surface_center_def verts_inv_def split_beta)

subsection \<open>The loop over the face array\<close>

lemma set_all_slots: "set (all_slots nf) = {p. fst p < nf \<and> snd p < VERTICES_PER_FACE}"
  by (auto simp: all_slots_def)

lemma for_loop_concat:
  "for_loop (concat xss) body s = for_loop xss (\<lambda>xs. for_loop xs body) s"
  by (induction xss arbitrary: s) (auto simp: for_loop_append split: sum.splits)

lemma for_loop_map:
  "for_loop (map g xs) body s = for_loop xs (\<lambda>x. body (g x)) s"
  by (induction xs arbitrary: s) (auto split: sum.splits)

lemma copy_face_loop_flat:
  "for_loop [0..<nf] (copy_face fcs) s
     = for_loop (all_slots nf) (\<lambda>p. copy_face_vertex fcs (fst p) (snd p)) s"
proof -
  have "copy_face fcs = (\<lambda>x. for_loop (map (Pair x) [0..<VERTICES_PER_FACE])
                               (\<lambda>p. copy_face_vertex fcs (fst p) (snd p)))"
    by (rule ext, rule ext) (simp add: copy_face_def for_loop_map)
  then show ?thesis by (simp add: all_slots_def for_loop_concat for_loop_map)
qed

lemma read_faces_inv_init:
  assumes "verts_inv M k s0"
  shows "read_faces_inv M s0 [] s0"
  using assms by (simp add: verts_inv_def read_faces_inv_def VERTICES_PER_FACE_def)

lemma copy_face_vertex_step:
  assumes ok: "mesh_geometry E M" and e: "emitted M c f"
    and p: "fst p < nat (nfaces M)" "snd p < 3"
    and inv: "read_faces_inv M s0 ps s"
  shows "\<exists>s'. copy_face_vertex f (fst p) (snd p) s = Inr s' \<and> read_faces_inv M s0 (ps @ [p]) s'"
proof -
  obtain fi j where pj: "p = (fi, j)" by (cases p)
  with p have fi: "fi < nat (nfaces M)" and j: "j < 3" by simp_all
  define v where "v = face_v (faces M ! fi) ! j"
  note mf = mesh_face[OF ok fi j, folded v_def]
  from e obtain fb where r: "rows3 f (nfaces M) fb"
    and fb: "fb ! (3 * fi + j) = of_int v"
    and dt: "dtype f = NIFTI_TYPE_INT32"
    using fi j by (auto simp: emitted_def v_def)
  have g: "gifti_get_DA_value_2D f (int fi) (int j) = Inr (of_int v)"
    using get_rows3[OF r fi j] dt fb by simp
  have ci: "c_int (of_int v) = v" using mf by (simp add: c_int_of_int)
  have lt: "length (vertices_topology s) = nat (nvertices M)"
    using inv by (simp add: read_faces_inv_def)
  have vN: "v < int (length (vertices_topology s))" "0 \<le> v" "nat v < nat (nvertices M)"
    using mf lt by auto
  let ?s1 = "s\<lparr>faces := (faces s)[fi := (faces s ! fi)
                   \<lparr>face_v := (face_v (faces s ! fi))[j := v]\<rparr>]\<rparr>"
  let ?s' = "?s1\<lparr>vertices_topology :=
                   (vertices_topology ?s1)[nat v :=
                      (vertices_topology ?s1 ! nat v)
                        \<lparr>vt_num := vt_num (vertices_topology ?s1 ! nat v) + 1\<rparr>]\<rparr>"
  have c: "copy_face_vertex f (fst p) (snd p) s = Inr ?s'"
    using vN by (simp add: copy_face_vertex_def pj g ci Let_def)
  have h: "\<And>w. w < nat (nvertices M) \<Longrightarrow> hits (faces M) w (fi, j) = (w = nat v)"
    using vN by (auto simp: hits_def v_def[symmetric])
  have f1: "\<forall>fi'<nat (nfaces M). length (face_v (faces ?s' ! fi')) = 3 \<and>
         (\<forall>j'<3. face_v (faces ?s' ! fi') ! j'
                  = (if (fi', j') \<in> set (ps @ [p]) then face_v (faces M ! fi') ! j' else 0))"
  proof (intro allI impI conjI)
    fix fi' assume a: "fi' < nat (nfaces M)"
    from inv a have l: "length (face_v (faces s ! fi')) = 3" "length (faces s) = nat (nfaces M)"
      by (simp_all add: read_faces_inv_def)
    show "length (face_v (faces ?s' ! fi')) = 3"
      using l a fi by (auto simp: nth_list_update)
    fix j' assume b: "j' < (3::nat)"
    from inv a b have o: "face_v (faces s ! fi') ! j'
         = (if (fi', j') \<in> set ps then face_v (faces M ! fi') ! j' else 0)"
      by (simp add: read_faces_inv_def)
    show "face_v (faces ?s' ! fi') ! j'
            = (if (fi', j') \<in> set (ps @ [p]) then face_v (faces M ! fi') ! j' else 0)"
      using l a b o fi j by (auto simp: nth_list_update pj v_def)
  qed
  have f2: "\<forall>w<nat (nvertices M).
          vt_num (vertices_topology ?s' ! w) = int (length (filter (hits (faces M) w) (ps @ [p])))"
  proof (intro allI impI)
    fix w assume a: "w < nat (nvertices M)"
    from inv a have o: "vt_num (vertices_topology s ! w) = int (length (filter (hits (faces M) w) ps))"
      by (simp add: read_faces_inv_def)
    show "vt_num (vertices_topology ?s' ! w) = int (length (filter (hits (faces M) w) (ps @ [p])))"
      using o a lt h[OF a] by (cases "w = nat v") (simp_all add: pj)
  qed
  have "read_faces_inv M s0 (ps @ [p]) ?s'"
    unfolding read_faces_inv_def
    using f1 f2 inv by (simp add: read_faces_inv_def)
  with c show ?thesis by blast
qed

lemma copy_face_vertices:
  assumes ok: "mesh_geometry E M" and e: "emitted M c f"
    and s0: "read_faces_inv M s0 [] s0"
  shows "\<forall>p\<in>set ps. fst p < nat (nfaces M) \<and> snd p < 3 \<Longrightarrow>
         \<exists>s. for_loop ps (\<lambda>p. copy_face_vertex f (fst p) (snd p)) s0 = Inr s \<and>
             read_faces_inv M s0 ps s"
proof (induction ps rule: rev_induct)
  case Nil
  then show ?case using s0 by simp
next
  case (snoc p ps)
  then obtain s where s: "for_loop ps (\<lambda>p. copy_face_vertex f (fst p) (snd p)) s0 = Inr s"
    "read_faces_inv M s0 ps s" by auto
  from snoc.prems have p: "fst p < nat (nfaces M)" "snd p < 3" by simp_all
  from copy_face_vertex_step[OF ok e p s(2)] s(1)
  show ?case by (auto simp: for_loop_append)
qed

lemma copy_faces:
  assumes ok: "mesh_geometry E M" and e: "emitted M c f" and s0: "verts_inv M k s0"
  shows "\<exists>s. for_loop [0..<nat (nfaces M)] (copy_face f) s0 = Inr s \<and> faces_read M s0 s"
proof -
  let ?ps = "all_slots (nat (nfaces M))"
  have "\<forall>p\<in>set ?ps. fst p < nat (nfaces M) \<and> snd p < 3"
    by (simp add: set_all_slots VERTICES_PER_FACE_def)
  from copy_face_vertices[OF ok e read_faces_inv_init[OF s0] this]
  obtain s where s: "for_loop [0..<nat (nfaces M)] (copy_face f) s0 = Inr s"
    and inv: "read_faces_inv M s0 ?ps s"
    unfolding copy_face_loop_flat by blast
  have lf: "length (faces M) = nat (nfaces M)" using ok by (simp add: mesh_geometry_def)
  have "faces s = faces M"
  proof (rule nth_equalityI)
    show "length (faces s) = length (faces M)" using inv lf by (simp add: read_faces_inv_def)
  next
    fix fi assume "fi < length (faces s)"
    then have fi: "fi < nat (nfaces M)" using inv by (simp add: read_faces_inv_def)
    have l: "length (face_v (faces s ! fi)) = 3" using inv fi by (simp add: read_faces_inv_def)
    have "face_v (faces s ! fi) = face_v (faces M ! fi)"
    proof (rule nth_equalityI)
      show "length (face_v (faces s ! fi)) = length (face_v (faces M ! fi))"
        using l mesh_face(1)[OF ok fi, of 0] by simp
    next
      fix j assume "j < length (face_v (faces s ! fi))"
      then have j: "j < 3" using l by simp
      then show "face_v (faces s ! fi) ! j = face_v (faces M ! fi) ! j"
        using inv fi by (simp add: read_faces_inv_def set_all_slots VERTICES_PER_FACE_def)
    qed
    then show "faces s ! fi = faces M ! fi" by simp
  qed
  then have "faces_read M s0 s"
    using inv lf by (simp add: read_faces_inv_def faces_read_def incident_slots_def)
  with s show ?thesis by blast
qed

subsection \<open>The face lists\<close>

lemma fill_next:
  assumes "length xs < n"
  shows "(xs @ replicate (n - length xs) z)[length xs := a]
           = (xs @ [a]) @ replicate (n - length (xs @ [a])) z"
proof -
  from assms have "n - length xs = Suc (n - Suc (length xs))" by simp
  then show ?thesis by (simp add: list_update_append)
qed

lemma fold_concat_lists: "fold f (concat xss) s = fold (fold f) xss s"
  by (induction xss arbitrary: s) simp_all

lemma build_face_lists_flat:
  "build_face_lists s
     = fold (\<lambda>p. add_face_to_vertex (fst p) (snd p)) (all_slots (nat (nfaces s))) s"
proof -
  have "\<And>fi. fold (\<lambda>p. add_face_to_vertex (fst p) (snd p)) (map (Pair fi) [0..<VERTICES_PER_FACE])
            = fold (add_face_to_vertex fi) [0..<VERTICES_PER_FACE]"
    by (simp add: fold_map comp_def)
  then show ?thesis
    by (simp add: build_face_lists_def all_slots_def fold_concat_lists fold_map comp_def)
qed

lemma alloc_face_lists_inv:
  assumes "faces_read M s0 s"
  shows "build_inv M s0 [] (alloc_face_lists s)"
  using assms by (simp add: faces_read_def build_inv_def alloc_face_lists_def)

lemma add_face_to_vertex_step:
  assumes ok: "mesh_geometry E M"
    and p: "fst p < nat (nfaces M)" "snd p < 3"
    and le: "\<forall>v<nat (nvertices M). length (filter (hits (faces M) v) (ps @ [p]))
                 \<le> length (incident_slots (faces M) v)"
    and inv: "build_inv M s0 ps s"
  shows "build_inv M s0 (ps @ [p]) (add_face_to_vertex (fst p) (snd p) s)"
proof -
  obtain fi j where pj: "p = (fi, j)" by (cases p)
  with p have fi: "fi < nat (nfaces M)" and j: "j < 3" by simp_all
  define v where "v = face_v (faces M ! fi) ! j"
  note mf = mesh_face[OF ok fi j, folded v_def]
  have lt: "length (vertices_topology s) = nat (nvertices M)" and fs: "faces s = faces M"
    using inv by (simp_all add: build_inv_def)
  have vN: "nat v < nat (nvertices M)" "0 \<le> v" using mf by auto
  have h: "\<And>w. w < nat (nvertices M) \<Longrightarrow> hits (faces M) w (fi, j) = (w = nat v)"
    using vN by (auto simp: hits_def v_def[symmetric])
  let ?inc = "filter (hits (faces M) (nat v)) ps"
  let ?cnt = "length (incident_slots (faces M) (nat v))"
  let ?vt = "vertices_topology s ! nat v"
  from inv vN have vt: "vt_num ?vt = int (length ?inc)"
    "vt_f ?vt = map (\<lambda>p. int (fst p)) ?inc @ replicate (?cnt - length ?inc) 0"
    "vt_n ?vt = replicate ?cnt 0"
    by (simp_all add: build_inv_def)
  have room: "length (map (\<lambda>p. int (fst p)) ?inc) < ?cnt"
    using le[rule_format, OF vN(1)] h[OF vN(1)] by (simp add: pj)
  let ?s' = "s\<lparr>vertices_topology :=
           (vertices_topology s)[nat v :=
              ?vt\<lparr>vt_f := (vt_f ?vt)[nat (vt_num ?vt) := int fi],
                 vt_num := vt_num ?vt + 1\<rparr>]\<rparr>"
  have a: "add_face_to_vertex (fst p) (snd p) s = ?s'"
    by (simp add: add_face_to_vertex_def pj fs Let_def v_def)
  have upd: "(vt_f ?vt)[nat (vt_num ?vt) := int fi]
               = map (\<lambda>p. int (fst p)) (?inc @ [(fi, j)])
                 @ replicate (?cnt - length (?inc @ [(fi, j)])) 0"
    using fill_next[OF room, of 0 "int fi"] by (simp add: vt)
  have "\<forall>w<nat (nvertices M).
          vt_num (vertices_topology ?s' ! w) = int (length (filter (hits (faces M) w) (ps @ [p]))) \<and>
          vt_f (vertices_topology ?s' ! w)
            = map (\<lambda>p. int (fst p)) (filter (hits (faces M) w) (ps @ [p]))
              @ replicate (length (incident_slots (faces M) w)
                             - length (filter (hits (faces M) w) (ps @ [p]))) 0 \<and>
          vt_n (vertices_topology ?s' ! w) = replicate (length (incident_slots (faces M) w)) 0"
  proof (intro allI impI)
    fix w assume w: "w < nat (nvertices M)"
    show "vt_num (vertices_topology ?s' ! w) = int (length (filter (hits (faces M) w) (ps @ [p]))) \<and>
          vt_f (vertices_topology ?s' ! w)
            = map (\<lambda>p. int (fst p)) (filter (hits (faces M) w) (ps @ [p]))
              @ replicate (length (incident_slots (faces M) w)
                             - length (filter (hits (faces M) w) (ps @ [p]))) 0 \<and>
          vt_n (vertices_topology ?s' ! w) = replicate (length (incident_slots (faces M) w)) 0"
    proof (cases "w = nat v")
      case True
      then show ?thesis
        using lt vN h[OF vN(1)] upd vt by (simp add: pj)
    next
      case False
      then show ?thesis
        using lt w h[OF w] inv by (simp add: pj build_inv_def)
    qed
  qed
  then have "build_inv M s0 (ps @ [p]) ?s'"
    using inv by (simp add: build_inv_def)
  then show ?thesis by (simp add: a)
qed

lemma build_prefix:
  assumes ok: "mesh_geometry E M" and s: "build_inv M s0 [] s"
  shows "\<exists>qs. all_slots (nat (nfaces M)) = ps @ qs \<Longrightarrow>
         build_inv M s0 ps (fold (\<lambda>p. add_face_to_vertex (fst p) (snd p)) ps s)"
proof (induction ps rule: rev_induct)
  case Nil
  then show ?case using s by simp
next
  case (snoc p ps)
  from snoc.prems obtain qs where qs: "all_slots (nat (nfaces M)) = (ps @ [p]) @ qs" by blast
  then have "\<exists>qs'. all_slots (nat (nfaces M)) = ps @ qs'" by simp
  then have ih: "build_inv M s0 ps (fold (\<lambda>p. add_face_to_vertex (fst p) (snd p)) ps s)"
    by (rule snoc.IH)
  have "p \<in> set (all_slots (nat (nfaces M)))" using qs by simp
  then have p: "fst p < nat (nfaces M)" "snd p < 3"
    by (simp_all add: set_all_slots VERTICES_PER_FACE_def)
  have lf: "length (faces M) = nat (nfaces M)" using ok by (simp add: mesh_geometry_def)
  have le: "\<forall>v<nat (nvertices M). length (filter (hits (faces M) v) (ps @ [p]))
                 \<le> length (incident_slots (faces M) v)"
    unfolding incident_slots_def lf qs by simp
  from add_face_to_vertex_step[OF ok p le ih] show ?case by simp
qed

lemma build_face_lists_built:
  assumes ok: "mesh_geometry E M" and r: "faces_read M s0 s"
  shows "lists_built M s0 (build_face_lists (alloc_face_lists s))"
proof -
  have nf: "nfaces (alloc_face_lists s) = nfaces M"
    using r by (simp add: alloc_face_lists_def faces_read_def)
  have lf: "length (faces M) = nat (nfaces M)" using ok by (simp add: mesh_geometry_def)
  have "build_inv M s0 (all_slots (nat (nfaces M))) (build_face_lists (alloc_face_lists s))"
    unfolding build_face_lists_flat nf
    by (rule build_prefix[OF ok alloc_face_lists_inv[OF r]]) simp
  then show ?thesis
    by (simp add: build_inv_def lists_built_def incident_slots_def lf)
qed

subsection \<open>The slots\<close>

lemma with_slots_fields:
  "nvertices (with_slots s v ns) = nvertices s" "nfaces (with_slots s v ns) = nfaces s"
  "vertices (with_slots s v ns) = vertices s" "faces (with_slots s v ns) = faces s"
  "length (vertices_topology (with_slots s v ns)) = length (vertices_topology s)"
  by (simp_all add: with_slots_def)

lemma with_slots_nth:
  "v < length (vertices_topology s) \<Longrightarrow>
   vertices_topology (with_slots s v ns) ! w
     = (if w = v then (vertices_topology s ! v)\<lparr>vt_n := ns\<rparr> else vertices_topology s ! w)"
  by (simp add: with_slots_def nth_list_update)

lemma with_slots_twice:
  "v < length (vertices_topology s) \<Longrightarrow> with_slots (with_slots s v ns) v ns' = with_slots s v ns'"
  by (simp add: with_slots_def)

lemma with_slots_same:
  "v < length (vertices_topology s) \<Longrightarrow> with_slots s v (vt_n (vertices_topology s ! v)) = s"
  by (simp add: with_slots_def)

lemma set_slot_eq:
  assumes "faces s = faces M" "v < length (vertices_topology s)"
    and "vt_f (vertices_topology s ! v) ! n = int fi"
    and "\<forall>m<3. (face_v (faces M ! fi) ! m = int v) = (m = j)" "m < 3"
  shows "set_slot v n m s
           = (if m = j then with_slots s v ((vt_n (vertices_topology s ! v))[n := int j]) else s)"
  using assms by (simp add: set_slot_def Let_def with_slots_def)

lemma set_slot_fold:
  assumes "faces s = faces M" "v < length (vertices_topology s)"
    and "vt_f (vertices_topology s ! v) ! n = int fi"
    and "\<forall>m<3. (face_v (faces M ! fi) ! m = int v) = (m = j)" "\<forall>m\<in>set ms. m < 3"
  shows "fold (set_slot v n) ms s
           = (if j \<in> set ms then with_slots s v ((vt_n (vertices_topology s ! v))[n := int j])
              else s)"
  using assms
proof (induction ms arbitrary: s)
  case Nil
  then show ?case by simp
next
  case (Cons m ms)
  let ?u = "with_slots s v ((vt_n (vertices_topology s ! v))[n := int j])"
  have m: "m < 3" and ms: "\<forall>m\<in>set ms. m < 3" using Cons.prems(5) by simp_all
  have one: "set_slot v n m s = (if m = j then ?u else s)"
    by (rule set_slot_eq[OF Cons.prems(1-4) m])
  show ?case
  proof (cases "m = j")
    case True
    have u: "faces ?u = faces M" "v < length (vertices_topology ?u)"
      "vt_f (vertices_topology ?u ! v) ! n = int fi"
      using Cons.prems(1-3) by (simp_all add: with_slots_fields with_slots_nth)
    have "fold (set_slot v n) ms ?u
           = (if j \<in> set ms
              then with_slots ?u v ((vt_n (vertices_topology ?u ! v))[n := int j]) else ?u)"
      by (rule Cons.IH[OF u Cons.prems(4) ms])
    also have "with_slots ?u v ((vt_n (vertices_topology ?u ! v))[n := int j]) = ?u"
      using Cons.prems(2) by (simp add: with_slots_twice with_slots_nth)
    finally show ?thesis using True one by simp
  next
    case False
    then show ?thesis using one Cons.IH[OF Cons.prems(1-4) ms] by simp
  qed
qed

lemma slots_next:
  assumes "k < length inc" "length L = length inc"
  shows "(map f (take k inc) @ drop k L)[k := f (inc ! k)]
           = map f (take (Suc k) inc) @ drop (Suc k) L"
proof -
  have "drop k L = L ! k # drop (Suc k) L" using assms by (simp add: Cons_nth_drop_Suc)
  then show ?thesis
    using assms by (simp add: list_update_append take_Suc_conv_app_nth)
qed

lemma incident_slot:
  assumes ok: "mesh_geometry E M" and n: "n < length (incident_slots (faces M) v)"
  shows "\<forall>m<3. (face_v (faces M ! fst (incident_slots (faces M) v ! n)) ! m = int v)
                  = (m = snd (incident_slots (faces M) v ! n))"
    and "snd (incident_slots (faces M) v ! n) < 3"
proof -
  let ?p = "incident_slots (faces M) v ! n"
  have lf: "length (faces M) = nat (nfaces M)" using ok by (simp add: mesh_geometry_def)
  have "?p \<in> set (incident_slots (faces M) v)" using n by simp
  then have p: "hits (faces M) v ?p" "fst ?p < nat (nfaces M)" "snd ?p < 3"
    by (simp_all add: incident_slots_def set_all_slots lf VERTICES_PER_FACE_def)
  note mf = mesh_face(1,2)[OF ok p(2) p(3)]
  show "snd ?p < 3" by (rule p(3))
  show "\<forall>m<3. (face_v (faces M ! fst ?p) ! m = int v) = (m = snd ?p)"
  proof (intro allI impI)
    fix m assume "m < (3::nat)"
    then show "(face_v (faces M ! fst ?p) ! m = int v) = (m = snd ?p)"
      using p mf nth_eq_iff_index_eq[of "face_v (faces M ! fst ?p)" m "snd ?p"]
      by (auto simp: hits_def)
  qed
qed

lemma find_slots_prefix:
  assumes ok: "mesh_geometry E M" and fs: "faces s = faces M"
    and v: "v < length (vertices_topology s)"
    and f: "vt_f (vertices_topology s ! v) = map (\<lambda>p. int (fst p)) (incident_slots (faces M) v)"
    and l: "length (vt_n (vertices_topology s ! v)) = length (incident_slots (faces M) v)"
  shows "k \<le> length (incident_slots (faces M) v) \<Longrightarrow>
         fold (\<lambda>n. fold (set_slot v n) [0..<VERTICES_PER_FACE]) [0..<k] s
           = with_slots s v (map (\<lambda>p. int (snd p)) (take k (incident_slots (faces M) v))
                             @ drop k (vt_n (vertices_topology s ! v)))"
proof (induction k)
  case 0
  then show ?case using v by (simp add: with_slots_same)
next
  case (Suc k)
  let ?inc = "incident_slots (faces M) v"
  let ?L = "vt_n (vertices_topology s ! v)"
  let ?sk = "with_slots s v (map (\<lambda>p. int (snd p)) (take k ?inc) @ drop k ?L)"
  from Suc.prems have k: "k < length ?inc" by simp
  have ih: "fold (\<lambda>n. fold (set_slot v n) [0..<VERTICES_PER_FACE]) [0..<k] s = ?sk"
    using Suc.IH k by simp
  have sk: "faces ?sk = faces M" "v < length (vertices_topology ?sk)"
    "vt_f (vertices_topology ?sk ! v) ! k = int (fst (?inc ! k))"
    using fs v f k by (simp_all add: with_slots_fields with_slots_nth)
  have j: "snd (?inc ! k) \<in> set [0..<VERTICES_PER_FACE]" "\<forall>m\<in>set [0..<VERTICES_PER_FACE]. m < 3"
    using incident_slot(2)[OF ok k] by (simp_all add: VERTICES_PER_FACE_def)
  have "fold (set_slot v k) [0..<VERTICES_PER_FACE] ?sk
          = with_slots ?sk v ((vt_n (vertices_topology ?sk ! v))[k := int (snd (?inc ! k))])"
    using set_slot_fold[OF sk incident_slot(1)[OF ok k] j(2)] j(1) by simp
  also have "\<dots> = with_slots s v ((map (\<lambda>p. int (snd p)) (take k ?inc) @ drop k ?L)
                                    [k := int (snd (?inc ! k))])"
    using v by (simp add: with_slots_twice with_slots_nth)
  also have "(map (\<lambda>p. int (snd p)) (take k ?inc) @ drop k ?L)[k := int (snd (?inc ! k))]
               = map (\<lambda>p. int (snd p)) (take (Suc k) ?inc) @ drop (Suc k) ?L"
    by (rule slots_next[OF k l])
  finally show ?case using ih by simp
qed

lemma find_slots_vertex_eq:
  assumes ok: "mesh_geometry E M" and fs: "faces s = faces M"
    and v: "v < length (vertices_topology s)"
    and n: "vt_num (vertices_topology s ! v) = int (length (incident_slots (faces M) v))"
    and f: "vt_f (vertices_topology s ! v) = map (\<lambda>p. int (fst p)) (incident_slots (faces M) v)"
    and l: "length (vt_n (vertices_topology s ! v)) = length (incident_slots (faces M) v)"
  shows "find_slots_vertex v s
           = with_slots s v (map (\<lambda>p. int (snd p)) (incident_slots (faces M) v))"
  using find_slots_prefix[OF ok fs v f l, of "length (incident_slots (faces M) v)"] l
  by (simp add: find_slots_vertex_def n)

lemma find_slots_inv:
  assumes ok: "mesh_geometry E M" and b: "lists_built M s0 s"
  shows "k \<le> nat (nvertices M) \<Longrightarrow> slots_inv M s0 k (fold find_slots_vertex [0..<k] s)"
proof (induction k)
  case 0
  then show ?case using b by (simp add: lists_built_def slots_inv_def)
next
  case (Suc k)
  let ?sk = "fold find_slots_vertex [0..<k] s"
  from Suc have ih: "slots_inv M s0 k ?sk" and k: "k < nat (nvertices M)" by simp_all
  have lt: "length (vertices_topology ?sk) = nat (nvertices M)"
    using ih by (simp add: slots_inv_def)
  have e: "find_slots_vertex k ?sk
             = with_slots ?sk k (map (\<lambda>p. int (snd p)) (incident_slots (faces M) k))"
    using ih k by (intro find_slots_vertex_eq[OF ok]) (simp_all add: slots_inv_def)
  have "slots_inv M s0 (Suc k) (find_slots_vertex k ?sk)"
    unfolding e slots_inv_def
    using ih k lt
    by (auto simp: slots_inv_def with_slots_fields with_slots_nth less_Suc_eq)
  then show ?case by simp
qed

lemma read_coordsys_geom: "geom (read_coordsys E css s) = geom s"
  unfolding read_coordsys_def by (rule fold_preserves) (simp add: geom_def)

subsection \<open>The whole read\<close>

lemma set_surface_center_vertices: "vertices (set_surface_center E s) = vertices s"
  by (simp add: set_surface_center_def split_beta)

lemma read_coordsys_shape: "shape (read_coordsys E css s) = shape s"
  using read_coordsys_geom[of E css s] by (simp add: geom_def shape_def)

lemma read_surface_emitted:
  assumes ok: "mesh_geometry E M" and e: "emitted M c f" and lib: "library_keeps_shape E"
  shows "\<exists>m s m4. read_surface E fn c f = Some (Inr m) \<and> verts_inv M (nat (nvertices M)) s \<and>
           slots_inv M s (nat (nvertices M)) m4 \<and> shape m = shape m4"
proof -
  have N: "0 < nvertices M" and F: "0 < nfaces M"
    and cm: "0 \<le> ncmds M" "ncmds M \<le> MAX_CMDS E"
    using ok by (auto simp: mesh_geometry_def)
  from e obtain cb fb where r: "rows3 c (nvertices M) cb" "rows3 f (nfaces M) fb"
    and m: "meta c ''NUM_TAG_CMDLINE'' = (if 0 < ncmds M then Some (sprintf_d (ncmds M)) else None)"
    by (auto simp: emitted_def)
  have dc: "DA_vertices_cols c = Inr (nvertices M, 3)"
    and df: "DA_vertices_cols f = Inr (nfaces M, 3)"
    using rows3_vertices_cols[OF r(1) N] rows3_vertices_cols[OF r(2) F] by simp_all
  let ?s0 = "new_surface E fn c (nvertices M) (nfaces M)"
  note g0 = new_surface_geom[of E fn c "nvertices M" "nfaces M"]
  from read_cmdlines_emitted[where m = "meta c" and n = "ncmds M" and s = ?s0 and E = E, OF cm m] g0
  obtain s1 where s1: "read_cmdlines E (meta c) ?s0 = Some s1"
    and g1: "geom s1 = geom (MRISalloc (nvertices M) (nfaces M))" by auto
  from copy_vertices[OF ok e alloc_verts_inv[OF g1]]
  obtain s2 where s2: "for_loop [0..<nat (nvertices M)] (copy_vertex E c) s1 = Inr s2"
    and v2: "verts_inv M (nat (nvertices M)) s2" by blast
  let ?s2 = "set_surface_center E s2"
  have v2': "verts_inv M (nat (nvertices M)) ?s2" using v2 by (simp add: set_surface_center_verts)
  from copy_faces[OF ok e v2']
  obtain s3 where s3: "for_loop [0..<nat (nfaces M)] (copy_face f) ?s2 = Inr s3"
    and f3: "faces_read M ?s2 s3" by blast
  let ?s4 = "find_slots (nat (nvertices M)) (build_face_lists (alloc_face_lists s3))"
  have i4: "slots_inv M ?s2 (nat (nvertices M)) ?s4"
    unfolding find_slots_def
    by (rule find_slots_inv[OF ok build_face_lists_built[OF ok f3]]) simp
  let ?m = "UpdateMRIS E (MRIScomputeNormals E (read_coordsys E (coordsys c)
              (mrisCompleteTopology E ?s4))) fn"
  have i5: "shape ?m = shape ?s4"
    using lib by (simp add: library_keeps_shape_def read_coordsys_shape)
  have "read_surface E fn c f = Some (Inr ?m)"
    using N F by (simp add: read_surface_def dc df s1 s2 s3)
  with v2' i4 i5 show ?thesis by blast
qed

lemma parse_emitted:
  assumes e: "emitted M c f" and d: "darray img = [c, f]"
  shows "parse_darrays E img ctab [0..<length (darray img)] st = Some (Inr st)"
proof -
  have l: "[0..<length (darray img)] = [0, 1]" using d by (simp add: upt_rec)
  have i: "intent c = NIFTI_INTENT_POINTSET" "intent f = NIFTI_INTENT_TRIANGLE"
    using e by (simp_all add: emitted_def)
  show ?thesis unfolding l using d i by (simp add: parse_darray_def)
qed

lemma read_emitted:
  assumes ok: "mesh_geometry E M" and e: "emitted M c f" and lib: "library_keeps_shape E"
    and d: "darray img = [c, f]" "labeltable img = no_labels"
  shows "\<exists>m s m4. mrisReadGIFTIdanum E fn img mris_in (- 1) outmri frame = Some (Inr (m, outmri, frame))
           \<and> verts_inv M (nat (nvertices M)) s \<and> slots_inv M s (nat (nvertices M)) m4
           \<and> shape m = shape m4"
proof -
  from read_surface_emitted[OF ok e lib, of fn] obtain m s m4 where
    m: "read_surface E fn c f = Some (Inr m)"
    and i: "verts_inv M (nat (nvertices M)) s" "slots_inv M s (nat (nvertices M)) m4"
      "shape m = shape m4" by blast
  let ?img = "img\<lparr>labeltable := no_labels\<rparr>"
  have d': "darray ?img = [c, f]" using d by simp
  have "mrisReadGIFTIdanum E fn img mris_in (- 1) outmri frame = Some (Inr (m, outmri, frame))"
    unfolding mrisReadGIFTIdanum_def d(2) read_labeltable_no_labels
    using parse_emitted[OF e d', of E None]
    by (simp add: d find_coords_faces_emitted[OF e] m)
  with i show ?thesis by blast
qed

section \<open>The round trip of a surface\<close>

lemma incidence_slots:
  assumes "vt_num vt = int (length inc)" "vt_f vt = map (\<lambda>p. int (fst p)) inc"
    "vt_n vt = map (\<lambda>p. int (snd p)) inc"
  shows "incidence vt = set (map (\<lambda>p. (int (fst p), int (snd p))) inc)"
  using assms by (simp add: incidence_def zip_map_map zip_same_conv_map)

text \<open>
  Claim C1. For every surface \<open>M\<close> with valid geometry and no ripped vertices,
  \<open>MRISwriteGIFTISurface\<close> returns an image, and \<open>mrisReadGIFTIdanum\<close>
  returns from this image a surface with the vertex positions and the face index triples of
  \<open>M\<close> (the positions are \<open>float\<close> values on both sides) and with the
  topology of \<open>M\<close>: every vertex has the same number of incident faces and the
  same set of (incident face, slot in this face) pairs as in \<open>M\<close>. The image goes
  from the one function to the other as it is: storing it belongs to the container library.
  The routines of the surface library that the read calls at its end are taken to leave the
  counts, the positions, the faces and the face and slot lists as they are.
\<close>

theorem surface_round_trip:
  assumes ok: "mesh_geometry E M" and topo: "topology_invariant M"
    and lib: "library_keeps_shape E"
  shows "\<exists>img M1 M'.
     MRISwriteGIFTISurface E M new_image out = Inr (img, M1) \<and>
     mrisReadGIFTIdanum E fn img mris_in (- 1) outmri frame = Some (Inr (M', outmri, frame)) \<and>
     nvertices M' = nvertices M \<and> nfaces M' = nfaces M \<and>
     map position (vertices M') = map position (vertices M) \<and>
     faces M' = faces M \<and>
     (\<forall>v<nat (nvertices M).
        vt_num (vertices_topology M' ! v) = vt_num (vertices_topology M ! v) \<and>
        incidence (vertices_topology M' ! v) = incidence (vertices_topology M ! v))"
proof -
  from emit_surface[OF ok, of out] obtain img M1 c f where
    w: "MRISwriteGIFTISurface E M new_image out = Inr (img, M1)"
    and d: "darray img = [c, f]" "labeltable img = no_labels" and e: "emitted M c f" by blast
  from read_emitted[OF ok e lib d, of fn mris_in outmri frame] obtain m' s m where
    r: "mrisReadGIFTIdanum E fn img mris_in (- 1) outmri frame = Some (Inr (m', outmri, frame))"
    and vs: "verts_inv M (nat (nvertices M)) s" and sl: "slots_inv M s (nat (nvertices M)) m"
    and sh: "shape m' = shape m"
    by blast
  have lv: "length (vertices M) = nat (nvertices M)" using ok by (simp add: mesh_geometry_def)
  have pos: "map position (vertices m) = map position (vertices M)"
  proof (rule nth_equalityI)
    show "length (map position (vertices m)) = length (map position (vertices M))"
      using vs sl lv by (simp add: verts_inv_def slots_inv_def)
  next
    fix i assume "i < length (map position (vertices m))"
    then have "i < nat (nvertices M)" using vs sl by (simp add: verts_inv_def slots_inv_def)
    then show "map position (vertices m) ! i = map position (vertices M) ! i"
      using vs sl lv by (simp add: verts_inv_def slots_inv_def)
  qed
  have t: "\<forall>v<nat (nvertices M).
        vt_num (vertices_topology m ! v) = vt_num (vertices_topology M ! v) \<and>
        incidence (vertices_topology m ! v) = incidence (vertices_topology M ! v)"
  proof (intro allI impI)
    fix v assume v: "v < nat (nvertices M)"
    from topo v have tm: "vt_num (vertices_topology M ! v) = int (length (incident_slots (faces M) v))"
      "incidence (vertices_topology M ! v)
         = set (map (\<lambda>p. (int (fst p), int (snd p))) (incident_slots (faces M) v))"
      by (simp_all add: topology_invariant_def list_all_iff)
    from sl v have "incidence (vertices_topology m ! v)
         = set (map (\<lambda>p. (int (fst p), int (snd p))) (incident_slots (faces M) v))"
      by (intro incidence_slots) (simp_all add: slots_inv_def)
    with tm sl v show "vt_num (vertices_topology m ! v) = vt_num (vertices_topology M ! v) \<and>
        incidence (vertices_topology m ! v) = incidence (vertices_topology M ! v)"
      by (simp add: slots_inv_def)
  qed
  from sh have "nvertices m' = nvertices m" "nfaces m' = nfaces m"
    "map position (vertices m') = map position (vertices m)" "faces m' = faces m"
    "vertices_topology m' = vertices_topology m"
    by (simp_all add: shape_def)
  with w r pos t sl show ?thesis by (simp add: slots_inv_def)
qed

text \<open>
  The example surface: it satisfies both hypotheses, and the surface read back from its
  image has its faces, positions and topology records.
\<close>

lemma square_mesh_geometry: "mesh_geometry example_env square_mesh"
  by code_simp

lemma square_mesh_topology: "topology_invariant square_mesh"
  by code_simp

lemma square_mesh_read_back:
  "(case MRISwriteGIFTISurface example_env square_mesh new_image ''lh.white.gii'' of
      Inl e \<Rightarrow> None
    | Inr (img, M1) \<Rightarrow>
        map_option (map_sum id (\<lambda>p. (faces (fst p), map position (vertices (fst p)),
                                       vertices_topology (fst p))))
          (mrisReadGIFTIdanum example_env ''lh.white.gii'' img None (- 1) None 0))
   = Some (Inr ([\<lparr>face_v = [0, 1, 2]\<rparr>, \<lparr>face_v = [0, 2, 3]\<rparr>],
                [(0, 0, 0), (1, 0, 0), (1, 1 / 2, 0), (0, 1 / 2, - 3)],
                [\<lparr>vt_num = 2, vt_f = [0, 1], vt_n = [0, 0]\<rparr>,
                 \<lparr>vt_num = 1, vt_f = [0], vt_n = [1]\<rparr>,
                 \<lparr>vt_num = 2, vt_f = [0, 1], vt_n = [2, 1]\<rparr>,
                 \<lparr>vt_num = 1, vt_f = [1], vt_n = [2]\<rparr>]))"
  by code_simp

lemma example_library_shape: "library_keeps_shape example_env"
  by (simp add: library_keeps_shape_def example_env_def)

theorem surface_round_trip_witness:
  "mesh_geometry example_env square_mesh \<and> topology_invariant square_mesh \<and>
   library_keeps_shape example_env \<and>
   (\<exists>img M1 M'.
      MRISwriteGIFTISurface example_env square_mesh new_image ''lh.white.gii'' = Inr (img, M1) \<and>
      mrisReadGIFTIdanum example_env ''lh.white.gii'' img None (- 1) None 0
        = Some (Inr (M', None, 0)) \<and>
      nvertices M' = 4 \<and> nfaces M' = 2 \<and>
      map position (vertices M') = [(0, 0, 0), (1, 0, 0), (1, 1 / 2, 0), (0, 1 / 2, - 3)] \<and>
      faces M' = [\<lparr>face_v = [0, 1, 2]\<rparr>, \<lparr>face_v = [0, 2, 3]\<rparr>] \<and>
      vt_num (vertices_topology M' ! 0) = 2 \<and>
      incidence (vertices_topology M' ! 0) = {(0, 0), (1, 0)} \<and>
      vt_num (vertices_topology M' ! 2) = 2 \<and>
      incidence (vertices_topology M' ! 2) = {(0, 2), (1, 1)})"
proof -
  from surface_round_trip[OF square_mesh_geometry square_mesh_topology example_library_shape,
      of "''lh.white.gii''" "''lh.white.gii''" None None 0]
  obtain img M1 M' where
    w: "MRISwriteGIFTISurface example_env square_mesh new_image ''lh.white.gii'' = Inr (img, M1)"
    and r: "mrisReadGIFTIdanum example_env ''lh.white.gii'' img None (- 1) None 0
              = Some (Inr (M', None, 0))"
    and g: "nvertices M' = nvertices square_mesh" "nfaces M' = nfaces square_mesh"
      "map position (vertices M') = map position (vertices square_mesh)"
      "faces M' = faces square_mesh"
    and t: "\<forall>v<nat (nvertices square_mesh).
        vt_num (vertices_topology M' ! v) = vt_num (vertices_topology square_mesh ! v) \<and>
        incidence (vertices_topology M' ! v) = incidence (vertices_topology square_mesh ! v)"
    by blast
  have n: "nat (nvertices square_mesh) = 4" by (simp add: square_mesh_def MRISalloc_def)
  from t n have t0: "vt_num (vertices_topology M' ! 0) = vt_num (vertices_topology square_mesh ! 0)"
    "incidence (vertices_topology M' ! 0) = incidence (vertices_topology square_mesh ! 0)"
    and t2: "vt_num (vertices_topology M' ! 2) = vt_num (vertices_topology square_mesh ! 2)"
    "incidence (vertices_topology M' ! 2) = incidence (vertices_topology square_mesh ! 2)"
    by simp_all
  have "nvertices M' = 4" "nfaces M' = 2"
    "map position (vertices M') = [(0, 0, 0), (1, 0, 0), (1, 1 / 2, 0), (0, 1 / 2, - 3)]"
    "faces M' = [\<lparr>face_v = [0, 1, 2]\<rparr>, \<lparr>face_v = [0, 2, 3]\<rparr>]"
    "vt_num (vertices_topology M' ! 0) = 2"
    "incidence (vertices_topology M' ! 0) = {(0, 0), (1, 0)}"
    "vt_num (vertices_topology M' ! 2) = 2"
    "incidence (vertices_topology M' ! 2) = {(0, 2), (1, 1)}"
    unfolding g t0 t2
    by (auto simp: square_mesh_def MRISalloc_def position_def zero_vertex_def incidence_def)
  then have "\<exists>img M1 M'.
      MRISwriteGIFTISurface example_env square_mesh new_image ''lh.white.gii'' = Inr (img, M1) \<and>
      mrisReadGIFTIdanum example_env ''lh.white.gii'' img None (- 1) None 0
        = Some (Inr (M', None, 0)) \<and>
      nvertices M' = 4 \<and> nfaces M' = 2 \<and>
      map position (vertices M') = [(0, 0, 0), (1, 0, 0), (1, 1 / 2, 0), (0, 1 / 2, - 3)] \<and>
      faces M' = [\<lparr>face_v = [0, 1, 2]\<rparr>, \<lparr>face_v = [0, 2, 3]\<rparr>] \<and>
      vt_num (vertices_topology M' ! 0) = 2 \<and>
      incidence (vertices_topology M' ! 0) = {(0, 0), (1, 0)} \<and>
      vt_num (vertices_topology M' ! 2) = 2 \<and>
      incidence (vertices_topology M' ! 2) = {(0, 2), (1, 1)}"
    using w r by (intro exI[of _ img] exI[of _ M1] exI[of _ M']) (simp only: simp_thms)
  with square_mesh_geometry square_mesh_topology example_library_shape show ?thesis
    by (simp only: simp_thms)
qed

section \<open>The volume geometry of a surface that is read\<close>















end
